theory Spec2Isabelle
  imports Complex_Main "HOL-Library.Log_Nat"
begin

section \<open>Python values and exceptions\<close>

text \<open>
  The module \<^verbatim>\<open>matplotlib_ephys/plotting.py\<close> is modelled function by function.
  A Python exception is a value of \<open>error\<close>; a function that can raise returns
  \<open>error + 'a\<close>, with \<open>Inl\<close> for the exception. The string carried by an exception
  is its message (for \<open>AttributeError\<close>: the type of the receiver and the attribute).
\<close>

datatype error =
    ValueError string
  | TypeError string
  | AttributeError string string
  | IndexError string
  | OverflowError string
  | InvalidOperation

definition bind_result :: "error + 'a \<Rightarrow> ('a \<Rightarrow> error + 'b) \<Rightarrow> error + 'b" where
  "bind_result r f = (case r of Inl e \<Rightarrow> Inl e | Inr x \<Rightarrow> f x)"

subsection \<open>Floats\<close>

text \<open>
  A Python \<^verbatim>\<open>float\<close> (and a numpy \<^verbatim>\<open>float64\<close>) is an IEEE 754 binary64 number. A
  finite one is given by its exact value, a rational \<open>m * 2 ^ q\<close> with
  \<open>\<bar>m\<bar> < 2 ^ 53\<close> and \<open>- 1074 \<le> q \<le> 971\<close>. The sign of a zero is not kept: the
  model has one zero, where Python writes \<^verbatim>\<open>-0.0\<close> and \<^verbatim>\<open>0.0\<close> differently. Every
  arithmetic operation computes the exact result and rounds it to the nearest double,
  ties to the even significand, overflowing to an infinity.
\<close>

datatype double = Finite rat | PosInf | NegInf | NaN

text \<open>\<open>ilog2 a\<close> is the binary exponent \<open>\<lfloor>log\<^sub>2 a\<rfloor>\<close> of a positive rational.\<close>

definition ilog2 :: "rat \<Rightarrow> int" where
  "ilog2 a = (let (p, q) = quotient_of a; d = bitlen p - bitlen q
              in if 2 powi d \<le> a then d else d - 1)"

definition round_half_even :: "rat \<Rightarrow> int" where
  "round_half_even x =
     (let f = \<lfloor>x\<rfloor>; r = x - of_int f
      in if r < 1 / 2 then f else if 1 / 2 < r then f + 1 else if even f then f else f + 1)"

text \<open>
  The spacing of the doubles around \<open>a\<close> is \<open>2 ^ quantum a\<close>: 53 significant bits,
  and no exponent below that of the subnormal numbers.
\<close>

definition quantum :: "rat \<Rightarrow> int" where
  "quantum a = max (ilog2 a - 52) (- 1074)"

definition round_mag :: "rat \<Rightarrow> rat" where
  "round_mag a = of_int (round_half_even (a / 2 powi quantum a)) * 2 powi quantum a"

definition round_pos :: "rat \<Rightarrow> double" where
  "round_pos a = (let v = round_mag a in if 2 powi 1024 \<le> v then PosInf else Finite v)"

fun fneg :: "double \<Rightarrow> double" where
  "fneg (Finite a) = Finite (- a)"
| "fneg PosInf = NegInf"
| "fneg NegInf = PosInf"
| "fneg NaN = NaN"

definition round_double :: "rat \<Rightarrow> double" where
  "round_double r =
     (if r = 0 then Finite 0 else if 0 < r then round_pos r else fneg (round_pos (- r)))"

text \<open>A value of type \<open>double\<close> stands for a float when its rational is one a double has.\<close>

fun is_double :: "double \<Rightarrow> bool" where
  "is_double (Finite a) = (round_double a = Finite a)"
| "is_double _ = True"

fun is_finite :: "double \<Rightarrow> bool" where
  "is_finite (Finite a) = True"
| "is_finite _ = False"

fun fadd :: "double \<Rightarrow> double \<Rightarrow> double" where
  "fadd (Finite a) (Finite b) = round_double (a + b)"
| "fadd NaN _ = NaN"
| "fadd _ NaN = NaN"
| "fadd PosInf NegInf = NaN"
| "fadd NegInf PosInf = NaN"
| "fadd PosInf _ = PosInf"
| "fadd NegInf _ = NegInf"
| "fadd (Finite a) PosInf = PosInf"
| "fadd (Finite a) NegInf = NegInf"

definition fsub :: "double \<Rightarrow> double \<Rightarrow> double" where
  "fsub x y = fadd x (fneg y)"

fun fmul :: "double \<Rightarrow> double \<Rightarrow> double" where
  "fmul (Finite a) (Finite b) = round_double (a * b)"
| "fmul NaN _ = NaN"
| "fmul _ NaN = NaN"
| "fmul PosInf (Finite b) = (if b = 0 then NaN else if 0 < b then PosInf else NegInf)"
| "fmul NegInf (Finite b) = (if b = 0 then NaN else if 0 < b then NegInf else PosInf)"
| "fmul (Finite a) PosInf = (if a = 0 then NaN else if 0 < a then PosInf else NegInf)"
| "fmul (Finite a) NegInf = (if a = 0 then NaN else if 0 < a then NegInf else PosInf)"
| "fmul PosInf PosInf = PosInf"
| "fmul PosInf NegInf = NegInf"
| "fmul NegInf PosInf = NegInf"
| "fmul NegInf NegInf = PosInf"

fun fabs :: "double \<Rightarrow> double" where
  "fabs (Finite a) = Finite \<bar>a\<bar>"
| "fabs PosInf = PosInf"
| "fabs NegInf = PosInf"
| "fabs NaN = NaN"

text \<open>The comparisons \<^verbatim>\<open><\<close> and \<^verbatim>\<open><=\<close> of floats; both are false on a NaN.\<close>

fun flt :: "double \<Rightarrow> double \<Rightarrow> bool" where
  "flt (Finite a) (Finite b) = (a < b)"
| "flt NaN _ = False"
| "flt _ NaN = False"
| "flt PosInf _ = False"
| "flt _ NegInf = False"
| "flt NegInf _ = True"
| "flt (Finite a) PosInf = True"

fun fle :: "double \<Rightarrow> double \<Rightarrow> bool" where
  "fle (Finite a) (Finite b) = (a \<le> b)"
| "fle NaN _ = False"
| "fle _ NaN = False"
| "fle NegInf _ = True"
| "fle _ PosInf = True"
| "fle PosInf _ = False"
| "fle (Finite a) NegInf = False"

text \<open>A float literal of the source denotes the double nearest to its decimal value.\<close>

definition float_lit :: "rat \<Rightarrow> double" where
  "float_lit r = round_double r"

subsection \<open>Numbers\<close>

text \<open>
  The candidate lengths are written partly as floats (\<^verbatim>\<open>0.1\<close>) and partly as ints
  (\<^verbatim>\<open>1\<close>, \<^verbatim>\<open>10\<close>), and \<^verbatim>\<open>min\<close> returns the list element itself, so a bar length
  is a number of either kind. In mixed arithmetic Python converts the int to a float
  first and raises \<^verbatim>\<open>OverflowError\<close> when the int has no finite double.
\<close>

datatype pynum = PyInt int | PyFloat double

fun as_float :: "pynum \<Rightarrow> error + double" where
  "as_float (PyFloat d) = Inr d"
| "as_float (PyInt n) =
     (case round_double (of_int n) of
        Finite v \<Rightarrow> Inr (Finite v)
      | _ \<Rightarrow> Inl (OverflowError ''int too large to convert to float''))"


text \<open>
  Python compares an int with a float by their exact values; \<open>py_le a b\<close> is
  \<^verbatim>\<open>a <= b\<close>.
\<close>

fun exact_value :: "pynum \<Rightarrow> double" where
  "exact_value (PyInt n) = Finite (of_int n)"
| "exact_value (PyFloat d) = d"

definition py_le :: "pynum \<Rightarrow> pynum \<Rightarrow> bool" where
  "py_le a b = fle (exact_value a) (exact_value b)"

definition py_lt :: "pynum \<Rightarrow> pynum \<Rightarrow> bool" where
  "py_lt a b = flt (exact_value a) (exact_value b)"

subsection \<open>The builtin \<^verbatim>\<open>min\<close> with a key\<close>

text \<open>
  \<^verbatim>\<open>min(xs, key=f)\<close> keeps the first element and replaces it by a later one only when
  the later key is strictly smaller (\<^verbatim>\<open><\<close>); an exception of the key function is
  passed on, and the empty list raises \<^verbatim>\<open>ValueError\<close>.
\<close>

fun min_loop :: "('a \<Rightarrow> error + double) \<Rightarrow> 'a \<Rightarrow> double \<Rightarrow> 'a list \<Rightarrow> error + 'a" where
  "min_loop key best kbest [] = Inr best"
| "min_loop key best kbest (x # xs) =
     (case key x of
        Inl e \<Rightarrow> Inl e
      | Inr k \<Rightarrow> if flt k kbest then min_loop key x k xs else min_loop key best kbest xs)"

fun py_min :: "('a \<Rightarrow> error + double) \<Rightarrow> 'a list \<Rightarrow> error + 'a" where
  "py_min key [] = Inl (ValueError ''min() arg is an empty sequence'')"
| "py_min key (x # xs) =
     (case key x of Inl e \<Rightarrow> Inl e | Inr k \<Rightarrow> min_loop key x k xs)"

section \<open>Styles\<close>

text \<open>
  \<^verbatim>\<open>style.py\<close> is not among the sources; a style is the bundle of attributes that
  \<^verbatim>\<open>plotting.py\<close> reads from it, and the two presets \<^verbatim>\<open>ExploreStyle()\<close> and
  \<^verbatim>\<open>PaperStyle()\<close> are parameters of \<open>define_style\<close>.
\<close>

record style =
  scale_bars :: bool
  show_spines :: bool
  shared_axis :: bool
  title_fontsize :: pynum
  label_fontsize :: pynum
  scale_bars_fontsize :: pynum
  linewidth :: pynum
  voltage_color :: string
  voltage_alpha :: pynum
  current_color :: string
  current_alpha :: pynum

text \<open>
  The argument \<^verbatim>\<open>style\<close> is either a \<^verbatim>\<open>str\<close> or any other object
  (\<^verbatim>\<open>isinstance(style, str)\<close> decides).
\<close>

datatype 's style_arg = StyleName string | StyleObject 's

definition define_style :: "'s \<Rightarrow> 's \<Rightarrow> 's style_arg \<Rightarrow> error + 's" where
  "define_style ExploreStyle PaperStyle style =
     (case style of
        StyleName name \<Rightarrow>
          (if name = ''explore'' then Inr ExploreStyle
           else if name = ''paper'' then Inr PaperStyle
           else Inl (ValueError (''Unknown style: '' @ name)))
      | StyleObject obj \<Rightarrow> Inr obj)"


section \<open>Axes\<close>

text \<open>
  A matplotlib \<^verbatim>\<open>Axes\<close> is modelled by the attributes the module reads and writes:
  the view limits (\<^verbatim>\<open>get_xlim\<close>, \<^verbatim>\<open>get_ylim\<close>), the lines added by \<^verbatim>\<open>plot\<close>, the
  texts added by \<^verbatim>\<open>text\<close>, the visibility of the spines, the ticks and the axis
  labels. matplotlib's own validation and rendering are outside the model.
\<close>

record line2d =
  xdata :: "double list"
  ydata :: "double list"
  line_color :: string
  line_alpha :: "pynum option"
  line_width :: pynum
  clip_on :: bool

record text_obj =
  text_position :: "double \<times> double"
  text_string :: string
  horizontalalignment :: string
  verticalalignment :: string
  text_fontsize :: pynum

record axes =
  xlim :: "double \<times> double"
  ylim :: "double \<times> double"
  ax_lines :: "line2d list"
  ax_texts :: "text_obj list"
  spines_visible :: bool
  xticks :: "double list option"
  yticks :: "double list option"
  xlabel :: "(string \<times> pynum) option"
  ylabel :: "(string \<times> pynum) option"

text \<open>A new axes: view limits \<open>(0, 1)\<close>, nothing drawn, automatic ticks.\<close>

definition new_axes :: axes where
  "new_axes =
     \<lparr>xlim = (Finite 0, Finite 1), ylim = (Finite 0, Finite 1), ax_lines = [], ax_texts = [],
      spines_visible = True, xticks = None, yticks = None, xlabel = None, ylabel = None\<rparr>"

section \<open>Scale-bar lengths\<close>

definition valid_time_bar_length :: "pynum list" where
  "valid_time_bar_length =
     [PyFloat (float_lit (1 / 10)), PyFloat (float_lit (5 / 10)), PyInt 1, PyInt 2, PyInt 5,
      PyInt 10, PyInt 20, PyInt 50, PyInt 100, PyInt 200, PyInt 500, PyInt 1000, PyInt 2000,
      PyInt 5000]"

definition valid_voltage_bar_length :: "pynum list" where
  "valid_voltage_bar_length =
     [PyFloat (float_lit (1 / 10)), PyFloat (float_lit (5 / 10)), PyInt 1, PyInt 2, PyInt 5,
      PyInt 10, PyInt 20, PyInt 50, PyInt 100]"

definition valid_current_bar_length :: "pynum list" where
  "valid_current_bar_length =
     [PyFloat (float_lit (1 / 1000)), PyFloat (float_lit (5 / 1000)),
      PyFloat (float_lit (1 / 100)), PyFloat (float_lit (5 / 100)),
      PyFloat (float_lit (1 / 10)), PyFloat (float_lit (5 / 10)), PyInt 1, PyInt 5, PyInt 10,
      PyInt 50]"

text \<open>The key \<^verbatim>\<open>lambda x: abs(x - target_length)\<close>.\<close>

definition distance_key :: "double \<Rightarrow> pynum \<Rightarrow> error + double" where
  "distance_key target_length x =
     bind_result (as_float x) (\<lambda>v. Inr (fabs (fsub v target_length)))"

text \<open>
  The expression \<^verbatim>\<open>min(valid, key=lambda x: abs(x - target_length))\<close>, which the
  function evaluates for the time bar and for the voltage or current bar.
\<close>

definition closest_length :: "pynum list \<Rightarrow> double \<Rightarrow> error + pynum" where
  "closest_length valid target_length = py_min (distance_key target_length) valid"

definition compute_scale_bar_length :: "axes \<Rightarrow> bool \<Rightarrow> double \<Rightarrow> error + pynum \<times> pynum" where
  "compute_scale_bar_length axis is_current bar_length =
     (let time_limit = xlim axis;
          target_length = fmul bar_length (fsub (snd time_limit) (fst time_limit))
      in bind_result (closest_length valid_time_bar_length target_length)
           (\<lambda>time_bar_length.
              let IV_limit = ylim axis;
                  target_length = fmul bar_length (fsub (snd IV_limit) (fst IV_limit))
              in bind_result
                   (if is_current then closest_length valid_current_bar_length target_length
                    else closest_length valid_voltage_bar_length target_length)
                   (\<lambda>IV_bar_length. Inr (time_bar_length, IV_bar_length))))"

section \<open>Scale-bar position\<close>

definition compute_scale_bar_position :: "axes \<Rightarrow> pynum \<Rightarrow> bool \<Rightarrow> error + double \<times> double" where
  "compute_scale_bar_position axis time_bar_length is_current =
     (let time_limit = xlim axis; IV_limit = ylim axis
      in bind_result (as_float time_bar_length)
           (\<lambda>t.
              let x_pos = fsub (fst time_limit) (fmul (float_lit (12 / 10)) t);
                  y_pos = (if is_current
                           then fadd (fst IV_limit)
                                  (fmul (float_lit (3 / 10)) (fsub (snd IV_limit) (fst IV_limit)))
                           else fst IV_limit)
              in Inr (x_pos, y_pos)))"


section \<open>Formatting a number\<close>

subsection \<open>\<^verbatim>\<open>str\<close> of an int and of a float\<close>

fun digits_of :: "nat \<Rightarrow> string" where
  "digits_of n =
     (if n < 10 then [''0123456789'' ! n]
      else digits_of (n div 10) @ [''0123456789'' ! (n mod 10)])"

declare digits_of.simps [simp del]

definition str_int :: "int \<Rightarrow> string" where
  "str_int n = (if n < 0 then CHR ''-'' # digits_of (nat (- n)) else digits_of (nat n))"

text \<open>
  \<^verbatim>\<open>str\<close> of a float is its \<^verbatim>\<open>repr\<close>: the shortest decimal string that rounds back to
  the float, and among those of that length the one nearest its value, with an even
  last digit when two are equally near. For a positive
  \<open>a\<close>, \<open>decimal_point a\<close> is the \<open>k\<close> with \<open>10 ^ (k - 1) \<le> a < 10 ^ k\<close>, and
  \<open>shortest_digits\<close> tries 1, 2, ... significant digits, at each precision the two
  decimals next to \<open>a\<close>; 17 digits always round back.
\<close>

definition decimal_point :: "rat \<Rightarrow> int" where
  "decimal_point a =
     (if 1 \<le> a then int (length (digits_of (nat \<lfloor>a\<rfloor>)))
      else 1 - int (length (digits_of (nat (\<lceil>1 / a\<rceil> - 1)))))"

definition round_trips :: "rat \<Rightarrow> int \<Rightarrow> int \<Rightarrow> bool" where
  "round_trips a c e = (round_double (of_int c * 10 powi e) = Finite a)"

fun shortest_digits :: "nat \<Rightarrow> nat \<Rightarrow> rat \<Rightarrow> int \<times> int" where
  "shortest_digits 0 n a =
     (let e = decimal_point a - int n in (round_half_even (a / 10 powi e), e))"
| "shortest_digits (Suc fuel) n a =
     (let e = decimal_point a - int n; s = a / 10 powi e; lo = \<lfloor>s\<rfloor>; hi = lo + 1
      in if round_trips a lo e \<and> round_trips a hi e
         then (if s - of_int lo < of_int hi - s then (lo, e)
               else if of_int hi - s < s - of_int lo then (hi, e)
               else if even lo then (lo, e) else (hi, e))
         else if round_trips a lo e then (lo, e)
         else if round_trips a hi e then (hi, e)
         else shortest_digits fuel (Suc n) a)"

fun strip_zeros :: "nat \<Rightarrow> int \<Rightarrow> nat \<times> int" where
  "strip_zeros c e =
     (if c \<noteq> 0 \<and> c mod 10 = 0 then strip_zeros (c div 10) (e + 1) else (c, e))"

declare strip_zeros.simps [simp del]

text \<open>
  The digits \<open>ds\<close> with the decimal point after the first \<open>decpt\<close> of them:
  \<^verbatim>\<open>repr\<close> writes an exponent when \<open>decpt \<le> - 4\<close> or \<open>decpt > 16\<close>, and otherwise a
  plain decimal, with \<^verbatim>\<open>.0\<close> added to a whole number.
\<close>

definition repr_exponent :: "int \<Rightarrow> string" where
  "repr_exponent x =
     (let ds = digits_of (nat \<bar>x\<bar>)
      in CHR ''e'' # (if x < 0 then CHR ''-'' else CHR ''+'')
           # (if length ds < 2 then CHR ''0'' # ds else ds))"

definition repr_layout :: "string \<Rightarrow> int \<Rightarrow> string" where
  "repr_layout ds decpt =
     (if decpt \<le> - 4 \<or> 16 < decpt
      then hd ds # (if length ds = 1 then [] else CHR ''.'' # tl ds) @ repr_exponent (decpt - 1)
      else if decpt \<le> 0 then ''0.'' @ replicate (nat (- decpt)) CHR ''0'' @ ds
      else if int (length ds) \<le> decpt
        then ds @ replicate (nat decpt - length ds) CHR ''0'' @ ''.0''
      else take (nat decpt) ds @ CHR ''.'' # drop (nat decpt) ds)"

definition repr_positive :: "rat \<Rightarrow> string" where
  "repr_positive a =
     (let (c, e) = shortest_digits 16 1 a; (c', e') = strip_zeros (nat c) e;
          ds = digits_of c'
      in repr_layout ds (int (length ds) + e'))"

fun str_float :: "double \<Rightarrow> string" where
  "str_float NaN = ''nan''"
| "str_float PosInf = ''inf''"
| "str_float NegInf = ''-inf''"
| "str_float (Finite a) =
     (if a = 0 then ''0.0''
      else if a < 0 then CHR ''-'' # repr_positive (- a)
      else repr_positive a)"

fun py_str :: "pynum \<Rightarrow> string" where
  "py_str (PyInt n) = str_int n"
| "py_str (PyFloat d) = str_float d"

subsection \<open>\<^verbatim>\<open>Decimal\<close>\<close>

text \<open>
  A \<^verbatim>\<open>decimal.Decimal\<close> is a sign, a coefficient and an exponent, or an infinity, or a
  NaN. The constructor reads the strings that \<^verbatim>\<open>str\<close> gives for an int or a float:
  an optional sign, then \<^verbatim>\<open>inf\<close>, \<^verbatim>\<open>nan\<close>, or digits with an optional fraction and an
  optional exponent. The context is the default one: 28 digits, rounding half to even;
  its exponent limits (\<open>\<plusminus> 999999\<close>) are far from the exponent of any number's string
  and are left out.
\<close>

datatype decimal = Dec bool nat int | DecInf bool | DecNaN

definition is_digit :: "char \<Rightarrow> bool" where
  "is_digit c = (c \<in> set ''0123456789'')"

definition nat_of_digits :: "string \<Rightarrow> nat" where
  "nat_of_digits ds = foldl (\<lambda>a c. 10 * a + (of_char c - 48)) 0 ds"

definition split_sign :: "string \<Rightarrow> bool \<times> string" where
  "split_sign s =
     (case s of
        [] \<Rightarrow> (False, s)
      | c # r \<Rightarrow> if c = CHR ''-'' then (True, r) else if c = CHR ''+'' then (False, r)
                else (False, s))"

definition parse_exponent :: "string \<Rightarrow> int option" where
  "parse_exponent s =
     (let (neg, ds) = split_sign s
      in if ds \<noteq> [] \<and> list_all is_digit ds
         then Some (if neg then - int (nat_of_digits ds) else int (nat_of_digits ds))
         else None)"

definition Decimal :: "string \<Rightarrow> error + decimal" where
  "Decimal s =
     (let (sign, r) = split_sign s
      in if r = ''inf'' then Inr (DecInf sign)
         else if r = ''nan'' then Inr DecNaN
         else
           let ip = takeWhile is_digit r; r1 = dropWhile is_digit r;
               (fp, r2) = (case r1 of
                             [] \<Rightarrow> ([], [])
                           | c # t \<Rightarrow> if c = CHR ''.''
                                      then (takeWhile is_digit t, dropWhile is_digit t)
                                      else ([], r1))
           in if ip = [] \<and> fp = [] then Inl InvalidOperation
              else (case r2 of
                      [] \<Rightarrow> Inr (Dec sign (nat_of_digits (ip @ fp)) (- int (length fp)))
                    | c # t \<Rightarrow>
                        if c = CHR ''e'' \<or> c = CHR ''E''
                        then (case parse_exponent t of
                                None \<Rightarrow> Inl InvalidOperation
                              | Some x \<Rightarrow>
                                  Inr (Dec sign (nat_of_digits (ip @ fp)) (x - int (length fp))))
                        else Inl InvalidOperation))"

text \<open>The coefficient moved to exponent 0, rounded half to even.\<close>

definition rescale_0 :: "nat \<Rightarrow> int \<Rightarrow> nat" where
  "rescale_0 c e = nat (round_half_even (of_nat c * 10 powi e))"

fun to_integral :: "decimal \<Rightarrow> decimal" where
  "to_integral (Dec s c e) = (if 0 \<le> e then Dec s c e else Dec s (rescale_0 c e) 0)"
| "to_integral (DecInf s) = DecInf s"
| "to_integral DecNaN = DecNaN"

text \<open>\<^verbatim>\<open>==\<close> compares the values; a NaN is equal to nothing.\<close>

definition signed_value :: "bool \<Rightarrow> nat \<Rightarrow> int \<Rightarrow> rat" where
  "signed_value s c e = (if s then - (of_nat c * 10 powi e) else of_nat c * 10 powi e)"

fun dec_eq :: "decimal \<Rightarrow> decimal \<Rightarrow> bool" where
  "dec_eq (Dec s c e) (Dec s' c' e') = (signed_value s c e = signed_value s' c' e')"
| "dec_eq (DecInf s) (DecInf s') = (s = s')"
| "dec_eq _ _ = False"

text \<open>
  \<^verbatim>\<open>d.quantize(Decimal(1))\<close>: the value at exponent 0, and \<^verbatim>\<open>InvalidOperation\<close> for an
  infinity or when the result needs more than 28 digits.
\<close>

fun quantize_1 :: "decimal \<Rightarrow> error + decimal" where
  "quantize_1 DecNaN = Inr DecNaN"
| "quantize_1 (DecInf s) = Inl InvalidOperation"
| "quantize_1 (Dec s c e) =
     (if c = 0 then Inr (Dec s 0 0)
      else if 28 < int (length (digits_of c)) + e then Inl InvalidOperation
      else if 28 < length (digits_of (rescale_0 c e)) then Inl InvalidOperation
      else Inr (Dec s (rescale_0 c e) 0))"

text \<open>
  \<^verbatim>\<open>d.normalize()\<close>: rounded to the 28 digits of the context, then without the zeros
  at the end of the coefficient; a zero becomes \<open>0\<close> with exponent 0.
\<close>

definition to_precision :: "nat \<Rightarrow> int \<Rightarrow> nat \<times> int" where
  "to_precision c e =
     (let n = length (digits_of c)
      in if n \<le> 28 then (c, e)
         else let c' = nat (round_half_even (of_nat c / 10 ^ (n - 28)))
              in if c' = 10 ^ 28 then (10 ^ 27, e + int (n - 28) + 1)
                 else (c', e + int (n - 28)))"

fun normalize_decimal :: "decimal \<Rightarrow> decimal" where
  "normalize_decimal DecNaN = DecNaN"
| "normalize_decimal (DecInf s) = DecInf s"
| "normalize_decimal (Dec s c e) =
     (let (c1, e1) = to_precision c e
      in if c1 = 0 then Dec s 0 0
         else let (c2, e2) = strip_zeros c1 e1 in Dec s c2 e2)"

text \<open>
  \<^verbatim>\<open>str\<close> of a \<^verbatim>\<open>Decimal\<close>, which is also what an f-string writes for it: plain
  notation when the exponent is at most 0 and there are fewer than six zeros after the
  point, and otherwise one digit before the point and an exponent.
\<close>

fun decimal_str :: "decimal \<Rightarrow> string" where
  "decimal_str DecNaN = ''NaN''"
| "decimal_str (DecInf s) = (if s then ''-Infinity'' else ''Infinity'')"
| "decimal_str (Dec s c e) =
     (let ds = digits_of c; leftdigits = e + int (length ds);
          dotplace = (if e \<le> 0 \<and> - 6 < leftdigits then leftdigits else 1);
          intpart = (if dotplace \<le> 0 then ''0''
                     else if int (length ds) \<le> dotplace
                       then ds @ replicate (nat dotplace - length ds) CHR ''0''
                     else take (nat dotplace) ds);
          fracpart = (if dotplace \<le> 0 then CHR ''.'' # replicate (nat (- dotplace)) CHR ''0'' @ ds
                      else if int (length ds) \<le> dotplace then []
                      else CHR ''.'' # drop (nat dotplace) ds);
          ex = (if leftdigits = dotplace then []
                else CHR ''E'' # (if leftdigits - dotplace < 0 then CHR ''-'' else CHR ''+'')
                       # digits_of (nat \<bar>leftdigits - dotplace\<bar>))
      in (if s then ''-'' else []) @ intpart @ fracpart @ ex)"

subsection \<open>\<^verbatim>\<open>format_float\<close>\<close>

definition format_float :: "pynum \<Rightarrow> error + decimal" where
  "format_float f =
     bind_result (Decimal (py_str f))
       (\<lambda>d. if dec_eq d (to_integral d) then quantize_1 d else Inr (normalize_decimal d))"


section \<open>Programs that draw\<close>

text \<open>
  A function that draws changes the state of what it draws on and may raise: it maps a
  state to a result, or an exception, and the state reached. After an exception the
  state is the one at the \<^verbatim>\<open>raise\<close>.
\<close>

type_synonym ('s, 'a) prog = "'s \<Rightarrow> (error + 'a) \<times> 's"

definition returns :: "'a \<Rightarrow> ('s, 'a) prog" where
  "returns x s = (Inr x, s)"

definition raises :: "error \<Rightarrow> ('s, 'a) prog" where
  "raises e s = (Inl e, s)"

definition pure_result :: "error + 'a \<Rightarrow> ('s, 'a) prog" where
  "pure_result r s = (r, s)"

definition reads :: "('s \<Rightarrow> error + 'a) \<Rightarrow> ('s, 'a) prog" where
  "reads f s = (f s, s)"

definition modify :: "('s \<Rightarrow> 's) \<Rightarrow> ('s, unit) prog" where
  "modify f s = (Inr (), f s)"

definition then_do :: "('s, 'a) prog \<Rightarrow> ('a \<Rightarrow> ('s, 'b) prog) \<Rightarrow> ('s, 'b) prog" where
  "then_do m f s = (case m s of (Inl e, s') \<Rightarrow> (Inl e, s') | (Inr x, s') \<Rightarrow> f x s')"

subsection \<open>Drawing on an axes\<close>

text \<open>\<^verbatim>\<open>c * n\<close> and \<^verbatim>\<open>x + n\<close> for a float and a number of either kind.\<close>

definition mul_num :: "double \<Rightarrow> pynum \<Rightarrow> error + double" where
  "mul_num c n = bind_result (as_float n) (\<lambda>t. Inr (fmul c t))"

definition add_num :: "double \<Rightarrow> pynum \<Rightarrow> error + double" where
  "add_num x n = bind_result (as_float n) (\<lambda>t. Inr (fadd x t))"

text \<open>
  \<^verbatim>\<open>axis.plot\<close> adds a line and \<^verbatim>\<open>axis.text\<close> adds a text; the text object it returns
  is known by its place among the texts of the axes. \<^verbatim>\<open>set_position\<close> moves a text.
\<close>

definition add_line :: "line2d \<Rightarrow> axes \<Rightarrow> axes" where
  "add_line l ax = ax\<lparr>ax_lines := ax_lines ax @ [l]\<rparr>"

definition new_text :: "text_obj \<Rightarrow> (axes, nat) prog" where
  "new_text t ax = (Inr (length (ax_texts ax)), ax\<lparr>ax_texts := ax_texts ax @ [t]\<rparr>)"

definition set_position :: "nat \<Rightarrow> double \<times> double \<Rightarrow> axes \<Rightarrow> axes" where
  "set_position i p ax = ax\<lparr>ax_texts := (ax_texts ax)[i := (ax_texts ax ! i)\<lparr>text_position := p\<rparr>]\<rparr>"

text \<open>
  \<^verbatim>\<open>get_text_bbox(text, axis)\<close> redraws the canvas and returns the box of the text in
  data coordinates. What the renderer measures is not part of the module: it is a
  parameter, a function of the axes as drawn so far and of the text. The width and
  the height of a box are differences of its corners.
\<close>

record bbox =
  bbox_x0 :: double
  bbox_y0 :: double
  bbox_x1 :: double
  bbox_y1 :: double

definition bbox_width :: "bbox \<Rightarrow> double" where
  "bbox_width b = fsub (bbox_x1 b) (bbox_x0 b)"

definition bbox_height :: "bbox \<Rightarrow> double" where
  "bbox_height b = fsub (bbox_y1 b) (bbox_y0 b)"

type_synonym renderer = "axes \<Rightarrow> text_obj \<Rightarrow> bbox"

section \<open>Drawing the scale bars\<close>

text \<open>
  The end of \<^verbatim>\<open>draw_scale_bars\<close>, "move the labels such that they do not overlap with
  the scale bars": each label is measured and then moved.
\<close>

definition move_labels ::
  "renderer \<Rightarrow> double \<times> double \<Rightarrow> pynum \<Rightarrow> pynum \<Rightarrow> nat \<Rightarrow> nat \<Rightarrow> (axes, unit) prog" where
  "move_labels get_text_bbox scale_bar_origin time_bar_length IV_bar_length time_label iv_label =
     then_do (reads (\<lambda>ax. Inr (bbox_height (get_text_bbox ax (ax_texts ax ! time_label)))))
       (\<lambda>text_height.
     then_do (pure_result (mul_num (float_lit (5 / 10)) time_bar_length))
       (\<lambda>half_time.
     then_do (modify (set_position time_label
                (fadd (fst scale_bar_origin) half_time,
                 fsub (snd scale_bar_origin) (fmul (float_lit (18 / 10)) text_height))))
       (\<lambda>_.
     then_do (reads (\<lambda>ax. Inr (bbox_width (get_text_bbox ax (ax_texts ax ! iv_label)))))
       (\<lambda>text_length.
     then_do (pure_result (mul_num (float_lit (5 / 10)) IV_bar_length))
       (\<lambda>half_IV.
     modify (set_position iv_label
                (fsub (fst scale_bar_origin) (fmul (float_lit (13 / 10)) text_length),
                 fadd (snd scale_bar_origin) half_IV)))))))"

definition scale_bar_line :: "double list \<Rightarrow> double list \<Rightarrow> line2d" where
  "scale_bar_line xs ys =
     \<lparr>xdata = xs, ydata = ys, line_color = ''black'', line_alpha = None,
      line_width = PyInt 1, clip_on = False\<rparr>"

definition draw_scale_bars ::
  "style \<Rightarrow> style \<Rightarrow> renderer \<Rightarrow> bool \<Rightarrow> style style_arg \<Rightarrow> (axes, unit) prog" where
  "draw_scale_bars ExploreStyle PaperStyle get_text_bbox is_current style =
     then_do (pure_result (define_style ExploreStyle PaperStyle style))
       (\<lambda>style.
     then_do (reads (\<lambda>axis. compute_scale_bar_length axis is_current (float_lit (15 / 100))))
       (\<lambda>(time_bar_length, IV_bar_length).
     then_do (reads (\<lambda>axis. compute_scale_bar_position axis time_bar_length is_current))
       (\<lambda>scale_bar_origin.
     then_do (pure_result (add_num (fst scale_bar_origin) time_bar_length))
       (\<lambda>x_end.
     then_do (modify (add_line (scale_bar_line
                [fst scale_bar_origin, x_end] [snd scale_bar_origin, snd scale_bar_origin])))
       (\<lambda>_.
     then_do (pure_result (add_num (snd scale_bar_origin) IV_bar_length))
       (\<lambda>y_end.
     then_do (modify (add_line (scale_bar_line
                [fst scale_bar_origin, fst scale_bar_origin] [snd scale_bar_origin, y_end])))
       (\<lambda>_.
     then_do (pure_result (format_float time_bar_length))
       (\<lambda>d.
     then_do (new_text
                \<lparr>text_position = scale_bar_origin, text_string = decimal_str d @ '' ms'',
                 horizontalalignment = ''center'', verticalalignment = ''bottom'',
                 text_fontsize = scale_bars_fontsize style\<rparr>)
       (\<lambda>time_label.
     then_do (pure_result (format_float IV_bar_length))
       (\<lambda>d.
     then_do (new_text
                \<lparr>text_position = scale_bar_origin,
                 text_string = decimal_str d @ (if is_current then '' nA'' else '' mV''),
                 horizontalalignment = ''left'', verticalalignment = ''center'',
                 text_fontsize = scale_bars_fontsize style\<rparr>)
       (\<lambda>iv_label.
     move_labels get_text_bbox scale_bar_origin time_bar_length IV_bar_length
       time_label iv_label)))))))))))"


section \<open>Plotting a trace\<close>

subsection \<open>Figures, axes and series as Python sees them\<close>

text \<open>
  The canvas holds every axes and figure by number. A figure records what the module
  sets on it; an axes created by \<^verbatim>\<open>twinx\<close> shares the x limits of its parent.
\<close>

record figure =
  fig_size :: "(double \<times> double) option"
  fig_suptitle :: "(string \<times> pynum) option"
  fig_tight_layout :: bool

record canvas =
  axes_store :: "nat \<Rightarrow> axes"
  axes_figure :: "nat \<Rightarrow> nat"
  axes_twin :: "nat \<Rightarrow> nat option"
  axes_count :: nat
  figure_store :: "nat \<Rightarrow> figure"
  figure_count :: nat

text \<open>The canvas before anything is created.\<close>

definition empty_canvas :: canvas where
  "empty_canvas =
     \<lparr>axes_store = (\<lambda>_. new_axes), axes_figure = (\<lambda>_. 0), axes_twin = (\<lambda>_. None),
      axes_count = 0,
      figure_store = (\<lambda>_. \<lparr>fig_size = None, fig_suptitle = None, fig_tight_layout = False\<rparr>),
      figure_count = 0\<rparr>"

text \<open>
  The value of the variable \<^verbatim>\<open>axis\<close>: one \<^verbatim>\<open>Axes\<close>, a list of them, or a numpy
  array of them (what \<^verbatim>\<open>plt.subplots\<close> returns for several rows). Only an \<^verbatim>\<open>Axes\<close> has
  the drawing methods, and only the sequences have a length and items.
\<close>

datatype axis_value = AxesRef nat | AxesList "nat list" | AxesArray "nat list"

fun axes_method :: "string \<Rightarrow> axis_value \<Rightarrow> error + nat" where
  "axes_method name (AxesRef a) = Inr a"
| "axes_method name (AxesList _) = Inl (AttributeError ''list'' name)"
| "axes_method name (AxesArray _) = Inl (AttributeError ''numpy.ndarray'' name)"

fun none_method :: "string \<Rightarrow> nat option \<Rightarrow> error + nat" where
  "none_method name (Some a) = Inr a"
| "none_method name None = Inl (AttributeError ''NoneType'' name)"

fun py_len :: "axis_value \<Rightarrow> error + int" where
  "py_len (AxesRef a) = Inl (TypeError ''object of type Axes has no len()'')"
| "py_len (AxesList xs) = Inr (int (length xs))"
| "py_len (AxesArray xs) = Inr (int (length xs))"

definition list_index :: "'a list \<Rightarrow> int \<Rightarrow> error + 'a" where
  "list_index xs i =
     (if 0 \<le> i \<and> i < int (length xs) then Inr (xs ! nat i)
      else if i < 0 \<and> - int (length xs) \<le> i then Inr (xs ! nat (int (length xs) + i))
      else Inl (IndexError ''index out of range''))"

fun py_index :: "axis_value \<Rightarrow> int \<Rightarrow> error + nat" where
  "py_index (AxesRef a) i = Inl (TypeError ''Axes object is not subscriptable'')"
| "py_index (AxesList xs) i = list_index xs i"
| "py_index (AxesArray xs) i = list_index xs i"

text \<open>
  A series is a list or a numpy array of floats. Both can be indexed; only the array
  has \<^verbatim>\<open>min\<close> and \<^verbatim>\<open>max\<close>, which raise on an empty array and give NaN when a NaN is
  among the items.
\<close>

datatype series = PyList "double list" | NdArray "double list"

fun series_items :: "series \<Rightarrow> double list" where
  "series_items (PyList xs) = xs"
| "series_items (NdArray xs) = xs"

definition series_index :: "series \<Rightarrow> int \<Rightarrow> error + double" where
  "series_index xs i = list_index (series_items xs) i"

definition np_reduce :: "(double \<Rightarrow> double \<Rightarrow> bool) \<Rightarrow> double list \<Rightarrow> error + double" where
  "np_reduce better xs =
     (case xs of
        [] \<Rightarrow> Inl (ValueError ''zero-size array to reduction operation which has no identity'')
      | x # r \<Rightarrow> Inr (foldl (\<lambda>m y. if m = NaN then m else if y = NaN then y
                                    else if better y m then y else m) x r))"

fun series_min :: "series \<Rightarrow> error + double" where
  "series_min (PyList xs) = Inl (AttributeError ''list'' ''min'')"
| "series_min (NdArray xs) = np_reduce flt xs"

fun series_max :: "series \<Rightarrow> error + double" where
  "series_max (PyList xs) = Inl (AttributeError ''list'' ''max'')"
| "series_max (NdArray xs) = np_reduce (\<lambda>y m. flt m y) xs"

subsection \<open>The calls into matplotlib\<close>

text \<open>
  The library is modelled as far as the module calls it, with the checks it makes on
  the arguments the module passes: the size of a figure, the lengths of the data of a
  line, the width, the colour and the opacity of a line, and the limits of an axes.
  Which strings name a colour is the library's table; it is a parameter,
  \<open>is_color_like\<close>. The figures are created without a window, and the limits that a
  plot leaves to be computed from the data are not modelled: \<^verbatim>\<open>plot_trace\<close> sets both
  limits of an axes it has plotted on before anything reads them.
\<close>

definition on_axes :: "nat \<Rightarrow> (axes, 'a) prog \<Rightarrow> (canvas, 'a) prog" where
  "on_axes a p c =
     (case p (axes_store c a) of (r, ax') \<Rightarrow> (r, c\<lparr>axes_store := (axes_store c)(a := ax')\<rparr>))"

definition update_axes :: "nat \<Rightarrow> (axes \<Rightarrow> axes) \<Rightarrow> (canvas, unit) prog" where
  "update_axes a f = on_axes a (modify f)"

definition update_figure :: "nat \<Rightarrow> (figure \<Rightarrow> figure) \<Rightarrow> (canvas, unit) prog" where
  "update_figure g f =
     modify (\<lambda>c. c\<lparr>figure_store := (figure_store c)(g := f (figure_store c g))\<rparr>)"

text \<open>
  \<^verbatim>\<open>plt.subplots(n, 1, figsize=figsize)\<close> makes a figure, which refuses a size that is
  negative, infinite or NaN, then \<open>n\<close> new axes in it, and returns the figure with the
  axes itself when \<open>n = 1\<close>, and with the array of the axes otherwise. (The message of
  the first error goes on with the size, which is left out.)
\<close>

definition valid_figsize :: "double \<times> double \<Rightarrow> bool" where
  "valid_figsize figsize =
     (case figsize of
        (w, h) \<Rightarrow> is_finite w \<and> is_finite h \<and> \<not> flt w (Finite 0) \<and> \<not> flt h (Finite 0))"

definition subplots :: "int \<Rightarrow> double \<times> double \<Rightarrow> (canvas, nat \<times> axis_value) prog" where
  "subplots n figsize c =
     (if \<not> valid_figsize figsize
      then (Inl (ValueError ''figure size must be positive finite''), c)
      else
        let g = figure_count c; a = axes_count c;
            c1 = c\<lparr>figure_store := (figure_store c)
                     (g := \<lparr>fig_size = Some figsize, fig_suptitle = None, fig_tight_layout = False\<rparr>),
                   figure_count := Suc g\<rparr>
        in if n < 1 then (Inl (ValueError ''Number of rows must be a positive integer''), c1)
           else
             (Inr (g, if n = 1 then AxesRef a else AxesArray [a ..< a + nat n]),
              c1\<lparr>axes_store := (\<lambda>i. if a \<le> i \<and> i < a + nat n then new_axes else axes_store c i),
                 axes_figure := (\<lambda>i. if a \<le> i \<and> i < a + nat n then g else axes_figure c i),
                 axes_twin := (\<lambda>i. if a \<le> i \<and> i < a + nat n then None else axes_twin c i),
                 axes_count := a + nat n\<rparr>))"

definition twinx :: "nat \<Rightarrow> (canvas, nat) prog" where
  "twinx a c =
     (let b = axes_count c
      in (Inr b,
          c\<lparr>axes_store := (axes_store c)(b := new_axes\<lparr>xlim := xlim (axes_store c a)\<rparr>),
            axes_figure := (axes_figure c)(b := axes_figure c a),
            axes_twin := (axes_twin c)(b := Some a),
            axes_count := Suc b\<rparr>))"

text \<open>
  \<^verbatim>\<open>set_xlim\<close> and \<^verbatim>\<open>set_ylim\<close> refuse a limit that is infinite or NaN. They store the
  two limits in the order given, after the locator of the axis has widened an
  interval that is empty or too narrow for the size of its ends: this is
  \<^verbatim>\<open>matplotlib.transforms.nonsingular\<close> with the expander \<^verbatim>\<open>0.05\<close> and \<^verbatim>\<open>tiny = 1e-15\<close>.
  Its threshold \<^verbatim>\<open>(1e6 / tiny) * np.finfo(float).tiny\<close> is a product of two doubles,
  the quotient \<open>999999999999999868928\<close> and the smallest normal double \<open>2 ^ - 1022\<close>.
\<close>

definition expander :: double where
  "expander = float_lit (5 / 100)"

definition tiny :: double where
  "tiny = float_lit (1 / 10 ^ 15)"

definition nonsingular_threshold :: double where
  "nonsingular_threshold = fmul (Finite 999999999999999868928) (Finite (2 powi (- 1022)))"

definition nonsingular :: "double \<Rightarrow> double \<Rightarrow> double \<times> double" where
  "nonsingular v0 v1 =
     (if \<not> is_finite v0 \<or> \<not> is_finite v1 then (fneg expander, expander)
      else
        let vmin = (if flt v1 v0 then v1 else v0);
            vmax = (if flt v1 v0 then v0 else v1);
            maxabsvalue = (if flt (fabs vmin) (fabs vmax) then fabs vmax else fabs vmin)
        in if flt maxabsvalue nonsingular_threshold then (fneg expander, expander)
           else if fle (fsub vmax vmin) (fmul maxabsvalue tiny)
           then (if vmax = Finite 0 \<and> vmin = Finite 0 then (fneg expander, expander)
                 else (fsub vmin (fmul expander (fabs vmin)),
                       fadd vmax (fmul expander (fabs vmax))))
           else (vmin, vmax))"

definition view_limits :: "double \<times> double \<Rightarrow> error + double \<times> double" where
  "view_limits limits =
     (case limits of
        (v0, v1) \<Rightarrow>
          if \<not> is_finite v0 \<or> \<not> is_finite v1
          then Inl (ValueError ''Axis limits cannot be NaN or Inf'')
          else (case nonsingular v0 v1 of
                  (lo, hi) \<Rightarrow> Inr (if flt v1 v0 then (hi, lo) else (lo, hi))))"

definition set_ylim :: "nat \<Rightarrow> double \<times> double \<Rightarrow> (canvas, unit) prog" where
  "set_ylim a limits =
     then_do (pure_result (view_limits limits))
       (\<lambda>l. update_axes a (\<lambda>ax. ax\<lparr>ylim := l\<rparr>))"

text \<open>
  The x limits go on to the axes that share the x axis with this one (an axes and its
  twin), each of which is given the limits stored, through the same checks.
\<close>

definition shares_x :: "canvas \<Rightarrow> nat \<Rightarrow> nat \<Rightarrow> bool" where
  "shares_x c a b = (b = a \<or> axes_twin c b = Some a \<or> axes_twin c a = Some b)"

definition shared_with :: "canvas \<Rightarrow> nat \<Rightarrow> nat list" where
  "shared_with c a = filter (\<lambda>b. b \<noteq> a \<and> shares_x c a b) [0 ..< axes_count c]"

definition set_xlim :: "nat \<Rightarrow> double \<times> double \<Rightarrow> (canvas, unit) prog" where
  "set_xlim a limits =
     then_do (pure_result (view_limits limits))
       (\<lambda>l.
     then_do (update_axes a (\<lambda>ax. ax\<lparr>xlim := l\<rparr>))
       (\<lambda>_.
     then_do (reads (\<lambda>c. Inr (shared_with c a)))
       (\<lambda>others.
     if others = [] then returns ()
     else then_do (pure_result (view_limits l))
            (\<lambda>l'. modify (\<lambda>c. c\<lparr>axes_store :=
                     (\<lambda>b. if b \<in> set others then (axes_store c b)\<lparr>xlim := l'\<rparr>
                          else axes_store c b)\<rparr>)))))"

text \<open>
  \<^verbatim>\<open>axis.plot(x, y, color=..., alpha=..., linewidth=...)\<close> with two sequences of
  floats. The two must have the same length; the width is converted to a float; the
  colour must be one the library knows; the opacity must lie between 0 and 1. Then
  the line is added. (The message about the colour begins with the colour, which is
  left out.)
\<close>

definition plot_line ::
  "(string \<Rightarrow> bool) \<Rightarrow> nat \<Rightarrow> series \<Rightarrow> series \<Rightarrow> string \<Rightarrow> pynum \<Rightarrow> pynum \<Rightarrow> (canvas, unit) prog"
  where
  "plot_line is_color_like a xs ys color alpha lw =
     (if length (series_items xs) \<noteq> length (series_items ys)
      then raises (ValueError
             (''x and y must have same first dimension, but have shapes (''
              @ str_int (int (length (series_items xs))) @ '',) and (''
              @ str_int (int (length (series_items ys))) @ '',)''))
      else
        then_do (pure_result (as_float lw))
          (\<lambda>_.
        if \<not> is_color_like color then raises (ValueError ''is not a valid value for color'')
        else if \<not> (py_le (PyInt 0) alpha \<and> py_le alpha (PyInt 1))
        then raises (ValueError (''alpha ('' @ py_str alpha @ '') is outside 0-1 range''))
        else
          update_axes a (add_line
            \<lparr>xdata = series_items xs, ydata = series_items ys, line_color = color,
             line_alpha = Some alpha, line_width = lw, clip_on = True\<rparr>)))"

subsection \<open>The functions of the module\<close>

definition get_n_plots :: "int \<Rightarrow> int \<Rightarrow> bool \<Rightarrow> int" where
  "get_n_plots n_voltage_series n_current_series shared =
     (if shared \<or> n_current_series = 0 then n_voltage_series
      else n_voltage_series + n_current_series)"

definition compute_figsize :: "int \<Rightarrow> string option \<Rightarrow> style \<Rightarrow> error + double \<times> double" where
  "compute_figsize n_plots title style =
     bind_result (mul_num (float_lit (48 / 10)) (PyInt n_plots))
       (\<lambda>h0.
     bind_result (if scale_bars style then add_num (float_lit (64 / 10)) (PyInt 1)
                  else Inr (float_lit (64 / 10)))
       (\<lambda>w1.
     bind_result (if title \<noteq> None
                  then bind_result (mul_num (float_lit 1) (title_fontsize style))
                         (\<lambda>t. Inr (fadd h0 t))
                  else Inr h0)
       (\<lambda>h1.
     Inr (if show_spines style then (fadd w1 (float_lit 1), fadd h1 (float_lit 1))
          else (w1, h1)))))"

definition hide_spines :: "nat \<Rightarrow> (canvas, unit) prog" where
  "hide_spines a =
     update_axes a (\<lambda>ax. ax\<lparr>spines_visible := False, xticks := Some [], yticks := Some []\<rparr>)"

definition shape_mismatch :: error where
  "shape_mismatch =
     ValueError ''The number of axis provided is not the same as the number of series to plot.''"

text \<open>Lines 260 to 271: the figure and the axes to draw on.\<close>

definition figure_and_axes ::
  "int \<Rightarrow> string option \<Rightarrow> style \<Rightarrow> axis_value option \<Rightarrow> (canvas, nat \<times> axis_value) prog" where
  "figure_and_axes n_plots title style axis =
     (case axis of
        None \<Rightarrow>
          then_do (pure_result (compute_figsize n_plots title style))
            (\<lambda>figsize. subplots n_plots figsize)
      | Some axis \<Rightarrow>
          then_do (pure_result (py_len axis))
            (\<lambda>n. if n \<noteq> n_plots then raises shape_mismatch
                 else (case axis of
                         AxesList _ \<Rightarrow>
                           then_do (pure_result (py_index axis 0))
                             (\<lambda>a. reads (\<lambda>c. Inr (axes_figure c a, axis)))
                       | _ \<Rightarrow>
                           then_do (pure_result (axes_method ''get_figure'' axis))
                             (\<lambda>a. reads (\<lambda>c. Inr (axes_figure c a, axis))))))"

text \<open>Lines 273 to 278: the axes of the voltage and of the current.\<close>

definition voltage_and_current_axes ::
  "bool \<Rightarrow> style \<Rightarrow> axis_value \<Rightarrow> (canvas, axis_value \<times> nat option) prog" where
  "voltage_and_current_axes has_current style axis =
     (if has_current
      then (if shared_axis style
            then then_do (pure_result (axes_method ''twinx'' axis))
                   (\<lambda>a. then_do (twinx a) (\<lambda>v. returns (AxesRef v, Some a)))
            else then_do (pure_result (py_index axis 0))
                   (\<lambda>a. then_do (pure_result (py_index axis (- 1)))
                   (\<lambda>v. returns (AxesRef v, Some a))))
      else returns (axis, None))"

text \<open>Lines 296 to 304: the scale bars, or the labels of the axes.\<close>

definition bars_or_labels ::
  "style \<Rightarrow> style \<Rightarrow> renderer \<Rightarrow> style \<Rightarrow> nat \<Rightarrow> nat option \<Rightarrow> (canvas, unit) prog" where
  "bars_or_labels ExploreStyle PaperStyle get_text_bbox style axis_voltage axis_current =
     (if scale_bars style
      then then_do (on_axes axis_voltage
                      (draw_scale_bars ExploreStyle PaperStyle get_text_bbox False
                         (StyleObject style)))
             (\<lambda>_. case axis_current of
                     None \<Rightarrow> returns ()
                   | Some a \<Rightarrow>
                       on_axes a (draw_scale_bars ExploreStyle PaperStyle get_text_bbox True
                                    (StyleObject style)))
      else
        then_do (pure_result (none_method ''set_xlabel'' axis_current))
          (\<lambda>a.
        then_do (update_axes a (\<lambda>ax. ax\<lparr>xlabel := Some (''Time (ms)'', label_fontsize style)\<rparr>))
          (\<lambda>_.
        then_do (update_axes axis_voltage
                   (\<lambda>ax. ax\<lparr>xlabel := Some (''Time (ms)'', label_fontsize style)\<rparr>))
          (\<lambda>_.
        then_do (update_axes a
                   (\<lambda>ax. ax\<lparr>ylabel := Some (''Current (nA)'', label_fontsize style)\<rparr>))
          (\<lambda>_.
        update_axes axis_voltage
          (\<lambda>ax. ax\<lparr>ylabel := Some (''Voltage (mV)'', label_fontsize style)\<rparr>))))))"

text \<open>
  Lines 280 to 294: the traces are plotted, the limits of each axes are set to those of
  its data, and the spines are hidden unless the style shows them. The voltage is
  plotted on whatever \<^verbatim>\<open>axis_voltage\<close> is; from there on it is known to be an axes.
\<close>

definition draw_traces ::
  "(string \<Rightarrow> bool) \<Rightarrow> style \<Rightarrow> series \<Rightarrow> series \<Rightarrow> series option \<Rightarrow> axis_value \<Rightarrow>
     nat option \<Rightarrow> (canvas, nat) prog"
  where
  "draw_traces is_color_like style time_series voltage_series current_series axis_voltage
       axis_current =
     then_do (case current_series of
                None \<Rightarrow> returns ()
              | Some cs \<Rightarrow>
                  then_do (pure_result (none_method ''plot'' axis_current))
                    (\<lambda>a. plot_line is_color_like a time_series cs (current_color style)
                           (current_alpha style) (linewidth style)))
       (\<lambda>_.
     then_do (pure_result (axes_method ''plot'' axis_voltage))
       (\<lambda>v.
     then_do (plot_line is_color_like v time_series voltage_series (voltage_color style)
                (voltage_alpha style) (linewidth style))
       (\<lambda>_.
     then_do (pure_result (series_index time_series 0))
       (\<lambda>t0.
     then_do (pure_result (series_index time_series (- 1)))
       (\<lambda>t1.
     then_do (set_xlim v (t0, t1))
       (\<lambda>_.
     then_do (pure_result (series_min voltage_series))
       (\<lambda>lo.
     then_do (pure_result (series_max voltage_series))
       (\<lambda>hi.
     then_do (set_ylim v (lo, hi))
       (\<lambda>_.
     then_do (case current_series of
                None \<Rightarrow> returns ()
              | Some cs \<Rightarrow>
                  then_do (pure_result (none_method ''set_xlim'' axis_current))
                    (\<lambda>a.
                  then_do (pure_result (series_index time_series 0))
                    (\<lambda>t0.
                  then_do (pure_result (series_index time_series (- 1)))
                    (\<lambda>t1.
                  then_do (set_xlim a (t0, t1))
                    (\<lambda>_.
                  then_do (pure_result (series_min cs))
                    (\<lambda>lo.
                  then_do (pure_result (series_max cs))
                    (\<lambda>hi. set_ylim a (lo, hi))))))))
       (\<lambda>_.
     then_do (if \<not> show_spines style
              then then_do (hide_spines v)
                     (\<lambda>_. case axis_current of None \<Rightarrow> returns () | Some a \<Rightarrow> hide_spines a)
              else returns ())
       (\<lambda>_. returns v)))))))))))"

text \<open>Lines 306 to 311: the title, the layout, and the values returned.\<close>

definition finish_figure ::
  "style \<Rightarrow> string option \<Rightarrow> nat \<Rightarrow> axis_value \<Rightarrow> (canvas, nat \<times> axis_value) prog" where
  "finish_figure style title fig axis =
     then_do (case title of
                None \<Rightarrow> returns ()
              | Some t \<Rightarrow>
                  update_figure fig (\<lambda>f. f\<lparr>fig_suptitle := Some (t, title_fontsize style)\<rparr>))
       (\<lambda>_.
     then_do (update_figure fig (\<lambda>f. f\<lparr>fig_tight_layout := True\<rparr>))
       (\<lambda>_. returns (fig, axis)))"

definition plot_trace ::
  "style \<Rightarrow> style \<Rightarrow> renderer \<Rightarrow> (string \<Rightarrow> bool) \<Rightarrow> series \<Rightarrow> series \<Rightarrow> series option \<Rightarrow>
     string option \<Rightarrow> axis_value option \<Rightarrow> style style_arg \<Rightarrow> (canvas, nat \<times> axis_value) prog"
  where
  "plot_trace ExploreStyle PaperStyle get_text_bbox is_color_like time_series voltage_series
       current_series title axis style =
     then_do (pure_result (define_style ExploreStyle PaperStyle style))
       (\<lambda>style.
     then_do (figure_and_axes
                (get_n_plots 1 (if current_series \<noteq> None then 1 else 0) (shared_axis style))
                title style axis)
       (\<lambda>(fig, axis).
     then_do (voltage_and_current_axes (current_series \<noteq> None) style axis)
       (\<lambda>(axis_voltage, axis_current).
     then_do (draw_traces is_color_like style time_series voltage_series current_series
                axis_voltage axis_current)
       (\<lambda>axis_voltage.
     then_do (bars_or_labels ExploreStyle PaperStyle get_text_bbox style
                axis_voltage axis_current)
       (\<lambda>_. finish_figure style title fig axis)))))"

section \<open>Properties of rounding\<close>

lemma pow2_pos: "0 < (2::rat) powi n"
  by (simp add: zero_less_power_int)

lemma pow2_mono: "m \<le> n \<Longrightarrow> (2::rat) powi m \<le> 2 powi n"
  by (simp add: power_int_increasing)

lemma pow2_strict_mono: "m < n \<Longrightarrow> (2::rat) powi m < 2 powi n"
  by (simp add: power_int_strict_increasing)

lemma pow2_add: "(2::rat) powi (m + n) = 2 powi m * 2 powi n"
  by (simp add: power_int_add)

lemma pow2_diff: "(2::rat) powi (m - n) = 2 powi m / 2 powi n"
  by (simp add: power_int_diff)

lemma pow2_of_int: "0 \<le> n \<Longrightarrow> (2::rat) powi n = of_int (2 ^ nat n)"
  by (simp add: power_int_def)

lemma pow2_less_cancel: "(2::rat) powi m < 2 powi n \<Longrightarrow> m < n"
  by (metis not_le pow2_mono)

lemma bitlen_pow2_bounds:
  assumes "0 < p"
  shows "(2::rat) powi (bitlen p - 1) \<le> of_int p" and "of_int p < (2::rat) powi bitlen p"
proof -
  from bitlen_bounds [OF assms]
  have a: "2 ^ nat (bitlen p - 1) \<le> p" and b: "p < 2 ^ nat (bitlen p)" by auto
  have pos: "0 < bitlen p" using assms bitlen_bounds [OF assms]
    by (smt (verit) bitlen_nonneg nat_0_iff power_0)
  have "(2::rat) powi (bitlen p - 1) = of_int (2 ^ nat (bitlen p - 1))"
    using pos by (intro pow2_of_int) simp
  also have "\<dots> \<le> of_int p" using a by (simp only: of_int_le_iff)
  finally show "(2::rat) powi (bitlen p - 1) \<le> of_int p" .
  have "(of_int p :: rat) < of_int (2 ^ nat (bitlen p))" using b by (simp only: of_int_less_iff)
  also have "\<dots> = 2 powi bitlen p" using pos by (subst pow2_of_int) simp_all
  finally show "of_int p < (2::rat) powi bitlen p" .
qed

lemma ilog2_bounds:
  assumes "0 < a"
  shows "2 powi ilog2 a \<le> a \<and> a < 2 powi (ilog2 a + 1)"
proof -
  obtain p q where pq: "quotient_of a = (p, q)" by (cases "quotient_of a")
  have q: "0 < q" using pq by (rule quotient_of_denom_pos)
  have a: "a = of_int p / of_int q" using pq by (rule quotient_of_div)
  have p: "0 < p" using assms q a by (simp add: zero_less_divide_iff)
  define d where "d = bitlen p - bitlen q"
  note bp = bitlen_pow2_bounds [OF p] and bq = bitlen_pow2_bounds [OF q]
  have qr: "(0::rat) < of_int q" using q by simp
  have up: "a < 2 powi (d + 1)"
  proof -
    have "a < 2 powi bitlen p / of_int q"
      unfolding a using bp(2) qr by (simp add: divide_strict_right_mono)
    also have "\<dots> \<le> 2 powi bitlen p / 2 powi (bitlen q - 1)"
      using bq(1) pow2_pos [of "bitlen q - 1"] pow2_pos [of "bitlen p"]
      by (intro divide_left_mono) (auto intro: mult_pos_pos qr)
    also have "\<dots> = 2 powi (d + 1)"
      unfolding d_def by (simp add: pow2_diff [symmetric] algebra_simps)
    finally show ?thesis .
  qed
  have lo: "2 powi (d - 1) < a"
  proof -
    have "(2::rat) powi (d - 1) = 2 powi (bitlen p - 1) / 2 powi bitlen q"
      unfolding d_def by (simp add: pow2_diff [symmetric] algebra_simps)
    also have "\<dots> < 2 powi (bitlen p - 1) / of_int q"
      using bq(2) qr pow2_pos [of "bitlen p - 1"]
      by (intro divide_strict_left_mono) (auto intro: mult_pos_pos pow2_pos)
    also have "\<dots> \<le> a"
      unfolding a using bp(1) qr by (simp add: divide_right_mono)
    finally show ?thesis .
  qed
  have il: "ilog2 a = (if 2 powi d \<le> a then d else d - 1)"
    by (simp add: ilog2_def pq d_def Let_def)
  show ?thesis
  proof (cases "2 powi d \<le> a")
    case True
    then show ?thesis using up il by simp
  next
    case False
    then show ?thesis using lo il by simp
  qed
qed

lemma ilog2_unique:
  assumes "0 < a" "2 powi e \<le> a" "a < 2 powi (e + 1)"
  shows "ilog2 a = e"
proof -
  from ilog2_bounds [OF assms(1)]
  have l: "2 powi ilog2 a \<le> a" and u: "a < 2 powi (ilog2 a + 1)" by auto
  have "(2::rat) powi e < 2 powi (ilog2 a + 1)" using assms(2) u by simp
  then have 1: "e < ilog2 a + 1" by (rule pow2_less_cancel)
  have "(2::rat) powi ilog2 a < 2 powi (e + 1)" using l assms(3) by simp
  then have 2: "ilog2 a < e + 1" by (rule pow2_less_cancel)
  from 1 2 show ?thesis by simp
qed

lemma ilog2_mono:
  assumes "0 < a" "a \<le> b"
  shows "ilog2 a \<le> ilog2 b"
proof -
  have b: "0 < b" using assms by simp
  have "(2::rat) powi ilog2 a \<le> a" using ilog2_bounds [OF assms(1)] by simp
  also have "\<dots> \<le> b" by fact
  also have "\<dots> < 2 powi (ilog2 b + 1)" using ilog2_bounds [OF b] by simp
  finally have "ilog2 a < ilog2 b + 1" by (rule pow2_less_cancel)
  then show ?thesis by simp
qed

lemma round_half_even_cases:
  "round_half_even x = \<lfloor>x\<rfloor> \<or> round_half_even x = \<lfloor>x\<rfloor> + 1"
  by (simp add: round_half_even_def Let_def)

lemma round_half_even_of_int [simp]: "round_half_even (of_int n) = n"
  by (simp add: round_half_even_def Let_def)

lemma round_half_even_mono:
  assumes "x \<le> y"
  shows "round_half_even x \<le> round_half_even y"
proof (cases "\<lfloor>x\<rfloor> = \<lfloor>y\<rfloor>")
  case True
  then have "x - of_int \<lfloor>x\<rfloor> \<le> y - of_int \<lfloor>y\<rfloor>" using assms by simp
  then show ?thesis using True
    by (auto simp: round_half_even_def Let_def)
next
  case False
  then have "\<lfloor>x\<rfloor> < \<lfloor>y\<rfloor>" using floor_mono [OF assms] by simp
  moreover have "round_half_even x \<le> \<lfloor>x\<rfloor> + 1" using round_half_even_cases [of x] by auto
  moreover have "\<lfloor>y\<rfloor> \<le> round_half_even y" using round_half_even_cases [of y] by auto
  ultimately show ?thesis by simp
qed

lemma round_half_even_ge: "of_int n \<le> x \<Longrightarrow> n \<le> round_half_even x"
  using round_half_even_mono [of "of_int n" x] by simp

lemma round_half_even_le: "x \<le> of_int n \<Longrightarrow> round_half_even x \<le> n"
  using round_half_even_mono [of x "of_int n"] by simp


lemma round_mag_nonneg: "0 < a \<Longrightarrow> 0 \<le> round_mag a"
proof -
  assume a: "0 < a"
  have "0 \<le> a / 2 powi quantum a" using a pow2_pos [of "quantum a"] by simp
  then have "0 \<le> round_half_even (a / 2 powi quantum a)"
    using round_half_even_ge [of 0] by simp
  then show ?thesis unfolding round_mag_def using pow2_pos [of "quantum a"] by simp
qed

lemma quantum_mono: "0 < a \<Longrightarrow> a \<le> b \<Longrightarrow> quantum a \<le> quantum b"
  unfolding quantum_def using ilog2_mono [of a b] by simp

text \<open>Rounding stays within the binade: \<open>2 ^ e \<le> a < 2 ^ (e + 1)\<close> gives the same bounds, closed.\<close>

lemma round_mag_lower:
  assumes "0 < a" "quantum a \<le> e" "2 powi e \<le> a"
  shows "2 powi e \<le> round_mag a"
proof -
  let ?q = "quantum a"
  have "(2::rat) powi (e - ?q) = of_int (2 ^ nat (e - ?q))"
    using assms(2) by (intro pow2_of_int) simp
  moreover have "(2::rat) powi (e - ?q) \<le> a / 2 powi ?q"
    using assms(3) pow2_pos [of ?q] by (simp add: pow2_diff divide_right_mono)
  ultimately have "2 ^ nat (e - ?q) \<le> round_half_even (a / 2 powi ?q)"
    using round_half_even_ge by metis
  then have "(of_int (2 ^ nat (e - ?q)) :: rat) \<le> of_int (round_half_even (a / 2 powi ?q))"
    by (simp only: of_int_le_iff)
  then have "(2::rat) powi (e - ?q) * 2 powi ?q \<le> round_mag a"
    unfolding round_mag_def
    using \<open>(2::rat) powi (e - ?q) = of_int (2 ^ nat (e - ?q))\<close> pow2_pos [of ?q]
    by (simp add: mult_right_mono)
  then show ?thesis by (simp add: pow2_add [symmetric])
qed

lemma round_mag_upper:
  assumes "0 < a" "quantum a \<le> e" "a \<le> 2 powi e"
  shows "round_mag a \<le> 2 powi e"
proof -
  let ?q = "quantum a"
  have eq: "(2::rat) powi (e - ?q) = of_int (2 ^ nat (e - ?q))"
    using assms(2) by (intro pow2_of_int) simp
  have "a / 2 powi ?q \<le> (2::rat) powi (e - ?q)"
    using assms(3) pow2_pos [of ?q] by (simp add: pow2_diff divide_right_mono)
  then have "round_half_even (a / 2 powi ?q) \<le> 2 ^ nat (e - ?q)"
    using round_half_even_le eq by metis
  then have "(of_int (round_half_even (a / 2 powi ?q)) :: rat) \<le> of_int (2 ^ nat (e - ?q))"
    by (simp only: of_int_le_iff)
  then have "round_mag a \<le> (2::rat) powi (e - ?q) * 2 powi ?q"
    unfolding round_mag_def using eq pow2_pos [of ?q]
    by (simp add: mult_right_mono)
  then show ?thesis by (simp add: pow2_add [symmetric])
qed

lemma round_mag_mono:
  assumes "0 < a" "a \<le> b"
  shows "round_mag a \<le> round_mag b"
proof -
  have b: "0 < b" using assms by simp
  have qm: "quantum a \<le> quantum b" using assms by (rule quantum_mono)
  show ?thesis
  proof (cases "quantum a = quantum b")
    case True
    have "a / 2 powi quantum b \<le> b / 2 powi quantum b"
      using assms(2) pow2_pos [of "quantum b"] by (simp add: divide_right_mono)
    then have "round_half_even (a / 2 powi quantum b) \<le> round_half_even (b / 2 powi quantum b)"
      by (rule round_half_even_mono)
    then have "(of_int (round_half_even (a / 2 powi quantum b)) :: rat)
        \<le> of_int (round_half_even (b / 2 powi quantum b))"
      by (simp only: of_int_le_iff)
    then show ?thesis
      unfolding round_mag_def True using pow2_pos [of "quantum b"]
      by (simp add: mult_right_mono)
  next
    case False
    then have lt: "quantum a < quantum b" using qm by simp
    define E where "E = ilog2 b"
    have qb: "quantum b = E - 52" using lt unfolding quantum_def E_def by linarith
    have qa: "ilog2 a - 52 \<le> quantum a" unfolding quantum_def by simp
    have la: "ilog2 a + 1 \<le> E" using lt qa qb by simp
    have "a < 2 powi (ilog2 a + 1)" using ilog2_bounds [OF assms(1)] by simp
    also have "\<dots> \<le> 2 powi E" using la by (rule pow2_mono)
    finally have aE: "a \<le> 2 powi E" by simp
    have "quantum a \<le> E" using lt qb by simp
    then have 1: "round_mag a \<le> 2 powi E" using assms(1) aE by (intro round_mag_upper)
    have "2 powi E \<le> b" unfolding E_def using ilog2_bounds [OF b] by simp
    moreover have "quantum b \<le> E" using qb by simp
    ultimately have 2: "2 powi E \<le> round_mag b" using b by (intro round_mag_lower)
    from 1 2 show ?thesis by simp
  qed
qed

lemma fle_PosInf [simp]: "fle x PosInf = (x \<noteq> NaN)"
  by (cases x) simp_all

lemma fle_NegInf [simp]: "fle NegInf x = (x \<noteq> NaN)"
  by (cases x) simp_all

lemma round_pos_mono:
  assumes "0 < a" "a \<le> b"
  shows "fle (round_pos a) (round_pos b)"
  using round_mag_mono [OF assms] by (auto simp: round_pos_def Let_def)

lemma round_pos_cases:
  "round_pos a = PosInf \<or> round_pos a = Finite (round_mag a)"
  by (simp add: round_pos_def Let_def)

lemma round_pos_nonneg: "0 < a \<Longrightarrow> fle (Finite 0) (round_pos a)"
  using round_mag_nonneg [of a] by (auto simp: round_pos_def Let_def)

lemma fle_fneg: "fle (fneg x) (fneg y) = fle y x"
  by (cases x; cases y) simp_all

lemma fle_trans: "fle x y \<Longrightarrow> fle y z \<Longrightarrow> fle x z"
  by (cases x; cases y; cases z) simp_all

lemma round_double_not_NaN [simp]: "round_double r \<noteq> NaN"
  by (auto simp: round_double_def round_pos_def Let_def)

lemma round_double_mono:
  assumes "a \<le> b"
  shows "fle (round_double a) (round_double b)"
proof -
  consider "0 < a" | "a = 0" | "a < 0" by linarith
  then show ?thesis
  proof cases
    case 1
    then show ?thesis using assms round_pos_mono [of a b] by (simp add: round_double_def)
  next
    case 2
    then show ?thesis using assms round_pos_nonneg [of b]
      by (auto simp: round_double_def)
  next
    case 3
    note an = 3
    consider "0 < b" | "b = 0" | "b < 0" by linarith
    then show ?thesis
    proof cases
      case 1
      have "fle (fneg (round_pos (- a))) (fneg (Finite 0))"
        unfolding fle_fneg using an by (intro round_pos_nonneg) simp
      then have "fle (fneg (round_pos (- a))) (Finite 0)" by simp
      moreover have "fle (Finite 0) (round_pos b)" using 1 by (rule round_pos_nonneg)
      ultimately have "fle (fneg (round_pos (- a))) (round_pos b)" by (rule fle_trans)
      then show ?thesis using an 1 by (simp add: round_double_def)
    next
      case 2
      have "fle (fneg (round_pos (- a))) (fneg (Finite 0))"
        unfolding fle_fneg using an by (intro round_pos_nonneg) simp
      then show ?thesis using an 2 by (simp add: round_double_def)
    next
      case 3
      have "fle (round_pos (- b)) (round_pos (- a))"
        using 3 assms by (intro round_pos_mono) simp_all
      then show ?thesis using an 3 by (simp add: round_double_def fle_fneg)
    qed
  qed
qed



lemma pow2_numeral: "(2::rat) powi (numeral k) = 2 ^ numeral k"
  by simp

lemma pow2_neg_numeral: "(2::rat) powi (- numeral k) = 1 / 2 ^ numeral k"
  by (simp add: power_int_minus inverse_eq_divide)

lemmas pow2_eval = pow2_numeral pow2_neg_numeral

lemma fneg_fneg [simp]: "fneg (fneg x) = x"
  by (cases x) simp_all

lemma round_half_even_nearest:
  assumes "\<bar>x - of_int m\<bar> < 1 / 2"
  shows "round_half_even x = m"
proof -
  have lo: "of_int m - 1 / 2 < x" using assms by linarith
  have hi: "x < of_int m + 1 / 2" using assms by linarith
  show ?thesis
  proof (cases "of_int m \<le> x")
    case True
    then have f: "\<lfloor>x\<rfloor> = m" using hi by (intro floor_unique) auto
    show ?thesis using hi by (simp add: round_half_even_def f Let_def)
  next
    case False
    then have f: "\<lfloor>x\<rfloor> = m - 1" using lo by (intro floor_unique) auto
    have "1 / 2 < x - of_int (m - 1)" using lo by simp
    then show ?thesis by (simp add: round_half_even_def f Let_def)
  qed
qed

lemma below_overflow:
  assumes "0 \<le> m" "m < 2 ^ 53" "q \<le> 971"
  shows "of_int m * 2 powi q < (2::rat) powi 1024"
proof -
  have "(of_int m :: rat) < of_int (2 ^ 53)" using assms(2) by (simp only: of_int_less_iff)
  then have m: "(of_int m :: rat) < 2 powi 53" by simp
  have q: "(2::rat) powi q \<le> 2 powi 971" using assms(3) by (rule pow2_mono)
  have "of_int m * 2 powi q \<le> of_int m * (2::rat) powi 971"
    using q assms(1) by (intro mult_left_mono) simp_all
  also have "\<dots> < 2 powi 53 * (2::rat) powi 971"
    using m pow2_pos [of 971] by (intro mult_strict_right_mono)
  also have "\<dots> = 2 powi 1024" by (simp only: pow2_add [symmetric]) simp
  finally show ?thesis .
qed

lemma below_overflow':
  assumes "0 \<le> m" "m \<le> 2 ^ 53" "q \<le> 970"
  shows "of_int m * 2 powi q < (2::rat) powi 1024"
proof -
  have "(of_int m :: rat) \<le> of_int (2 ^ 53)" using assms(2) by (simp only: of_int_le_iff)
  then have m: "(of_int m :: rat) \<le> 2 powi 53" by simp
  have q: "(2::rat) powi q \<le> 2 powi 970" using assms(3) by (rule pow2_mono)
  have "of_int m * 2 powi q \<le> of_int m * (2::rat) powi 970"
    using q assms(1) by (intro mult_left_mono) simp_all
  also have "\<dots> \<le> 2 powi 53 * (2::rat) powi 970"
    using m pow2_pos [of 970] by (intro mult_right_mono) simp_all
  also have "\<dots> = 2 powi 1023" by (simp only: pow2_add [symmetric]) simp
  also have "\<dots> < 2 powi 1024" by (rule pow2_strict_mono) simp
  finally show ?thesis .
qed

lemma round_pos_nearest_raw:
  assumes "0 < a" "2 powi e \<le> a" "a < 2 powi (e + 1)"
    and "q = max (e - 52) (- 1074)"
    and "\<bar>a - of_int m * 2 powi q\<bar> < 2 powi q / 2"
    and "of_int m * 2 powi q < (2::rat) powi 1024"
  shows "round_pos a = Finite (of_int m * 2 powi q)"
proof -
  have e: "ilog2 a = e" using assms(1-3) by (rule ilog2_unique)
  have q: "quantum a = q" by (simp add: quantum_def e assms(4))
  have "\<bar>a / 2 powi q - of_int m\<bar> = \<bar>a - of_int m * 2 powi q\<bar> / 2 powi q"
    using pow2_pos [of q] by (simp add: field_simps abs_divide flip: abs_mult)
  also have "\<dots> < (2 powi q / 2) / 2 powi q"
    using assms(5) pow2_pos [of q] by (simp add: divide_strict_right_mono)
  also have "\<dots> = 1 / 2" using pow2_pos [of q] by simp
  finally have "round_half_even (a / 2 powi q) = m" by (rule round_half_even_nearest)
  then have "round_mag a = of_int m * 2 powi q" by (simp add: round_mag_def q)
  moreover have "\<not> (2::rat) powi 1024 \<le> of_int m * 2 powi q"
    using assms(6) by (simp only: not_le)
  ultimately show ?thesis
    by (simp only: round_pos_def Let_def if_False)
qed

text \<open>
  Evaluating a rounding at a given rational: the binary exponent \<open>e\<close> and the
  significand \<open>m\<close> are supplied, and the side conditions are decided by arithmetic.
\<close>

lemma round_double_nearest:
  assumes "0 < a" "2 powi e \<le> a" "a < 2 powi (e + 1)"
    and "q = max (e - 52) (- 1074)"
    and "\<bar>a - of_int m * 2 powi q\<bar> < 2 powi q / 2"
    and "0 \<le> m" "m \<le> 2 ^ 53" "q \<le> 970"
  shows "round_double a = Finite (of_int m * 2 powi q)"
  using round_pos_nearest_raw [OF assms(1-5) below_overflow' [OF assms(6-8)]] assms(1)
  by (simp add: round_double_def)

lemma round_double_neg: "round_double (- a) = fneg (round_double a)"
  by (auto simp: round_double_def)

text \<open>Every \<open>m * 2 ^ q\<close> within the format is a double: rounding leaves it alone.\<close>

lemma round_double_exact_pos:
  assumes "0 < m" "m < 2 ^ 53" "- 1074 \<le> q" "q \<le> 971"
  shows "round_double (of_int m * 2 powi q) = Finite (of_int m * 2 powi q)"
proof -
  define a :: rat where "a = of_int m * 2 powi q"
  define e where "e = bitlen m - 1 + q"
  define q' where "q' = max (e - 52) (- 1074)"
  have apos: "0 < a" unfolding a_def using assms(1) pow2_pos [of q] by simp
  have bl: "bitlen m \<le> 53"
  proof (rule ccontr)
    assume "\<not> bitlen m \<le> 53"
    then have "(2::int) ^ 53 \<le> 2 ^ nat (bitlen m - 1)"
      by (intro power_increasing) auto
    then show False using bitlen_bounds [OF assms(1)] assms(2) by linarith
  qed
  have lo: "2 powi e \<le> a"
    unfolding a_def e_def pow2_add
    using bitlen_pow2_bounds(1) [OF assms(1)] pow2_pos [of q] by (simp add: mult_right_mono)
  have hi: "a < 2 powi (e + 1)"
  proof -
    have "a < 2 powi bitlen m * 2 powi q"
      unfolding a_def using bitlen_pow2_bounds(2) [OF assms(1)] pow2_pos [of q]
      by (simp add: mult_strict_right_mono)
    also have "\<dots> = 2 powi (e + 1)" unfolding e_def by (simp add: pow2_add [symmetric])
    finally show ?thesis .
  qed
  have q'q: "q' \<le> q" unfolding q'_def e_def using bl assms(3) by simp
  define m' where "m' = m * 2 ^ nat (q - q')"
  have "(2::rat) powi (q - q') = of_int (2 ^ nat (q - q'))"
    using q'q by (intro pow2_of_int) simp
  then have "of_int m' * 2 powi q' = of_int m * ((2::rat) powi (q - q') * 2 powi q')"
    unfolding m'_def by simp
  also have "\<dots> = a" unfolding a_def by (simp add: pow2_add [symmetric])
  finally have a_eq: "of_int m' * 2 powi q' = a" .
  have near: "\<bar>a - of_int m' * 2 powi q'\<bar> < 2 powi q' / 2"
    using pow2_pos [of q'] by (simp add: a_eq)
  have "a < 2 powi 1024"
    using below_overflow [of m q] assms unfolding a_def by simp
  then have ov: "of_int m' * 2 powi q' < (2::rat) powi 1024" by (simp add: a_eq)
  have "round_pos a = Finite (of_int m' * 2 powi q')"
    using apos lo hi q'_def near ov by (rule round_pos_nearest_raw)
  then show ?thesis using apos unfolding a_eq by (simp add: round_double_def a_def)
qed

lemma round_double_exact:
  assumes "\<bar>m\<bar> < 2 ^ 53" "- 1074 \<le> q" "q \<le> 971"
  shows "round_double (of_int m * 2 powi q) = Finite (of_int m * 2 powi q)"
proof -
  consider "0 < m" | "m = 0" | "m < 0" by linarith
  then show ?thesis
  proof cases
    case 1
    then show ?thesis using assms by (intro round_double_exact_pos) auto
  next
    case 2
    then show ?thesis by (simp add: round_double_def)
  next
    case 3
    then have "round_double (of_int (- m) * 2 powi q) = Finite (of_int (- m) * 2 powi q)"
      using assms by (intro round_double_exact_pos) auto
    then have "round_double (- (of_int m * 2 powi q)) = Finite (- (of_int m * 2 powi q))"
      by simp
    then show ?thesis unfolding round_double_neg
      by (cases "round_double (of_int m * 2 powi q)") simp_all
  qed
qed

lemma round_double_of_int:
  assumes "\<bar>n\<bar> < 2 ^ 53"
  shows "round_double (of_int n) = Finite (of_int n)"
  using round_double_exact [of n 0] assms by simp

lemma round_double_numeral [simp]:
  "numeral k < (9007199254740992::int) \<Longrightarrow> round_double (numeral k) = Finite (numeral k)"
  using round_double_of_int [of "numeral k"] by simp

lemma round_double_0 [simp]: "round_double 0 = Finite 0"
  by (simp add: round_double_def)

lemma round_double_1 [simp]: "round_double 1 = Finite 1"
  using round_double_of_int [of 1] by simp

lemma round_double_pow2:
  assumes "- 1074 \<le> k" "k \<le> 1023"
  shows "round_double (2 powi k) = Finite (2 powi k)"
proof (cases "k \<le> 971")
  case True
  then show ?thesis using round_double_exact [of 1 k] assms by simp
next
  case False
  have "(2::rat) powi k = 2 powi (52 + (k - 52))" by simp
  also have "\<dots> = 2 powi 52 * 2 powi (k - 52)" by (simp only: pow2_add)
  also have "\<dots> = of_int (2 ^ 52) * 2 powi (k - 52)" by simp
  finally have eq: "(2::rat) powi k = of_int (2 ^ 52) * 2 powi (k - 52)" .
  show ?thesis unfolding eq using assms False by (intro round_double_exact) auto
qed

section \<open>Float literals, order and \<^verbatim>\<open>min\<close>\<close>

lemma lit_0_1: "round_double (1 / 10) = Finite (3602879701896397 / 36028797018963968)"
  using round_double_nearest [of "1 / 10" "- 4" "- 56" 7205759403792794]
  by (simp add: pow2_eval)

lemma lit_0_15: "round_double (3 / 20) = Finite (5404319552844595 / 36028797018963968)"
  using round_double_nearest [of "3 / 20" "- 3" "- 55" 5404319552844595]
  by (simp add: pow2_eval)

lemma lit_1_2: "round_double (6 / 5) = Finite (5404319552844595 / 4503599627370496)"
  using round_double_nearest [of "6 / 5" "0" "- 52" 5404319552844595]
  by (simp add: pow2_eval)

lemma lit_0_3: "round_double (3 / 10) = Finite (5404319552844595 / 18014398509481984)"
  using round_double_nearest [of "3 / 10" "- 2" "- 54" 5404319552844595]
  by (simp add: pow2_eval)

lemma lit_1_8: "round_double (9 / 5) = Finite (8106479329266893 / 4503599627370496)"
  using round_double_nearest [of "9 / 5" "0" "- 52" 8106479329266893]
  by (simp add: pow2_eval)

lemma lit_1_3: "round_double (13 / 10) = Finite (5854679515581645 / 4503599627370496)"
  using round_double_nearest [of "13 / 10" "0" "- 52" 5854679515581645]
  by (simp add: pow2_eval)

lemma lit_0_001: "round_double (1 / 1000) = Finite (1152921504606847 / 1152921504606846976)"
  using round_double_nearest [of "1 / 1000" "- 10" "- 62" 4611686018427388]
  by (simp add: pow2_eval)

lemma lit_0_005: "round_double (1 / 200) = Finite (5764607523034235 / 1152921504606846976)"
  using round_double_nearest [of "1 / 200" "- 8" "- 60" 5764607523034235]
  by (simp add: pow2_eval)

lemma lit_0_01: "round_double (1 / 100) = Finite (5764607523034235 / 576460752303423488)"
  using round_double_nearest [of "1 / 100" "- 7" "- 59" 5764607523034235]
  by (simp add: pow2_eval)

lemma lit_0_05: "round_double (1 / 20) = Finite (3602879701896397 / 72057594037927936)"
  using round_double_nearest [of "1 / 20" "- 5" "- 57" 7205759403792794]
  by (simp add: pow2_eval)

lemma lit_6_4: "round_double (32 / 5) = Finite (3602879701896397 / 562949953421312)"
  using round_double_nearest [of "32 / 5" "2" "- 50" 7205759403792794]
  by (simp add: pow2_eval)

lemma lit_4_8: "round_double (24 / 5) = Finite (5404319552844595 / 1125899906842624)"
  using round_double_nearest [of "24 / 5" "2" "- 50" 5404319552844595]
  by (simp add: pow2_eval)

lemma lit_0_5: "round_double (1 / 2) = Finite (1 / 2)"
  using round_double_nearest [of "1 / 2" "- 1" "- 53" 4503599627370496]
  by (simp add: pow2_eval)

lemmas float_literals = lit_0_1 lit_0_15 lit_1_2 lit_0_3 lit_1_8 lit_1_3 lit_0_001 lit_0_005 lit_0_01 lit_0_05 lit_6_4 lit_4_8 lit_0_5

subsection \<open>The order of the floats\<close>

lemma flt_irrefl [simp]: "\<not> flt x x"
  by (cases x) simp_all

lemma flt_trans: "flt x y \<Longrightarrow> flt y z \<Longrightarrow> flt x z"
  by (cases x; cases y; cases z) simp_all

lemma flt_fle_trans: "flt x y \<Longrightarrow> fle y z \<Longrightarrow> flt x z"
  by (cases x; cases y; cases z) simp_all

lemma fle_flt_trans: "fle x y \<Longrightarrow> flt y z \<Longrightarrow> flt x z"
  by (cases x; cases y; cases z) simp_all

lemma not_flt_fle: "x \<noteq> NaN \<Longrightarrow> y \<noteq> NaN \<Longrightarrow> \<not> flt x y \<Longrightarrow> fle y x"
  by (cases x; cases y) simp_all

lemma flt_imp_fle: "flt x y \<Longrightarrow> fle x y"
  by (cases x; cases y) simp_all

lemma flt_not_NaN: "flt x y \<Longrightarrow> x \<noteq> NaN \<and> y \<noteq> NaN"
  by (cases x; cases y) simp_all

lemma fle_refl: "x \<noteq> NaN \<Longrightarrow> fle x x"
  by (cases x) simp_all

lemma fle_not_flt: "fle x y \<Longrightarrow> \<not> flt y x"
  by (cases x; cases y) simp_all

subsection \<open>\<^verbatim>\<open>min\<close> returns an element, the first of the least\<close>

lemma min_loop_member:
  assumes "\<forall>x\<in>set xs. \<exists>k. key x = Inr k"
  shows "\<exists>y. min_loop key best kbest xs = Inr y \<and> y \<in> insert best (set xs)"
  using assms
proof (induction xs arbitrary: best kbest)
  case Nil
  then show ?case by simp
next
  case (Cons x xs)
  then obtain k where k: "key x = Inr k" by auto
  from Cons.prems have rest: "\<forall>x\<in>set xs. \<exists>k. key x = Inr k" by simp
  show ?case
  proof (cases "flt k kbest")
    case True
    from Cons.IH [OF rest, of x k] show ?thesis using k True by auto
  next
    case False
    from Cons.IH [OF rest, of best kbest] show ?thesis using k False by auto
  qed
qed

lemma py_min_member:
  assumes "xs \<noteq> []" "\<forall>x\<in>set xs. \<exists>k. key x = Inr k"
  shows "\<exists>y. py_min key xs = Inr y \<and> y \<in> set xs"
proof (cases xs)
  case Nil
  then show ?thesis using assms by simp
next
  case (Cons x xs')
  then obtain k where k: "key x = Inr k" using assms by auto
  have "\<forall>x\<in>set xs'. \<exists>k. key x = Inr k" using assms Cons by simp
  from min_loop_member [OF this, of x k] show ?thesis using Cons k by auto
qed

lemma min_loop_first_least:
  assumes "\<forall>x\<in>set xs. key x = Inr (k x) \<and> k x \<noteq> NaN" "kbest \<noteq> NaN"
  shows "(min_loop key best kbest xs = Inr best \<and> (\<forall>x\<in>set xs. fle kbest (k x)))
       \<or> (\<exists>as y bs. xs = as @ y # bs \<and> min_loop key best kbest xs = Inr y \<and> flt (k y) kbest
            \<and> (\<forall>a\<in>set as. flt (k y) (k a)) \<and> (\<forall>b\<in>set bs. fle (k y) (k b)))"
  using assms
proof (induction xs arbitrary: best kbest)
  case Nil
  then show ?case by simp
next
  case (Cons x xs)
  have kx: "key x = Inr (k x)" and nx: "k x \<noteq> NaN" using Cons.prems by auto
  have rest: "\<forall>x\<in>set xs. key x = Inr (k x) \<and> k x \<noteq> NaN" using Cons.prems by simp
  show ?case
  proof (cases "flt (k x) kbest")
    case True
    then have step: "min_loop key best kbest (x # xs) = min_loop key x (k x) xs"
      by (simp add: kx)
    from Cons.IH [OF rest nx, of x]
    consider (stay) "min_loop key x (k x) xs = Inr x" "\<forall>z\<in>set xs. fle (k x) (k z)"
      | (move) as y bs where "xs = as @ y # bs" "min_loop key x (k x) xs = Inr y"
          "flt (k y) (k x)" "\<forall>a\<in>set as. flt (k y) (k a)" "\<forall>b\<in>set bs. fle (k y) (k b)"
      by blast
    then show ?thesis
    proof cases
      case stay
      show ?thesis
        apply (rule disjI2)
        apply (rule exI [of _ "[]"], rule exI [of _ x], rule exI [of _ xs])
        using stay True step by simp
    next
      case move
      have 1: "x # xs = (x # as) @ y # bs" using move(1) by simp
      have 2: "flt (k y) kbest" using move(3) True by (rule flt_trans)
      have 3: "\<forall>a\<in>set (x # as). flt (k y) (k a)" using move(3,4) by simp
      show ?thesis
        apply (rule disjI2)
        apply (rule exI [of _ "x # as"], rule exI [of _ y], rule exI [of _ bs])
        using 1 2 3 move(2,5) step by simp
    qed
  next
    case False
    then have step: "min_loop key best kbest (x # xs) = min_loop key best kbest xs"
      by (simp add: kx)
    have le: "fle kbest (k x)" using False nx Cons.prems(2) by (intro not_flt_fle)
    from Cons.IH [OF rest Cons.prems(2), of best]
    consider (stay) "min_loop key best kbest xs = Inr best" "\<forall>z\<in>set xs. fle kbest (k z)"
      | (move) as y bs where "xs = as @ y # bs" "min_loop key best kbest xs = Inr y"
          "flt (k y) kbest" "\<forall>a\<in>set as. flt (k y) (k a)" "\<forall>b\<in>set bs. fle (k y) (k b)"
      by blast
    then show ?thesis
    proof cases
      case stay
      then show ?thesis using le step by simp
    next
      case move
      have 1: "x # xs = (x # as) @ y # bs" using move(1) by simp
      have "flt (k y) (k x)" using move(3) le by (rule flt_fle_trans)
      then have 3: "\<forall>a\<in>set (x # as). flt (k y) (k a)" using move(4) by simp
      show ?thesis
        apply (rule disjI2)
        apply (rule exI [of _ "x # as"], rule exI [of _ y], rule exI [of _ bs])
        using 1 3 move(2,3,5) step by simp
    qed
  qed
qed

lemma py_min_first_least:
  assumes "xs \<noteq> []" "\<forall>x\<in>set xs. key x = Inr (k x) \<and> k x \<noteq> NaN"
  shows "\<exists>as y bs. xs = as @ y # bs \<and> py_min key xs = Inr y
           \<and> (\<forall>a\<in>set as. flt (k y) (k a)) \<and> (\<forall>b\<in>set bs. fle (k y) (k b))"
proof -
  obtain x xs' where xs: "xs = x # xs'" using assms(1) by (cases xs) auto
  have kx: "key x = Inr (k x)" and nx: "k x \<noteq> NaN" using assms(2) xs by auto
  have rest: "\<forall>x\<in>set xs'. key x = Inr (k x) \<and> k x \<noteq> NaN" using assms(2) xs by simp
  have step: "py_min key xs = min_loop key x (k x) xs'" by (simp add: xs kx)
  from min_loop_first_least [OF rest nx, of x]
  consider (stay) "min_loop key x (k x) xs' = Inr x" "\<forall>z\<in>set xs'. fle (k x) (k z)"
    | (move) as y bs where "xs' = as @ y # bs" "min_loop key x (k x) xs' = Inr y"
        "flt (k y) (k x)" "\<forall>a\<in>set as. flt (k y) (k a)" "\<forall>b\<in>set bs. fle (k y) (k b)"
    by blast
  then show ?thesis
  proof cases
    case stay
    show ?thesis
      apply (rule exI [of _ "[]"], rule exI [of _ x], rule exI [of _ xs'])
      using stay step xs by simp
  next
    case move
    have 1: "xs = (x # as) @ y # bs" using move(1) xs by simp
    have 3: "\<forall>a\<in>set (x # as). flt (k y) (k a)" using move(3,4) by simp
    show ?thesis
      apply (rule exI [of _ "x # as"], rule exI [of _ y], rule exI [of _ bs])
      using 1 3 move(2,5) step by simp
  qed
qed

text \<open>
  On a list in strictly increasing order, the element returned is nearest, and every
  other element at the same distance is larger.
\<close>

lemma py_min_sorted:
  assumes "xs \<noteq> []" "\<forall>x\<in>set xs. key x = Inr (k x) \<and> k x \<noteq> NaN"
    and "sorted_wrt py_lt xs"
  shows "\<exists>y. py_min key xs = Inr y \<and> y \<in> set xs
           \<and> (\<forall>c\<in>set xs. fle (k y) (k c) \<and> (k c = k y \<longrightarrow> c = y \<or> py_lt y c))"
proof -
  from py_min_first_least [OF assms(1,2)]
  obtain as y bs where s: "xs = as @ y # bs" and r: "py_min key xs = Inr y"
    and a: "\<forall>a\<in>set as. flt (k y) (k a)" and b: "\<forall>b\<in>set bs. fle (k y) (k b)"
    by blast
  have ny: "k y \<noteq> NaN" using assms(2) s by simp
  have later: "\<forall>b\<in>set bs. py_lt y b"
    using assms(3) unfolding s by (simp add: sorted_wrt_append)
  have "\<forall>c\<in>set xs. fle (k y) (k c) \<and> (k c = k y \<longrightarrow> c = y \<or> py_lt y c)"
  proof
    fix c assume "c \<in> set xs"
    then consider "c \<in> set as" | "c = y" | "c \<in> set bs" unfolding s by auto
    then show "fle (k y) (k c) \<and> (k c = k y \<longrightarrow> c = y \<or> py_lt y c)"
    proof cases
      case 1
      then have "flt (k y) (k c)" using a by simp
      then show ?thesis using flt_imp_fle [of "k y" "k c"] by auto
    next
      case 2
      then show ?thesis using ny by (simp add: fle_refl)
    next
      case 3
      then show ?thesis using b later by simp
    qed
  qed
  then show ?thesis using r s by auto
qed

section \<open>Facts about the candidate lengths\<close>

lemma rd_15: "round_double (135107988821114875 / 9007199254740992) = Finite 15"
  using round_double_nearest [of "135107988821114875 / 9007199254740992" "3" "- 49" 8444249301319680]
  by (simp add: pow2_eval)

lemma rd_14_9:
  "round_double (536829075582563123 / 36028797018963968)
     = Finite (8387954305977549 / 562949953421312)"
  using round_double_nearest [of "536829075582563123 / 36028797018963968" "3" "- 49" 8387954305977549]
  by (simp add: pow2_eval)

lemma rd_14_5: "round_double (29 / 2) = Finite (29 / 2)"
  using round_double_nearest [of "29 / 2" "3" "- 49" 8162774324609024]
  by (simp add: pow2_eval)

lemma valid_lengths_finite:
  assumes "x \<in> set valid_time_bar_length \<union> set valid_voltage_bar_length
             \<union> set valid_current_bar_length"
  shows "\<exists>d. as_float x = Inr d \<and> is_finite d"
  using assms
  by (auto simp: valid_time_bar_length_def valid_voltage_bar_length_def
      valid_current_bar_length_def float_lit_def float_literals)

lemma fsub_not_NaN: "t \<noteq> NaN \<Longrightarrow> fsub (Finite v) t \<noteq> NaN"
  by (cases t) (simp_all add: fsub_def)

lemma fabs_not_NaN: "x \<noteq> NaN \<Longrightarrow> fabs x \<noteq> NaN"
  by (cases x) simp_all

lemma closest_length_member:
  assumes "valid \<noteq> []" "\<forall>x\<in>set valid. \<exists>d. as_float x = Inr d \<and> is_finite d"
  shows "\<exists>y. closest_length valid target = Inr y \<and> y \<in> set valid"
proof -
  have "\<forall>x\<in>set valid. \<exists>k. distance_key target x = Inr k"
    using assms(2) by (auto simp: distance_key_def bind_result_def)
  from py_min_member [OF assms(1) this] show ?thesis by (simp add: closest_length_def)
qed

lemma valid_nonempty:
  "valid_time_bar_length \<noteq> []" "valid_voltage_bar_length \<noteq> []" "valid_current_bar_length \<noteq> []"
  by (simp_all add: valid_time_bar_length_def valid_voltage_bar_length_def
      valid_current_bar_length_def)

lemma sorted_valid:
  "sorted_wrt py_lt valid_time_bar_length" "sorted_wrt py_lt valid_voltage_bar_length"
  "sorted_wrt py_lt valid_current_bar_length"
  by (simp_all add: valid_time_bar_length_def valid_voltage_bar_length_def
      valid_current_bar_length_def float_lit_def float_literals py_lt_def)

lemma py_lt_le: "py_lt a b \<Longrightarrow> py_le a b"
  by (simp add: py_lt_def py_le_def flt_imp_fle)

lemma closest_length_nearest:
  assumes "valid \<noteq> []" "\<forall>x\<in>set valid. \<exists>d. as_float x = Inr d \<and> is_finite d"
    and "sorted_wrt py_lt valid" "\<forall>x\<in>set valid. exact_value x \<noteq> NaN" "target \<noteq> NaN"
  shows "\<exists>t. closest_length valid target = Inr t \<and> t \<in> set valid
     \<and> (\<forall>c\<in>set valid. \<exists>dt dc. distance_key target t = Inr dt \<and> distance_key target c = Inr dc
            \<and> fle dt dc \<and> (dc = dt \<longrightarrow> py_le t c))"
proof -
  define k where "k x = (case distance_key target x of Inr d \<Rightarrow> d | Inl _ \<Rightarrow> NaN)" for x
  have key: "\<forall>x\<in>set valid. distance_key target x = Inr (k x) \<and> k x \<noteq> NaN"
  proof
    fix x assume "x \<in> set valid"
    then obtain d where "as_float x = Inr d" "is_finite d" using assms(2) by blast
    then obtain v where "as_float x = Inr (Finite v)" by (cases d) auto
    then show "distance_key target x = Inr (k x) \<and> k x \<noteq> NaN"
      using assms(5) by (simp add: k_def distance_key_def bind_result_def fabs_not_NaN fsub_not_NaN)
  qed
  from py_min_sorted [OF assms(1) key assms(3)]
  obtain y where y: "py_min (distance_key target) valid = Inr y" "y \<in> set valid"
    and least: "\<forall>c\<in>set valid. fle (k y) (k c) \<and> (k c = k y \<longrightarrow> c = y \<or> py_lt y c)"
    by blast
  have "\<forall>c\<in>set valid. \<exists>dt dc. distance_key target y = Inr dt \<and> distance_key target c = Inr dc
            \<and> fle dt dc \<and> (dc = dt \<longrightarrow> py_le y c)"
  proof
    fix c assume c: "c \<in> set valid"
    have "py_le y y" using assms(4) y(2) by (simp add: py_le_def fle_refl)
    then have "k c = k y \<longrightarrow> py_le y c" using least c py_lt_le by blast
    then show "\<exists>dt dc. distance_key target y = Inr dt \<and> distance_key target c = Inr dc
            \<and> fle dt dc \<and> (dc = dt \<longrightarrow> py_le y c)"
      using key y(2) c least by auto
  qed
  then show ?thesis using y by (auto simp: closest_length_def)
qed

lemma valid_exact:
  assumes "x \<in> set valid_time_bar_length \<union> set valid_voltage_bar_length
             \<union> set valid_current_bar_length"
  shows "exact_value x \<noteq> NaN"
  using assms
  by (auto simp: valid_time_bar_length_def valid_voltage_bar_length_def
      valid_current_bar_length_def float_lit_def float_literals)

lemma target_not_NaN:
  assumes "flt lo hi" "flt (Finite 0) b" "fle b (Finite 1)"
  shows "fmul b (fsub hi lo) \<noteq> NaN"
proof -
  obtain r where b: "b = Finite r" "0 < r" using assms(2,3) by (cases b) auto
  have "fsub hi lo \<noteq> NaN \<and> fsub hi lo \<noteq> NegInf"
    using assms(1) by (cases lo; cases hi) (auto simp: fsub_def round_double_def round_pos_def Let_def)
  then show ?thesis using b by (cases "fsub hi lo") auto
qed

lemma example_lengths:
  "compute_scale_bar_length
     (new_axes\<lparr>xlim := (Finite 0, Finite 100), ylim := (Finite (- 80), Finite 20)\<rparr>)
     False (float_lit (15 / 100)) = Inr (PyInt 10, PyInt 10)"
  by (simp add: compute_scale_bar_length_def closest_length_def distance_key_def
      bind_result_def fsub_def float_lit_def float_literals rd_15 rd_14_9 rd_14_5 round_double_neg
      valid_time_bar_length_def valid_voltage_bar_length_def)

section \<open>Facts about the origin\<close>

lemma rd_1_2f: "round_double (5404319552844595 / 4503599627370496)
    = Finite (5404319552844595 / 4503599627370496)"
  using round_double_nearest [of "5404319552844595 / 4503599627370496" "0" "- 52" 5404319552844595]
  by (simp add: pow2_eval)

lemma rd_0_8f: "round_double (3602879701896397 / 4503599627370496)
    = Finite (3602879701896397 / 4503599627370496)"
  using round_double_nearest [of "3602879701896397 / 4503599627370496" "- 1" "- 53" 7205759403792794]
  by (simp add: pow2_eval)

lemma rd_next_1: "round_double (4503599627370497 / 4503599627370496)
    = Finite (4503599627370497 / 4503599627370496)"
  using round_double_nearest [of "4503599627370497 / 4503599627370496" "0" "- 52" 4503599627370497]
  by (simp add: pow2_eval)

lemma rd_eps: "round_double (1 / 4503599627370496) = Finite (1 / 4503599627370496)"
  using round_double_nearest [of "1 / 4503599627370496" "- 52" "- 104" 4503599627370496]
  by (simp add: pow2_eval)

lemma rd_0_3_eps: "round_double (5404319552844595 / 81129638414606681695789005144064)
    = Finite (5404319552844595 / 81129638414606681695789005144064)"
  using round_double_nearest [of "5404319552844595 / 81129638414606681695789005144064" "- 54" "- 106" 5404319552844595]
  by (simp add: pow2_eval)

lemma rd_1_plus: "round_double (81129638414606687100108557988659 / 81129638414606681695789005144064)
    = Finite 1"
  using round_double_nearest [of "81129638414606687100108557988659 / 81129638414606681695789005144064" "0" "- 52" 4503599627370496]
  by (simp add: pow2_eval)

lemma rd_2_70: "round_double 1180591620717411303424 = Finite 1180591620717411303424"
  using round_double_nearest [of "1180591620717411303424" "70" "18" 4503599627370496]
  by (simp add: pow2_eval)

lemma rd_2_70_minus: "round_double (5316911983139663491609823921568533709 / 4503599627370496)
    = Finite 1180591620717411303424"
  using round_double_nearest [of "5316911983139663491609823921568533709 / 4503599627370496" "69" "17" 9007199254740992]
  by (simp add: pow2_eval)

subsection \<open>Doubles are multiples of the smallest subnormal\<close>

lemma round_mag_multiple: "\<exists>n. round_mag a = of_int n * 2 powi (- 1074)"
proof -
  have q: "- 1074 \<le> quantum a" by (simp add: quantum_def)
  have "(2::rat) powi quantum a = 2 powi (quantum a + 1074) * 2 powi (- 1074)"
    by (simp only: pow2_add [symmetric]) simp
  also have "(2::rat) powi (quantum a + 1074) = of_int (2 ^ nat (quantum a + 1074))"
    using q by (intro pow2_of_int) simp
  finally have "round_mag a
      = of_int (round_half_even (a / 2 powi quantum a) * 2 ^ nat (quantum a + 1074))
          * 2 powi (- 1074)"
    by (simp add: round_mag_def)
  then show ?thesis by blast
qed

lemma is_double_multiple:
  assumes "is_double (Finite a)"
  shows "\<exists>n. a = of_int n * 2 powi (- 1074)"
proof -
  have r: "round_double a = Finite a" using assms by simp
  consider "a = 0" | "0 < a" | "a < 0" by linarith
  then show ?thesis
  proof cases
    case 1
    then have "a = of_int 0 * 2 powi (- 1074)" by simp
    then show ?thesis by blast
  next
    case 2
    then have "round_pos a = Finite a" using r by (simp add: round_double_def)
    then have "round_mag a = a" by (auto simp: round_pos_def Let_def split: if_splits)
    then show ?thesis using round_mag_multiple [of a] by simp
  next
    case 3
    then have "fneg (round_pos (- a)) = Finite a" using r by (simp add: round_double_def)
    then have "round_pos (- a) = Finite (- a)" by (cases "round_pos (- a)") auto
    then have "round_mag (- a) = - a" by (auto simp: round_pos_def Let_def split: if_splits)
    then obtain n where "- a = of_int n * 2 powi (- 1074)"
      using round_mag_multiple [of "- a"] by auto
    then have "a = of_int (- n) * 2 powi (- 1074)" by simp
    then show ?thesis by blast
  qed
qed

lemma double_gap:
  assumes "is_double (Finite a)" "is_double (Finite c)" "a < c"
  shows "2 powi (- 1074) \<le> c - a"
proof -
  obtain n where n: "a = of_int n * 2 powi (- 1074)" using is_double_multiple [OF assms(1)] by blast
  obtain l where l: "c = of_int l * 2 powi (- 1074)" using is_double_multiple [OF assms(2)] by blast
  have p: "(0::rat) < 2 powi (- 1074)" by (rule pow2_pos)
  have "(of_int n :: rat) < of_int l" using assms(3) p unfolding n l by (simp only: mult_less_cancel_right_pos)
  then have "n < l" by (simp only: of_int_less_iff)
  then have "1 \<le> l - n" by simp
  then have "(1::rat) \<le> of_int (l - n)" by (simp only: of_int_1_le_iff)
  then have "1 * 2 powi (- 1074) \<le> (of_int (l - n) :: rat) * 2 powi (- 1074)"
    using p by (intro mult_right_mono) simp_all
  then show ?thesis unfolding n l by (simp add: algebra_simps)
qed

text \<open>
  A fraction of at most one half of a rounded width stays within the exact width: the
  rounded width is below the next power of two, and half of that is a double below
  the width.
\<close>

lemma fraction_of_width:
  assumes "2 powi (- 1074) \<le> w" "round_double w = Finite d" "0 \<le> f" "f \<le> 1 / 2"
  shows "\<exists>p. round_double (f * d) = Finite p \<and> 0 \<le> p \<and> p \<le> w"
proof -
  have wpos: "0 < w" using assms(1) pow2_pos [of "- 1074"] by linarith
  define k where "k = ilog2 w"
  have lo: "2 powi k \<le> w" and hi: "w < 2 powi (k + 1)"
    using ilog2_bounds [OF wpos] by (simp_all add: k_def)
  have "(2::rat) powi (- 1074) < 2 powi (k + 1)" using assms(1) hi by simp
  then have k1: "- 1074 \<le> k" using pow2_less_cancel [of "- 1074" "k + 1"] by simp
  have qk: "quantum w \<le> k" using k1 by (simp add: quantum_def k_def)
  have "round_pos w = Finite d" using assms(2) wpos by (simp add: round_double_def)
  then have d: "d = round_mag w" and dfin: "\<not> 2 powi 1024 \<le> round_mag w"
    by (auto simp: round_pos_def Let_def split: if_splits)
  have dlo: "2 powi k \<le> d" unfolding d using wpos qk lo by (rule round_mag_lower)
  have dhi: "d \<le> 2 powi (k + 1)"
    unfolding d using wpos qk hi by (intro round_mag_upper) simp_all
  have "(2::rat) powi k < 2 powi 1024" using dlo dfin unfolding d by simp
  then have k2: "k \<le> 1023" using pow2_less_cancel [of k 1024] by simp
  have dpos: "0 \<le> d" using dlo pow2_pos [of k] by linarith
  have "f * d \<le> (1 / 2) * d" using assms(4) dpos by (intro mult_right_mono)
  also have "\<dots> \<le> (1 / 2) * 2 powi (k + 1)" using dhi by simp
  also have "\<dots> = 2 powi k" by (simp add: pow2_add)
  finally have fd: "f * d \<le> 2 powi k" .
  have fd0: "0 \<le> f * d" using assms(3) dpos by simp
  have up: "fle (round_double (f * d)) (Finite (2 powi k))"
    using round_double_mono [OF fd] round_double_pow2 [OF k1 k2] by simp
  have dn: "fle (Finite 0) (round_double (f * d))"
    using round_double_mono [OF fd0] by simp
  from up dn obtain p where p: "round_double (f * d) = Finite p"
    by (cases "round_double (f * d)") simp_all
  then have "0 \<le> p" "p \<le> 2 powi k" using up dn by simp_all
  then show ?thesis using p lo by auto
qed

lemma current_origin_within:
  assumes "is_double (Finite a)" "is_double (Finite c)" "a < c"
    and "is_finite (fsub (Finite c) (Finite a))"
  shows "\<exists>y. fadd (Finite a) (fmul (float_lit (3 / 10)) (fsub (Finite c) (Finite a))) = Finite y
           \<and> a \<le> y \<and> y \<le> c"
proof -
  have gap: "2 powi (- 1074) \<le> c - a" using assms(1-3) by (rule double_gap)
  obtain d where d: "round_double (c - a) = Finite d"
    using assms(4) by (cases "round_double (c - a)") (simp_all add: fsub_def)
  have f: "(0::rat) \<le> 5404319552844595 / 18014398509481984"
    "(5404319552844595 / 18014398509481984 :: rat) \<le> 1 / 2" by simp_all
  from fraction_of_width [OF gap d f]
  obtain p where p: "round_double (5404319552844595 / 18014398509481984 * d) = Finite p"
    and p0: "0 \<le> p" and pw: "p \<le> c - a" by blast
  have lo: "fle (round_double a) (round_double (a + p))" using p0 by (intro round_double_mono) simp
  have hi: "fle (round_double (a + p)) (round_double c)" using pw by (intro round_double_mono) simp
  have ra: "round_double a = Finite a" and rc: "round_double c = Finite c" using assms(1,2) by simp_all
  obtain y where y: "round_double (a + p) = Finite y"
    using lo hi unfolding ra rc by (cases "round_double (a + p)") simp_all
  have "a \<le> y" "y \<le> c" using lo hi unfolding ra rc y by simp_all
  moreover have "fadd (Finite a) (fmul (float_lit (3 / 10)) (fsub (Finite c) (Finite a))) = Finite y"
    using d p y by (simp add: fsub_def float_lit_def float_literals)
  ultimately show ?thesis by blast
qed

lemma origin_x_le:
  assumes "flt (Finite 0) t" "is_double (Finite a)"
  shows "fle (fsub (Finite a) (fmul (float_lit (12 / 10)) t)) (Finite a)"
proof -
  let ?c = "5404319552844595 / 4503599627370496 :: rat"
  have c: "float_lit (12 / 10) = Finite ?c" by (simp add: float_lit_def float_literals)
  have ra: "round_double a = Finite a" using assms(2) by simp
  show ?thesis
  proof (cases t)
    case (Finite r)
    then have r: "0 < r" using assms(1) by simp
    have "0 \<le> ?c * r" using r by simp
    then have p0: "fle (Finite 0) (round_double (?c * r))"
      using round_double_mono [of 0 "?c * r"] by simp
    show ?thesis
    proof (cases "round_double (?c * r)")
      case (Finite p)
      then have "0 \<le> p" using p0 by simp
      then have "fle (round_double (a - p)) (round_double a)" by (intro round_double_mono) simp
      then show ?thesis using Finite \<open>t = Finite r\<close> c ra by (simp add: fsub_def)
    next
      case PosInf
      then show ?thesis using \<open>t = Finite r\<close> c by (simp add: fsub_def)
    next
      case NegInf
      then show ?thesis using p0 by simp
    next
      case NaN
      then show ?thesis by simp
    qed
  next
    case PosInf
    then show ?thesis using c by (simp add: fsub_def)
  next
    case NegInf
    then show ?thesis using assms(1) by simp
  next
    case NaN
    then show ?thesis using assms(1) by simp
  qed
qed

lemma rd_12: "round_double (27021597764222975 / 2251799813685248) = Finite (12)"
  using round_double_nearest [of "27021597764222975 / 2251799813685248" "3" "- 49" 6755399441055744]
  by (simp add: pow2_eval)

lemma example_current_origin:
  "compute_scale_bar_position (new_axes\<lparr>ylim := (Finite (- 2), Finite 2)\<rparr>) (PyInt 10) True
     = Inr (Finite (- 12), Finite (- (3602879701896397 / 4503599627370496)))"
  by (simp add: compute_scale_bar_position_def bind_result_def new_axes_def fsub_def
      float_lit_def float_literals round_double_neg rd_1_2f rd_0_8f rd_12)

lemma cex_y:
  "compute_scale_bar_position
     (new_axes\<lparr>ylim := (Finite 1, Finite (4503599627370497 / 4503599627370496))\<rparr>) (PyInt 10) True
     = Inr (Finite (- 12), Finite 1)"
  by (simp add: compute_scale_bar_position_def bind_result_def new_axes_def fsub_def
      float_lit_def float_literals round_double_neg rd_eps rd_0_3_eps rd_1_plus rd_12)

lemma cex_x:
  "compute_scale_bar_position
     (new_axes\<lparr>xlim := (Finite (2 ^ 70), Finite (2 ^ 71))\<rparr>) (PyInt 1) False
     = Inr (Finite (2 ^ 70), Finite 0)"
  by (simp add: compute_scale_bar_position_def bind_result_def new_axes_def fsub_def
      float_lit_def float_literals round_double_neg rd_1_2f rd_2_70_minus)

section \<open>Facts about formatting and drawing\<close>

subsection \<open>Evaluating the formatting functions\<close>

lemma floor_rat_numeral: "\<lfloor>(numeral a / numeral b :: rat)\<rfloor> = numeral a div numeral b"
  using floor_divide_of_int_eq [where ?'a = rat, of "numeral a" "numeral b"] by simp

lemma ceiling_rat_numeral:
  "\<lceil>(numeral a / numeral b :: rat)\<rceil> = - (- numeral a div numeral b)"
  using floor_divide_of_int_eq [where ?'a = rat, of "- numeral a" "numeral b"]
  by (simp add: ceiling_def)

lemma pow10_neg_numeral: "(10::rat) powi (- numeral k) = 1 / 10 ^ numeral k"
  by (simp add: power_int_minus inverse_eq_divide)

lemma shortest_digits_numeral:
  "shortest_digits (numeral k) n a =
     (let e = decimal_point a - int n; s = a / 10 powi e; lo = \<lfloor>s\<rfloor>; hi = lo + 1
      in if round_trips a lo e \<and> round_trips a hi e
         then (if s - of_int lo < of_int hi - s then (lo, e)
               else if of_int hi - s < s - of_int lo then (hi, e)
               else if even lo then (lo, e) else (hi, e))
         else if round_trips a lo e then (lo, e)
         else if round_trips a hi e then (hi, e)
         else shortest_digits (pred_numeral k) (Suc n) a)"
  by (simp add: numeral_eq_Suc)

lemma replicate_numeral_eval:
  "replicate (numeral k) x = x # replicate (pred_numeral k) x"
  by (simp add: numeral_eq_Suc)

lemmas format_eval =
  floor_rat_numeral ceiling_rat_numeral pow10_neg_numeral digits_of.simps strip_zeros.simps
  decimal_point_def round_trips_def repr_positive_def repr_layout_def repr_exponent_def
  str_int_def Decimal_def split_sign_def parse_exponent_def is_digit_def nat_of_digits_def
  format_float_def bind_result_def rescale_0_def signed_value_def to_precision_def
  round_half_even_def Let_def shortest_digits_numeral replicate_numeral_eval

lemma rd_0_2: "round_double (1 / 5) = Finite (3602879701896397 / 18014398509481984)"
  using round_double_nearest [of "1 / 5" "- 3" "- 55" 7205759403792794]
  by (simp add: pow2_eval)

lemma rd_1_5: "round_double (3 / 2) = Finite (3 / 2)"
  using round_double_nearest [of "3 / 2" "0" "- 52" 6755399441055744]
  by (simp add: pow2_eval)

lemma rd_1_6: "round_double (8 / 5) = Finite (3602879701896397 / 2251799813685248)"
  using round_double_nearest [of "8 / 5" "0" "- 52" 7205759403792794]
  by (simp add: pow2_eval)

lemma str_examples:
  "py_str (PyFloat (float_lit 1000)) = ''1000.0''"
  "py_str (PyFloat (float_lit (1 / 10))) = ''0.1''"
  "py_str (PyFloat (float_lit (150 / 100))) = ''1.5''"
  by (simp_all add: format_eval float_lit_def float_literals rd_0_2 rd_1_5 rd_1_6)

lemma format_examples:
  "map_sum id decimal_str (format_float (PyFloat (float_lit 1000))) = Inr ''1000''"
  "map_sum id decimal_str (format_float (PyFloat (float_lit (1 / 10)))) = Inr ''0.1''"
  "map_sum id decimal_str (format_float (PyFloat (float_lit (150 / 100)))) = Inr ''1.5''"
  by (simp_all add: format_eval float_lit_def float_literals rd_0_2 rd_1_5 rd_1_6)

lemma rd_0_6: "round_double (3 / 5) = Finite (5404319552844595 / 9007199254740992)"
  using round_double_nearest [of "3 / 5" "- 1" "- 53" 5404319552844595]
  by (simp add: pow2_eval)

lemma rd_0_002: "round_double (1 / 500) = Finite (1152921504606847 / 576460752303423488)"
  using round_double_nearest [of "1 / 500" "- 9" "- 61" 4611686018427388]
  by (simp add: pow2_eval)

lemma rd_0_006: "round_double (3 / 500) = Finite (3458764513820541 / 576460752303423488)"
  using round_double_nearest [of "3 / 500" "- 8" "- 60" 6917529027641082]
  by (simp add: pow2_eval)

lemma rd_0_02: "round_double (1 / 50) = Finite (5764607523034235 / 288230376151711744)"
  using round_double_nearest [of "1 / 50" "- 6" "- 58" 5764607523034235]
  by (simp add: pow2_eval)

lemma rd_0_06: "round_double (3 / 50) = Finite (1080863910568919 / 18014398509481984)"
  using round_double_nearest [of "3 / 50" "- 5" "- 57" 8646911284551352]
  by (simp add: pow2_eval)

lemmas repr_facts = rd_0_2 rd_1_5 rd_1_6 rd_0_6 rd_0_002 rd_0_006 rd_0_02 rd_0_06

lemma format_valid_time:
  "list_all (\<lambda>x. \<exists>d. format_float x = Inr d) valid_time_bar_length"
  by (simp add: valid_time_bar_length_def format_eval float_lit_def float_literals repr_facts)

lemma format_valid_voltage:
  "list_all (\<lambda>x. \<exists>d. format_float x = Inr d) valid_voltage_bar_length"
  by (simp add: valid_voltage_bar_length_def format_eval float_lit_def float_literals repr_facts)

lemma format_valid_current:
  "list_all (\<lambda>x. \<exists>d. format_float x = Inr d) valid_current_bar_length"
  by (simp add: valid_current_bar_length_def format_eval float_lit_def float_literals repr_facts)

lemma format_valid:
  assumes "x \<in> set valid_time_bar_length \<union> set valid_voltage_bar_length
             \<union> set valid_current_bar_length"
  shows "\<exists>d. format_float x = Inr d"
  using assms format_valid_time format_valid_voltage format_valid_current
  by (auto simp: list_all_iff)

subsection \<open>Running a program\<close>

lemma then_do_returns [simp]: "then_do (returns x) f = f x"
  by (rule ext) (simp add: then_do_def returns_def)

lemma then_do_raises [simp]: "then_do (raises e) f = raises e"
  by (rule ext) (simp add: then_do_def raises_def)

lemma pure_result_Inr [simp]: "pure_result (Inr x) = returns x"
  by (rule ext) (simp add: pure_result_def returns_def)

lemma pure_result_Inl [simp]: "pure_result (Inl e) = raises e"
  by (rule ext) (simp add: pure_result_def raises_def)

lemma then_do_modify: "then_do (modify g) f s = f () (g s)"
  by (simp add: then_do_def modify_def)

lemma then_do_reads: "then_do (reads g) f s = (case g s of Inl e \<Rightarrow> (Inl e, s) | Inr x \<Rightarrow> f x s)"
  by (simp add: then_do_def reads_def split: sum.splits)

lemma then_do_new_text:
  "then_do (new_text t) f ax = f (length (ax_texts ax)) (ax\<lparr>ax_texts := ax_texts ax @ [t]\<rparr>)"
  by (simp add: then_do_def new_text_def)

subsection \<open>Moving the labels\<close>

lemma move_labels_run:
  assumes "as_float time_bar_length = Inr t" "as_float IV_bar_length = Inr v"
  shows "move_labels get_text_bbox origin time_bar_length IV_bar_length i j ax
    = (Inr (),
       set_position j
         (fsub (fst origin) (fmul (float_lit (13 / 10))
            (bbox_width (get_text_bbox
               (set_position i
                  (fadd (fst origin) (fmul (float_lit (5 / 10)) t),
                   fsub (snd origin) (fmul (float_lit (18 / 10))
                     (bbox_height (get_text_bbox ax (ax_texts ax ! i))))) ax)
               (ax_texts (set_position i
                  (fadd (fst origin) (fmul (float_lit (5 / 10)) t),
                   fsub (snd origin) (fmul (float_lit (18 / 10))
                     (bbox_height (get_text_bbox ax (ax_texts ax ! i))))) ax) ! j)))),
          fadd (snd origin) (fmul (float_lit (5 / 10)) v))
         (set_position i
            (fadd (fst origin) (fmul (float_lit (5 / 10)) t),
             fsub (snd origin) (fmul (float_lit (18 / 10))
               (bbox_height (get_text_bbox ax (ax_texts ax ! i))))) ax))"
  using assms
  by (simp add: move_labels_def then_do_reads then_do_modify mul_num_def bind_result_def
      modify_def)

lemma set_position_same:
  "i < length (ax_texts ax) \<Longrightarrow> text_position (ax_texts (set_position i p ax) ! i) = p"
  by (simp add: set_position_def)

lemma set_position_other:
  "i \<noteq> j \<Longrightarrow> ax_texts (set_position i p ax) ! j = ax_texts ax ! j"
  by (simp add: set_position_def)

lemma set_position_length [simp]:
  "length (ax_texts (set_position i p ax)) = length (ax_texts ax)"
  by (simp add: set_position_def)

lemma set_position_idem:
  assumes "i < length (ax_texts ax)" "text_position (ax_texts ax ! i) = p"
  shows "set_position i p ax = ax"
proof -
  have "(ax_texts ax ! i)\<lparr>text_position := p\<rparr> = ax_texts ax ! i" using assms(2) by simp
  then show ?thesis by (simp add: set_position_def)
qed

subsection \<open>The lengths selected are fit for drawing\<close>

lemma selected_lengths:
  obtains t iv where "compute_scale_bar_length axis is_current bar_length = Inr (t, iv)"
    "t \<in> set valid_time_bar_length \<union> set valid_voltage_bar_length \<union> set valid_current_bar_length"
    "iv \<in> set valid_time_bar_length \<union> set valid_voltage_bar_length \<union> set valid_current_bar_length"
proof -
  let ?T = "fmul bar_length (fsub (snd (xlim axis)) (fst (xlim axis)))"
  let ?V = "fmul bar_length (fsub (snd (ylim axis)) (fst (ylim axis)))"
  obtain t where t: "closest_length valid_time_bar_length ?T = Inr t"
    "t \<in> set valid_time_bar_length"
    using closest_length_member [OF valid_nonempty(1)] valid_lengths_finite by blast
  obtain c where c: "closest_length valid_current_bar_length ?V = Inr c"
    "c \<in> set valid_current_bar_length"
    using closest_length_member [OF valid_nonempty(3)] valid_lengths_finite by blast
  obtain v where v: "closest_length valid_voltage_bar_length ?V = Inr v"
    "v \<in> set valid_voltage_bar_length"
    using closest_length_member [OF valid_nonempty(2)] valid_lengths_finite by blast
  have "compute_scale_bar_length axis is_current bar_length
      = Inr (t, if is_current then c else v)"
    using t c v by (simp add: compute_scale_bar_length_def Let_def bind_result_def)
  then show ?thesis using that [of t "if is_current then c else v"] t(2) c(2) v(2) by auto
qed

lemma draw_scale_bars_run:
  obtains tbl ivl t v origin d1 d2 where
    "compute_scale_bar_length ax is_current (float_lit (15 / 100)) = Inr (tbl, ivl)"
    "as_float tbl = Inr t" "as_float ivl = Inr v"
    "compute_scale_bar_position ax tbl is_current = Inr origin"
    "format_float tbl = Inr d1" "format_float ivl = Inr d2"
    "draw_scale_bars E P get_text_bbox is_current (StyleObject st) ax
      = move_labels get_text_bbox origin tbl ivl (length (ax_texts ax)) (Suc (length (ax_texts ax)))
          (ax\<lparr>ax_lines := ax_lines ax @
                 [scale_bar_line [fst origin, fadd (fst origin) t] [snd origin, snd origin],
                  scale_bar_line [fst origin, fst origin] [snd origin, fadd (snd origin) v]],
               ax_texts := ax_texts ax @
                 [\<lparr>text_position = origin, text_string = decimal_str d1 @ '' ms'',
                   horizontalalignment = ''center'', verticalalignment = ''bottom'',
                   text_fontsize = scale_bars_fontsize st\<rparr>,
                  \<lparr>text_position = origin,
                   text_string = decimal_str d2 @ (if is_current then '' nA'' else '' mV''),
                   horizontalalignment = ''left'', verticalalignment = ''center'',
                   text_fontsize = scale_bars_fontsize st\<rparr>]\<rparr>)"
proof -
  obtain tbl ivl where l: "compute_scale_bar_length ax is_current (float_lit (15 / 100)) = Inr (tbl, ivl)"
    and m: "tbl \<in> set valid_time_bar_length \<union> set valid_voltage_bar_length \<union> set valid_current_bar_length"
      "ivl \<in> set valid_time_bar_length \<union> set valid_voltage_bar_length \<union> set valid_current_bar_length"
    by (rule selected_lengths)
  obtain t v where t: "as_float tbl = Inr t" and v: "as_float ivl = Inr v"
    using valid_lengths_finite [OF m(1)] valid_lengths_finite [OF m(2)] by blast
  obtain d1 d2 where d: "format_float tbl = Inr d1" "format_float ivl = Inr d2"
    using format_valid [OF m(1)] format_valid [OF m(2)] by blast
  obtain origin where o: "compute_scale_bar_position ax tbl is_current = Inr origin"
    using t by (simp add: compute_scale_bar_position_def bind_result_def Let_def)
  have "draw_scale_bars E P get_text_bbox is_current (StyleObject st) ax
      = move_labels get_text_bbox origin tbl ivl (length (ax_texts ax)) (Suc (length (ax_texts ax)))
          (ax\<lparr>ax_lines := ax_lines ax @
                 [scale_bar_line [fst origin, fadd (fst origin) t] [snd origin, snd origin],
                  scale_bar_line [fst origin, fst origin] [snd origin, fadd (snd origin) v]],
               ax_texts := ax_texts ax @
                 [\<lparr>text_position = origin, text_string = decimal_str d1 @ '' ms'',
                   horizontalalignment = ''center'', verticalalignment = ''bottom'',
                   text_fontsize = scale_bars_fontsize st\<rparr>,
                  \<lparr>text_position = origin,
                   text_string = decimal_str d2 @ (if is_current then '' nA'' else '' mV''),
                   horizontalalignment = ''left'', verticalalignment = ''center'',
                   text_fontsize = scale_bars_fontsize st\<rparr>]\<rparr>)"
    using l t v d o
    by (simp add: draw_scale_bars_def define_style_def then_do_reads then_do_modify
        then_do_new_text add_num_def bind_result_def add_line_def split del: if_split)
  then show ?thesis using that l t v d o by blast
qed

lemma draw_scale_bars_returns:
  "\<exists>ax'. draw_scale_bars E P get_text_bbox is_current (StyleObject st) ax = (Inr (), ax')"
proof -
  obtain tbl ivl t v origin ax0 where a: "as_float tbl = Inr t" "as_float ivl = Inr v"
    and r: "draw_scale_bars E P get_text_bbox is_current (StyleObject st) ax
      = move_labels get_text_bbox origin tbl ivl (length (ax_texts ax)) (Suc (length (ax_texts ax))) ax0"
    using draw_scale_bars_run [of ax is_current E P get_text_bbox st] by metis
  show ?thesis unfolding r move_labels_run [OF a] by blast
qed

subsection \<open>Which steps can raise the mismatch error\<close>

lemma nm_then_do:
  assumes "\<And>s. fst (m s) \<noteq> Inl shape_mismatch" "\<And>x s. fst (f x s) \<noteq> Inl shape_mismatch"
  shows "fst (then_do m f s) \<noteq> Inl shape_mismatch"
proof (cases "m s")
  case (Pair r s')
  then show ?thesis using assms(1) [of s] assms(2) by (cases r) (auto simp: then_do_def)
qed

lemma nm_returns: "fst (returns x s) \<noteq> Inl shape_mismatch"
  by (simp add: returns_def)

lemma nm_modify: "fst (modify f s) \<noteq> Inl shape_mismatch"
  by (simp add: modify_def)

lemma nm_pure_result: "r \<noteq> Inl shape_mismatch \<Longrightarrow> fst (pure_result r s) \<noteq> Inl shape_mismatch"
  by (simp add: pure_result_def)

lemma nm_update_axes: "fst (update_axes a f s) \<noteq> Inl shape_mismatch"
  by (simp add: update_axes_def on_axes_def modify_def)

lemma nm_update_figure: "fst (update_figure g f s) \<noteq> Inl shape_mismatch"
  by (simp add: update_figure_def modify_def)

lemma nm_raises: "e \<noteq> shape_mismatch \<Longrightarrow> fst (raises e s) \<noteq> Inl shape_mismatch"
  by (simp add: raises_def)

lemma nm_if:
  assumes "fst (p s) \<noteq> Inl shape_mismatch" "fst (q s) \<noteq> Inl shape_mismatch"
  shows "fst ((if b then p else q) s) \<noteq> Inl shape_mismatch"
  using assms by simp

lemma nm_as_float: "as_float n \<noteq> Inl shape_mismatch"
proof (cases n)
  case (PyInt k)
  then show ?thesis
    by (cases "round_double (of_int k)") (simp_all add: shape_mismatch_def)
next
  case (PyFloat d)
  then show ?thesis by simp
qed

lemma nm_view_limits: "view_limits l \<noteq> Inl shape_mismatch"
  by (cases l) (simp add: view_limits_def shape_mismatch_def split: prod.splits)

lemma nm_set_xlim: "fst (set_xlim a l s) \<noteq> Inl shape_mismatch"
  unfolding set_xlim_def
  by (intro nm_then_do nm_pure_result nm_view_limits nm_update_axes nm_if nm_returns nm_modify)
    (simp add: reads_def)

lemma nm_set_ylim: "fst (set_ylim a l s) \<noteq> Inl shape_mismatch"
  unfolding set_ylim_def
  by (intro nm_then_do nm_pure_result nm_view_limits nm_update_axes)

lemma nm_plot_line: "fst (plot_line K a xs ys c al lw s) \<noteq> Inl shape_mismatch"
  unfolding plot_line_def
  by (intro nm_if nm_raises nm_then_do nm_pure_result nm_as_float nm_update_axes)
    (simp_all add: shape_mismatch_def)

lemma nm_hide_spines: "fst (hide_spines a s) \<noteq> Inl shape_mismatch"
  by (simp add: hide_spines_def nm_update_axes)

lemma nm_twinx: "fst (twinx a s) \<noteq> Inl shape_mismatch"
  by (simp add: twinx_def Let_def)

lemma nm_case_option:
  assumes "fst (p s) \<noteq> Inl shape_mismatch" "\<And>x. fst (q x s) \<noteq> Inl shape_mismatch"
  shows "fst ((case v of None \<Rightarrow> p | Some x \<Rightarrow> q x) s) \<noteq> Inl shape_mismatch"
  using assms by (cases v) auto

lemma nm_none_method: "none_method name v \<noteq> Inl shape_mismatch"
  by (cases v) (simp_all add: shape_mismatch_def)

lemma nm_axes_method: "axes_method name v \<noteq> Inl shape_mismatch"
  by (cases v) (simp_all add: shape_mismatch_def)

lemma nm_list_index: "list_index xs i \<noteq> Inl shape_mismatch"
  by (simp add: list_index_def Let_def shape_mismatch_def)

lemma nm_py_index: "py_index v i \<noteq> Inl shape_mismatch"
  by (cases v) (simp_all add: nm_list_index, simp add: shape_mismatch_def)

lemma nm_series_index: "series_index xs i \<noteq> Inl shape_mismatch"
  by (simp add: series_index_def nm_list_index)

lemma nm_np_reduce: "np_reduce b xs \<noteq> Inl shape_mismatch"
  by (cases xs) (simp_all add: np_reduce_def shape_mismatch_def)

lemma nm_series_min: "series_min xs \<noteq> Inl shape_mismatch"
  by (cases xs) (simp_all add: nm_np_reduce, simp add: shape_mismatch_def)

lemma nm_series_max: "series_max xs \<noteq> Inl shape_mismatch"
  by (cases xs) (simp_all add: nm_np_reduce, simp add: shape_mismatch_def)

lemma nm_draw_scale_bars:
  "fst (on_axes a (draw_scale_bars E P g cur (StyleObject st)) s) \<noteq> Inl shape_mismatch"
proof -
  obtain ax' where "draw_scale_bars E P g cur (StyleObject st) (axes_store s a) = (Inr (), ax')"
    using draw_scale_bars_returns by blast
  then show ?thesis by (simp add: on_axes_def)
qed

lemmas nm_intros =
  nm_then_do nm_returns nm_modify nm_update_axes nm_update_figure nm_set_xlim nm_set_ylim
  nm_plot_line nm_hide_spines nm_twinx nm_case_option nm_if nm_draw_scale_bars nm_pure_result
  nm_none_method nm_axes_method nm_py_index nm_series_index nm_series_min nm_series_max

lemma nm_voltage_and_current_axes:
  "fst (voltage_and_current_axes h st axis s) \<noteq> Inl shape_mismatch"
  unfolding voltage_and_current_axes_def by (intro nm_intros)

lemma nm_draw_traces:
  "fst (draw_traces K st ts vs cs av ac s) \<noteq> Inl shape_mismatch"
  unfolding draw_traces_def by (intro nm_intros)

lemma nm_bars_or_labels:
  "fst (bars_or_labels E P g st v ac s) \<noteq> Inl shape_mismatch"
  unfolding bars_or_labels_def by (intro nm_intros)

lemma nm_finish_figure:
  "fst (finish_figure st title fig axis s) \<noteq> Inl shape_mismatch"
  unfolding finish_figure_def by (intro nm_intros)

lemma nm_after_axes:
  "fst (then_do (voltage_and_current_axes h st axis)
         (\<lambda>(axis_voltage, axis_current).
            then_do (draw_traces K st ts vs cs axis_voltage axis_current)
              (\<lambda>axis_voltage.
                 then_do (bars_or_labels E P g st axis_voltage axis_current)
                   (\<lambda>_. finish_figure st title fig axis))) s) \<noteq> Inl shape_mismatch"
proof (rule nm_then_do [OF nm_voltage_and_current_axes])
  fix x :: "axis_value \<times> nat option" and s
  obtain av ac where x: "x = (av, ac)" by (cases x)
  show "fst ((case x of (axis_voltage, axis_current) \<Rightarrow>
            then_do (draw_traces K st ts vs cs axis_voltage axis_current)
              (\<lambda>axis_voltage.
                 then_do (bars_or_labels E P g st axis_voltage axis_current)
                   (\<lambda>_. finish_figure st title fig axis))) s) \<noteq> Inl shape_mismatch"
    unfolding x prod.case
    by (intro nm_then_do nm_draw_traces nm_bars_or_labels nm_finish_figure)
qed

lemma then_do_mismatch:
  assumes "\<And>x s. fst (f x s) \<noteq> Inl shape_mismatch"
  shows "(fst (then_do m f s) = Inl shape_mismatch) = (fst (m s) = Inl shape_mismatch)"
    and "fst (m s) = Inl shape_mismatch \<Longrightarrow> snd (then_do m f s) = snd (m s)"
proof -
  obtain r s' where ms: "m s = (r, s')" by (cases "m s")
  show "(fst (then_do m f s) = Inl shape_mismatch) = (fst (m s) = Inl shape_mismatch)"
    using assms ms by (cases r) (auto simp: then_do_def)
  show "fst (m s) = Inl shape_mismatch \<Longrightarrow> snd (then_do m f s) = snd (m s)"
    using ms by (cases r) (auto simp: then_do_def)
qed

lemma nm_bind_result:
  assumes "r \<noteq> Inl shape_mismatch" "\<And>x. f x \<noteq> Inl shape_mismatch"
  shows "bind_result r f \<noteq> Inl shape_mismatch"
  using assms by (cases r) (simp_all add: bind_result_def)

lemma nm_if_result:
  assumes "p \<noteq> Inl shape_mismatch" "q \<noteq> Inl shape_mismatch"
  shows "(if b then p else q) \<noteq> Inl shape_mismatch"
  using assms by simp

lemma nm_Inr: "Inr x \<noteq> Inl shape_mismatch"
  by simp

lemma nm_mul_num: "mul_num c n \<noteq> Inl shape_mismatch"
  unfolding mul_num_def by (intro nm_bind_result nm_as_float) simp

lemma nm_add_num: "add_num c n \<noteq> Inl shape_mismatch"
  unfolding add_num_def by (intro nm_bind_result nm_as_float) simp

lemma compute_figsize_not_mismatch: "compute_figsize n title st \<noteq> Inl shape_mismatch"
  unfolding compute_figsize_def
  by (intro nm_bind_result nm_mul_num nm_add_num nm_if_result nm_Inr)

lemma subplots_not_mismatch: "fst (subplots n fs s) \<noteq> Inl shape_mismatch"
  by (simp add: subplots_def Let_def shape_mismatch_def)

lemma figure_and_axes_mismatch:
  "(fst (figure_and_axes n title st axis s) = Inl shape_mismatch)
     = (\<exists>ax k. axis = Some ax \<and> py_len ax = Inr k \<and> k \<noteq> n)"
  "fst (figure_and_axes n title st axis s) = Inl shape_mismatch
     \<Longrightarrow> snd (figure_and_axes n title st axis s) = s"
proof -
  have none: "fst (figure_and_axes n title st None s) \<noteq> Inl shape_mismatch"
    unfolding figure_and_axes_def
    by (simp, intro nm_then_do nm_pure_result compute_figsize_not_mismatch subplots_not_mismatch)
  have some: "(fst (figure_and_axes n title st (Some ax) s) = Inl shape_mismatch)
       = (\<exists>k. py_len ax = Inr k \<and> k \<noteq> n)
     \<and> (fst (figure_and_axes n title st (Some ax) s) = Inl shape_mismatch
         \<longrightarrow> snd (figure_and_axes n title st (Some ax) s) = s)" for ax
  proof (cases ax)
    case (AxesRef a)
    then show ?thesis
      by (simp add: figure_and_axes_def raises_def shape_mismatch_def)
  next
    case (AxesList xs)
    have "fst (then_do (pure_result (list_index xs 0))
                 (\<lambda>a. reads (\<lambda>c. Inr (axes_figure c a, AxesList xs))) s) \<noteq> Inl shape_mismatch"
      by (intro nm_then_do nm_pure_result nm_list_index) (simp add: reads_def)
    then show ?thesis using AxesList
      by (simp add: figure_and_axes_def raises_def)
  next
    case (AxesArray xs)
    then show ?thesis
      by (simp add: figure_and_axes_def raises_def shape_mismatch_def)
  qed
  show "(fst (figure_and_axes n title st axis s) = Inl shape_mismatch)
     = (\<exists>ax k. axis = Some ax \<and> py_len ax = Inr k \<and> k \<noteq> n)"
    using none some by (cases axis) auto
  show "fst (figure_and_axes n title st axis s) = Inl shape_mismatch
     \<Longrightarrow> snd (figure_and_axes n title st axis s) = s"
    using none some by (cases axis) auto
qed

lemma plot_trace_resolved:
  assumes "define_style E P style = Inr st"
  shows "plot_trace E P g K ts vs cs title axis style
    = then_do (figure_and_axes (get_n_plots 1 (if cs \<noteq> None then 1 else 0) (shared_axis st))
                 title st axis)
        (\<lambda>(fig, axis).
           then_do (voltage_and_current_axes (cs \<noteq> None) st axis)
             (\<lambda>(axis_voltage, axis_current).
                then_do (draw_traces K st ts vs cs axis_voltage axis_current)
                  (\<lambda>axis_voltage.
                     then_do (bars_or_labels E P g st axis_voltage axis_current)
                       (\<lambda>_. finish_figure st title fig axis))))"
  by (simp add: plot_trace_def assms)

lemma plot_trace_unresolved:
  assumes "define_style E P style = Inl e"
  shows "plot_trace E P g K ts vs cs title axis style = raises e"
  by (simp add: plot_trace_def assms)

lemma define_style_not_mismatch: "define_style E P style \<noteq> Inl shape_mismatch"
  by (cases style) (simp_all add: define_style_def shape_mismatch_def)

lemma plot_trace_mismatch:
  "(fst (plot_trace E P g K ts vs cs title axis style c) = Inl shape_mismatch)
     = (\<exists>st ax k. define_style E P style = Inr st \<and> axis = Some ax \<and> py_len ax = Inr k
          \<and> k \<noteq> get_n_plots 1 (if cs \<noteq> None then 1 else 0) (shared_axis st))"
  "fst (plot_trace E P g K ts vs cs title axis style c) = Inl shape_mismatch
     \<Longrightarrow> snd (plot_trace E P g K ts vs cs title axis style c) = c"
proof -
  have both: "(fst (plot_trace E P g K ts vs cs title axis style c) = Inl shape_mismatch)
     = (\<exists>st ax k. define_style E P style = Inr st \<and> axis = Some ax \<and> py_len ax = Inr k
          \<and> k \<noteq> get_n_plots 1 (if cs \<noteq> None then 1 else 0) (shared_axis st))
     \<and> (fst (plot_trace E P g K ts vs cs title axis style c) = Inl shape_mismatch
         \<longrightarrow> snd (plot_trace E P g K ts vs cs title axis style c) = c)"
  proof (cases "define_style E P style")
    case (Inl e)
    then have "e \<noteq> shape_mismatch" using define_style_not_mismatch [of E P style] by auto
    then show ?thesis using Inl by (simp add: plot_trace_unresolved raises_def)
  next
    case (Inr st)
    let ?n = "get_n_plots 1 (if cs \<noteq> None then 1 else 0) (shared_axis st)"
    have tail: "\<And>x s. fst ((\<lambda>(fig, axis).
           then_do (voltage_and_current_axes (cs \<noteq> None) st axis)
             (\<lambda>(axis_voltage, axis_current).
                then_do (draw_traces K st ts vs cs axis_voltage axis_current)
                  (\<lambda>axis_voltage.
                     then_do (bars_or_labels E P g st axis_voltage axis_current)
                       (\<lambda>_. finish_figure st title fig axis)))) x s) \<noteq> Inl shape_mismatch"
      using nm_after_axes by (auto simp: split_def)
    show ?thesis
      unfolding plot_trace_resolved [OF Inr]
      using then_do_mismatch [of _ "figure_and_axes ?n title st axis" c, OF tail]
        figure_and_axes_mismatch [of ?n title st axis c] Inr
      by auto
  qed
  show "(fst (plot_trace E P g K ts vs cs title axis style c) = Inl shape_mismatch)
     = (\<exists>st ax k. define_style E P style = Inr st \<and> axis = Some ax \<and> py_len ax = Inr k
          \<and> k \<noteq> get_n_plots 1 (if cs \<noteq> None then 1 else 0) (shared_axis st))"
    using both by blast
  show "fst (plot_trace E P g K ts vs cs title axis style c) = Inl shape_mismatch
     \<Longrightarrow> snd (plot_trace E P g K ts vs cs title axis style c) = c"
    using both by blast
qed

subsection \<open>Without a current and without scale bars\<close>

lemma fails_then_do:
  assumes "\<And>x s. \<exists>e. fst (f x s) = Inl e"
  shows "\<exists>e. fst (then_do m f s) = Inl e"
proof (cases "m s")
  case (Pair r s')
  then show ?thesis using assms by (cases r) (auto simp: then_do_def)
qed

lemma labels_without_current:
  "\<not> scale_bars st \<Longrightarrow>
   bars_or_labels E P g st v None = raises (AttributeError ''NoneType'' ''set_xlabel'')"
  by (simp add: bars_or_labels_def)

lemma plot_trace_fails:
  assumes "define_style E P style = Inr st" "\<not> scale_bars st"
  shows "\<exists>e. fst (plot_trace E P g K ts vs None title axis style c) = Inl e"
  unfolding plot_trace_resolved [OF assms(1)]
  by (intro fails_then_do)
    (auto simp: voltage_and_current_axes_def labels_without_current [OF assms(2)] raises_def
      intro!: fails_then_do)

lemma plot_trace_fails_at_labels:
  assumes "define_style E P style = Inr st" "\<not> scale_bars st"
    and "figure_and_axes 1 title st axis c = (Inr (fig, ax), c1)"
    and "draw_traces K st ts vs None ax None c1 = (Inr v, c2)"
  shows "plot_trace E P g K ts vs None title axis style c
     = (Inl (AttributeError ''NoneType'' ''set_xlabel''), c2)"
  unfolding plot_trace_resolved [OF assms(1)]
  using assms(3,4)
  by (simp add: get_n_plots_def then_do_def voltage_and_current_axes_def returns_def
      labels_without_current [OF assms(2)] raises_def)

subsection \<open>The limits of an axes\<close>

lemma lit_tiny:
  "round_double (1 / 1000000000000000)
     = Finite (2535301200456459 / 2535301200456458802993406410752)"
  using round_double_nearest [of "1 / 1000000000000000" "- 50" "- 102" 5070602400912918]
  by (simp add: pow2_eval)

text \<open>The quotient \<^verbatim>\<open>1e6 / 1e-15\<close> of the threshold, and the threshold itself.\<close>

lemma threshold_quotient:
  "tiny = Finite (2535301200456459 / 2535301200456458802993406410752)
   \<and> round_double (10 ^ 6 / (2535301200456459 / 2535301200456458802993406410752))
       = Finite 999999999999999868928"
  using round_double_nearest
    [of "2535301200456458802993406410752000000 / 2535301200456459" 69 17 7629394531249999]
  by (simp add: tiny_def float_lit_def lit_tiny pow2_eval)

lemma nonsingular_threshold_value:
  "nonsingular_threshold = Finite (7629394531249999 * 2 powi (- 1005))"
proof -
  have "(999999999999999868928::rat) * 2 powi (- 1022)
      = of_int 7629394531249999 * 2 powi (- 1005)"
    by (simp add: pow2_eval)
  then show ?thesis
    using round_double_exact [of 7629394531249999 "- 1005"]
    by (simp add: nonsingular_threshold_def)
qed

lemma view_limits_unit: "view_limits (Finite 0, Finite 1) = Inr (Finite 0, Finite 1)"
proof -
  have t: "round_double (2535301200456459 / 2535301200456458802993406410752)
      = Finite (2535301200456459 / 2535301200456458802993406410752)"
    using round_double_exact [of 2535301200456459 "- 101"] by (simp add: pow2_eval)
  show ?thesis
    by (simp add: view_limits_def nonsingular_def Let_def nonsingular_threshold_value
        tiny_def float_lit_def lit_tiny t fsub_def pow2_eval)
qed

text \<open>Identical limits are moved apart by a twentieth of their size.\<close>

lemma view_limits_identical:
  "view_limits (Finite 1, Finite 1)
     = Inr (Finite (4278419646001971 / 4503599627370496),
            Finite (4728779608739021 / 4503599627370496))"
proof -
  have t: "round_double (2535301200456459 / 2535301200456458802993406410752)
      = Finite (2535301200456459 / 2535301200456458802993406410752)"
    using round_double_exact [of 2535301200456459 "- 101"] by (simp add: pow2_eval)
  have e: "round_double (3602879701896397 / 72057594037927936)
      = Finite (3602879701896397 / 72057594037927936)"
    using round_double_exact [of 3602879701896397 "- 56"] by (simp add: pow2_eval)
  have lo: "round_double (68454714336031539 / 72057594037927936)
      = Finite (4278419646001971 / 4503599627370496)"
    using round_double_nearest
      [of "68454714336031539 / 72057594037927936" "- 1" "- 53" 8556839292003942]
    by (simp add: pow2_eval)
  have hi: "round_double (75660473739824333 / 72057594037927936)
      = Finite (4728779608739021 / 4503599627370496)"
    using round_double_nearest
      [of "75660473739824333 / 72057594037927936" "0" "- 52" 4728779608739021]
    by (simp add: pow2_eval)
  show ?thesis
    by (simp add: view_limits_def nonsingular_def Let_def nonsingular_threshold_value
        tiny_def expander_def float_lit_def lit_tiny lit_0_05 t e lo hi fsub_def pow2_eval)
qed

subsection \<open>When the traces are drawn\<close>

lemma view_limits_finite:
  "is_finite a \<Longrightarrow> is_finite b \<Longrightarrow> \<exists>l. view_limits (a, b) = Inr l"
  by (cases "nonsingular a b") (simp add: view_limits_def)

lemma view_limits_not_finite:
  "\<not> is_finite a \<or> \<not> is_finite b \<Longrightarrow>
   view_limits (a, b) = Inl (ValueError ''Axis limits cannot be NaN or Inf'')"
  by (auto simp: view_limits_def)

lemma set_ylim_not_finite:
  "\<not> is_finite lo \<or> \<not> is_finite hi \<Longrightarrow>
   set_ylim a (lo, hi) c = (Inl (ValueError ''Axis limits cannot be NaN or Inf''), c)"
  by (simp add: set_ylim_def view_limits_not_finite raises_def)

lemma plot_line_lengths_differ:
  "length (series_items xs) \<noteq> length (series_items ys) \<Longrightarrow>
   \<exists>m. plot_line K a xs ys color alpha lw c = (Inl (ValueError m), c)"
  by (simp add: plot_line_def raises_def)

lemma update_axes_returns:
  "\<exists>c'. update_axes a f c = (Inr (), c') \<and> shared_with c' b = shared_with c b"
  by (simp add: update_axes_def on_axes_def modify_def shared_with_def shares_x_def)

lemma set_ylim_returns:
  assumes "is_finite lo" "is_finite hi"
  shows "\<exists>c'. set_ylim a (lo, hi) c = (Inr (), c')"
proof -
  obtain l where l: "view_limits (lo, hi) = Inr l"
    using view_limits_finite [OF assms] by blast
  obtain c' where "update_axes a (\<lambda>ax. ax\<lparr>ylim := l\<rparr>) c = (Inr (), c')"
    using update_axes_returns [of a _ c] by blast
  then show ?thesis by (simp add: set_ylim_def l)
qed

lemma set_xlim_returns:
  assumes "is_finite t0" "is_finite t1" "shared_with c a = []"
  shows "\<exists>c'. set_xlim a (t0, t1) c = (Inr (), c')"
proof -
  obtain l where l: "view_limits (t0, t1) = Inr l"
    using view_limits_finite [OF assms(1,2)] by blast
  obtain c' where u: "update_axes a (\<lambda>ax. ax\<lparr>xlim := l\<rparr>) c = (Inr (), c')"
    and sh: "shared_with c' a = shared_with c a"
    using update_axes_returns [of a _ c a] by blast
  have "set_xlim a (t0, t1) c = (Inr (), c')"
    using u sh assms(3) by (simp add: set_xlim_def l then_do_def reads_def returns_def)
  then show ?thesis by blast
qed

lemma plot_line_returns:
  assumes "length (series_items xs) = length (series_items ys)" "as_float lw = Inr w"
    and "K color" "py_le (PyInt 0) alpha" "py_le alpha (PyInt 1)"
  shows "\<exists>c'. plot_line K a xs ys color alpha lw c = (Inr (), c')
           \<and> shared_with c' b = shared_with c b"
proof -
  obtain c' where
    "update_axes a (add_line
        \<lparr>xdata = series_items xs, ydata = series_items ys, line_color = color,
         line_alpha = Some alpha, line_width = lw, clip_on = True\<rparr>) c = (Inr (), c')"
    and "shared_with c' b = shared_with c b"
    using update_axes_returns [of a _ c b] by blast
  then show ?thesis using assms by (simp add: plot_line_def)
qed

lemma hide_spines_returns: "\<exists>c'. hide_spines a c = (Inr (), c')"
  using update_axes_returns [of a _ c] unfolding hide_spines_def by blast

lemma draw_traces_returns:
  assumes len: "length (series_items ts) = length (series_items vs)"
    and lw: "as_float (linewidth st) = Inr w"
    and col: "K (voltage_color st)"
    and al: "py_le (PyInt 0) (voltage_alpha st)" "py_le (voltage_alpha st) (PyInt 1)"
    and t0: "series_index ts 0 = Inr t0" "is_finite t0"
    and t1: "series_index ts (- 1) = Inr t1" "is_finite t1"
    and lo: "series_min vs = Inr lo" "is_finite lo"
    and hi: "series_max vs = Inr hi" "is_finite hi"
    and sh: "shared_with c v = []"
  shows "\<exists>c'. draw_traces K st ts vs None (AxesRef v) None c = (Inr v, c')"
proof -
  obtain c1 where p: "plot_line K v ts vs (voltage_color st) (voltage_alpha st) (linewidth st) c
      = (Inr (), c1)" and sh1: "shared_with c1 v = []"
    using plot_line_returns [where K = K and a = v and c = c and b = v, OF len lw col al] sh
    by auto
  obtain c2 where x: "set_xlim v (t0, t1) c1 = (Inr (), c2)"
    using set_xlim_returns [OF t0(2) t1(2) sh1] by blast
  obtain c3 where y: "set_ylim v (lo, hi) c2 = (Inr (), c3)"
    using set_ylim_returns [OF lo(2) hi(2)] by blast
  obtain c4 where h: "hide_spines v c3 = (Inr (), c4)"
    using hide_spines_returns by blast
  have "draw_traces K st ts vs None (AxesRef v) None c
      = (Inr v, if \<not> show_spines st then c4 else c3)"
    using p x y h
    by (simp add: draw_traces_def t0(1) t1(1) lo(1) hi(1) then_do_def returns_def)
  then show ?thesis by blast
qed

text \<open>
  Two calls that end before the labels: a voltage with more samples than the time,
  which the plot refuses, and a voltage with a NaN, which \<^verbatim>\<open>set_ylim\<close> refuses.
\<close>

lemma example_lengths_differ:
  assumes "define_style E P style = Inr st" "compute_figsize 1 None st = Inr figsize"
    and "valid_figsize figsize"
  shows "fst (plot_trace E P g K (NdArray [Finite 0, Finite 1])
                (NdArray [Finite 5, Finite 6, Finite 7]) None None None style c)
     = Inl (ValueError
         ''x and y must have same first dimension, but have shapes (2,) and (3,)'')"
  unfolding plot_trace_resolved [OF assms(1)]
  using assms(2,3)
  by (simp add: get_n_plots_def figure_and_axes_def subplots_def Let_def then_do_def
      voltage_and_current_axes_def returns_def draw_traces_def plot_line_def raises_def
      str_int_def digits_of.simps)

lemma example_nan:
  assumes "define_style E P style = Inr st" "compute_figsize 1 None st = Inr figsize"
    and "valid_figsize figsize" "as_float (linewidth st) = Inr w" "K (voltage_color st)"
    and "py_le (PyInt 0) (voltage_alpha st)" "py_le (voltage_alpha st) (PyInt 1)"
  shows "fst (plot_trace E P g K (NdArray [Finite 0, Finite 1]) (NdArray [Finite 5, NaN])
                None None None style empty_canvas)
     = Inl (ValueError ''Axis limits cannot be NaN or Inf'')"
  unfolding plot_trace_resolved [OF assms(1)]
  using assms(2-)
  by (simp add: get_n_plots_def figure_and_axes_def subplots_def Let_def then_do_def
      voltage_and_current_axes_def returns_def draw_traces_def plot_line_def raises_def
      update_axes_def on_axes_def modify_def series_index_def list_index_def set_xlim_def
      view_limits_def reads_def shared_with_def empty_canvas_def np_reduce_def set_ylim_def
      split: prod.splits)

lemma position_y:
  assumes "as_float time_bar_length = Inr t"
  shows "\<exists>x. compute_scale_bar_position axis time_bar_length is_current
           = Inr (x, if is_current
                     then fadd (fst (ylim axis))
                            (fmul (float_lit (3 / 10)) (fsub (snd (ylim axis)) (fst (ylim axis))))
                     else fst (ylim axis))"
  using assms by (simp add: compute_scale_bar_position_def bind_result_def Let_def)

lemma position_x:
  assumes "as_float time_bar_length = Inr t"
  shows "\<exists>y. compute_scale_bar_position axis time_bar_length is_current
           = Inr (fsub (fst (xlim axis)) (fmul (float_lit (12 / 10)) t), y)"
  using assms by (simp add: compute_scale_bar_position_def bind_result_def Let_def)

section \<open>Selected lengths\<close>

text \<open>
  Claim C1. Whatever the view limits and the target fraction are (in particular for
  every range with \<open>max > min\<close> and every fraction in \<open>(0, 1]\<close>),
  \<open>compute_scale_bar_length\<close> returns normally, the time length it selects is an
  element of the time candidates, and the other length is an element of the current
  candidates when \<open>is_current\<close> holds and of the voltage candidates otherwise.
\<close>

theorem selected_lengths_are_candidates:
  "\<exists>t iv. compute_scale_bar_length axis is_current bar_length = Inr (t, iv)
     \<and> t \<in> set valid_time_bar_length
     \<and> iv \<in> set (if is_current then valid_current_bar_length else valid_voltage_bar_length)"
proof -
  let ?T = "fmul bar_length (fsub (snd (xlim axis)) (fst (xlim axis)))"
  let ?V = "fmul bar_length (fsub (snd (ylim axis)) (fst (ylim axis)))"
  obtain t where t: "closest_length valid_time_bar_length ?T = Inr t"
    "t \<in> set valid_time_bar_length"
    using closest_length_member [OF valid_nonempty(1)] valid_lengths_finite by blast
  obtain c where c: "closest_length valid_current_bar_length ?V = Inr c"
    "c \<in> set valid_current_bar_length"
    using closest_length_member [OF valid_nonempty(3)] valid_lengths_finite by blast
  obtain v where v: "closest_length valid_voltage_bar_length ?V = Inr v"
    "v \<in> set valid_voltage_bar_length"
    using closest_length_member [OF valid_nonempty(2)] valid_lengths_finite by blast
  show ?thesis using t c v
    by (simp add: compute_scale_bar_length_def Let_def bind_result_def)
qed

text \<open>
  Claim C2. For a range with \<open>max > min\<close> and a fraction in \<open>(0, 1]\<close>, each selected
  length is a candidate at the least distance from the target length, and every
  candidate at the same distance is at least as large: at a tie the smaller one is
  returned. Concretely, with the fraction \<open>0.15\<close> the time range \<open>[0, 100]\<close> and the
  voltage range \<open>[-80, 20]\<close> both give the target length \<open>15\<close>, the candidates \<open>10\<close>
  and \<open>20\<close> are both at distance \<open>5\<close>, and the function returns \<open>10\<close> for both bars.
\<close>

lemma example_tie:
  "fmul (float_lit (15 / 100)) (fsub (Finite 100) (Finite 0)) = Finite 15"
  "fmul (float_lit (15 / 100)) (fsub (Finite 20) (Finite (- 80))) = Finite 15"
  "distance_key (Finite 15) (PyInt 10) = Inr (Finite 5)"
  "distance_key (Finite 15) (PyInt 20) = Inr (Finite 5)"
  by (simp_all add: distance_key_def bind_result_def fsub_def float_lit_def float_literals rd_15
      round_double_neg)

theorem nearest_candidate_smaller_at_tie:
  "(flt (fst (xlim axis)) (snd (xlim axis)) \<longrightarrow> flt (fst (ylim axis)) (snd (ylim axis)) \<longrightarrow>
    flt (Finite 0) bar_length \<longrightarrow> fle bar_length (Finite 1) \<longrightarrow>
      (\<exists>t iv. compute_scale_bar_length axis is_current bar_length = Inr (t, iv)
         \<and> (\<forall>c\<in>set valid_time_bar_length. \<exists>dt dc.
               distance_key (fmul bar_length (fsub (snd (xlim axis)) (fst (xlim axis)))) t = Inr dt
             \<and> distance_key (fmul bar_length (fsub (snd (xlim axis)) (fst (xlim axis)))) c = Inr dc
             \<and> fle dt dc \<and> (dc = dt \<longrightarrow> py_le t c))
         \<and> (\<forall>c\<in>set (if is_current then valid_current_bar_length else valid_voltage_bar_length).
               \<exists>dt dc.
               distance_key (fmul bar_length (fsub (snd (ylim axis)) (fst (ylim axis)))) iv = Inr dt
             \<and> distance_key (fmul bar_length (fsub (snd (ylim axis)) (fst (ylim axis)))) c = Inr dc
             \<and> fle dt dc \<and> (dc = dt \<longrightarrow> py_le iv c))))
   \<and> fmul (float_lit (15 / 100)) (fsub (Finite 100) (Finite 0)) = Finite 15
   \<and> fmul (float_lit (15 / 100)) (fsub (Finite 20) (Finite (- 80))) = Finite 15
   \<and> distance_key (Finite 15) (PyInt 10) = Inr (Finite 5)
   \<and> distance_key (Finite 15) (PyInt 20) = Inr (Finite 5)
   \<and> compute_scale_bar_length
        (new_axes\<lparr>xlim := (Finite 0, Finite 100), ylim := (Finite (- 80), Finite 20)\<rparr>)
        False (float_lit (15 / 100)) = Inr (PyInt 10, PyInt 10)"
proof -
  let ?T = "fmul bar_length (fsub (snd (xlim axis)) (fst (xlim axis)))"
  let ?V = "fmul bar_length (fsub (snd (ylim axis)) (fst (ylim axis)))"
  let ?L = "if is_current then valid_current_bar_length else valid_voltage_bar_length"
  have general: "\<exists>t iv. compute_scale_bar_length axis is_current bar_length = Inr (t, iv)
         \<and> (\<forall>c\<in>set valid_time_bar_length. \<exists>dt dc.
               distance_key ?T t = Inr dt \<and> distance_key ?T c = Inr dc
             \<and> fle dt dc \<and> (dc = dt \<longrightarrow> py_le t c))
         \<and> (\<forall>c\<in>set ?L. \<exists>dt dc.
               distance_key ?V iv = Inr dt \<and> distance_key ?V c = Inr dc
             \<and> fle dt dc \<and> (dc = dt \<longrightarrow> py_le iv c))"
    if h: "flt (fst (xlim axis)) (snd (xlim axis))" "flt (fst (ylim axis)) (snd (ylim axis))"
      "flt (Finite 0) bar_length" "fle bar_length (Finite 1)"
  proof -
    have T: "?T \<noteq> NaN" using h(1,3,4) by (rule target_not_NaN)
    have V: "?V \<noteq> NaN" using h(2,3,4) by (rule target_not_NaN)
    have L: "?L \<noteq> []" "\<forall>x\<in>set ?L. \<exists>d. as_float x = Inr d \<and> is_finite d"
      "sorted_wrt py_lt ?L" "\<forall>x\<in>set ?L. exact_value x \<noteq> NaN"
      using valid_nonempty sorted_valid valid_lengths_finite valid_exact by auto
    obtain t where t: "closest_length valid_time_bar_length ?T = Inr t"
      "\<forall>c\<in>set valid_time_bar_length. \<exists>dt dc.
               distance_key ?T t = Inr dt \<and> distance_key ?T c = Inr dc
             \<and> fle dt dc \<and> (dc = dt \<longrightarrow> py_le t c)"
      using closest_length_nearest [OF valid_nonempty(1) _ sorted_valid(1) _ T]
        valid_lengths_finite valid_exact by blast
    obtain iv where iv: "closest_length ?L ?V = Inr iv"
      "\<forall>c\<in>set ?L. \<exists>dt dc.
               distance_key ?V iv = Inr dt \<and> distance_key ?V c = Inr dc
             \<and> fle dt dc \<and> (dc = dt \<longrightarrow> py_le iv c)"
      using closest_length_nearest [OF L V] by blast
    have "compute_scale_bar_length axis is_current bar_length = Inr (t, iv)"
      using t(1) iv(1)
      by (cases is_current) (simp_all add: compute_scale_bar_length_def Let_def bind_result_def)
    then show ?thesis using t(2) iv(2) by blast
  qed
  show ?thesis using general example_tie example_lengths by blast
qed

theorem nearest_candidate_smaller_at_tie_witness:
  "flt (Finite 0) (Finite 100) \<and> flt (Finite (- 80)) (Finite 20)
   \<and> flt (Finite 0) (float_lit (15 / 100)) \<and> fle (float_lit (15 / 100)) (Finite 1)
   \<and> (\<exists>t iv. compute_scale_bar_length
        (new_axes\<lparr>xlim := (Finite 0, Finite 100), ylim := (Finite (- 80), Finite 20)\<rparr>)
        False (float_lit (15 / 100)) = Inr (t, iv) \<and> py_le t (PyInt 20) \<and> py_le iv (PyInt 20))"
proof -
  let ?ax = "new_axes\<lparr>xlim := (Finite 0, Finite 100), ylim := (Finite (- 80), Finite 20)\<rparr>"
  let ?b = "float_lit (15 / 100)"
  have h: "flt (fst (xlim ?ax)) (snd (xlim ?ax))" "flt (fst (ylim ?ax)) (snd (ylim ?ax))"
    "flt (Finite 0) ?b" "fle ?b (Finite 1)"
    by (simp_all add: float_lit_def float_literals)
  note inst = nearest_candidate_smaller_at_tie [of ?ax ?b False, THEN conjunct1, rule_format, OF h]
  then obtain t iv where r: "compute_scale_bar_length ?ax False ?b = Inr (t, iv)"
    and t: "\<forall>c\<in>set valid_time_bar_length. \<exists>dt dc.
               distance_key (fmul ?b (fsub (snd (xlim ?ax)) (fst (xlim ?ax)))) t = Inr dt
             \<and> distance_key (fmul ?b (fsub (snd (xlim ?ax)) (fst (xlim ?ax)))) c = Inr dc
             \<and> fle dt dc \<and> (dc = dt \<longrightarrow> py_le t c)"
    by blast
  have "compute_scale_bar_length ?ax False ?b = Inr (PyInt 10, PyInt 10)"
    by (rule example_lengths)
  then have "Inr (t, iv) = (Inr (PyInt 10, PyInt 10) :: error + pynum \<times> pynum)"
    using r by (simp only:)
  then have "t = PyInt 10" "iv = PyInt 10" by simp_all
  then have "py_le t (PyInt 20)" "py_le iv (PyInt 20)" by (simp_all add: py_le_def)
  then show ?thesis using r h by auto
qed

section \<open>The origin of the bars\<close>

text \<open>
  Claim C3, as amended. With \<open>is_current\<close> the origin's y is
  \<open>min + 0.3 * (max - min)\<close>, each operation rounded to a double, and without it the
  origin's y is \<open>min\<close> itself. For limits that are doubles with \<open>min < max\<close> and a
  width \<open>max - min\<close> that does not overflow, the y of a current bar lies between \<open>min\<close>
  and \<open>max\<close>, both included. For the range \<open>[-2, 2]\<close> it is within \<open>10\<^sup>-\<^sup>9\<close> of \<open>-0.8\<close>.
\<close>

theorem current_origin_between:
  "(as_float time_bar_length = Inr t \<longrightarrow>
      (\<exists>x. compute_scale_bar_position axis time_bar_length True
             = Inr (x, fadd (fst (ylim axis))
                         (fmul (float_lit (3 / 10)) (fsub (snd (ylim axis)) (fst (ylim axis))))))
    \<and> (\<exists>x. compute_scale_bar_position axis time_bar_length False = Inr (x, fst (ylim axis))))
   \<and> (as_float time_bar_length = Inr t \<longrightarrow> ylim axis = (Finite a, Finite c) \<longrightarrow>
      is_double (Finite a) \<longrightarrow> is_double (Finite c) \<longrightarrow> a < c \<longrightarrow>
      is_finite (fsub (Finite c) (Finite a)) \<longrightarrow>
      (\<exists>x y. compute_scale_bar_position axis time_bar_length True = Inr (x, Finite y)
         \<and> a \<le> y \<and> y \<le> c))
   \<and> (\<exists>x y. compute_scale_bar_position (new_axes\<lparr>ylim := (Finite (- 2), Finite 2)\<rparr>)
               (PyInt 10) True = Inr (x, Finite y)
         \<and> \<bar>y - (- 8 / 10)\<bar> \<le> 1 / 10 ^ 9)"
proof (intro conjI impI)
  assume t: "as_float time_bar_length = Inr t"
  show "\<exists>x. compute_scale_bar_position axis time_bar_length True
             = Inr (x, fadd (fst (ylim axis))
                         (fmul (float_lit (3 / 10)) (fsub (snd (ylim axis)) (fst (ylim axis)))))"
    using position_y [OF t, of axis True] by simp
  show "\<exists>x. compute_scale_bar_position axis time_bar_length False = Inr (x, fst (ylim axis))"
    using position_y [OF t, of axis False] by simp
next
  assume t: "as_float time_bar_length = Inr t" and l: "ylim axis = (Finite a, Finite c)"
    and d: "is_double (Finite a)" "is_double (Finite c)" "a < c"
      "is_finite (fsub (Finite c) (Finite a))"
  from current_origin_within [OF d] obtain y
    where "fadd (Finite a) (fmul (float_lit (3 / 10)) (fsub (Finite c) (Finite a))) = Finite y"
      "a \<le> y" "y \<le> c" by blast
  then show "\<exists>x y. compute_scale_bar_position axis time_bar_length True = Inr (x, Finite y)
         \<and> a \<le> y \<and> y \<le> c"
    using position_y [OF t, of axis True] l by auto
next
  show "\<exists>x y. compute_scale_bar_position (new_axes\<lparr>ylim := (Finite (- 2), Finite 2)\<rparr>)
               (PyInt 10) True = Inr (x, Finite y)
         \<and> \<bar>y - (- 8 / 10)\<bar> \<le> 1 / 10 ^ 9"
    using example_current_origin by simp
qed

theorem current_origin_between_witness:
  "as_float (PyInt 10) = Inr (Finite 10)
   \<and> is_double (Finite (- 2)) \<and> is_double (Finite 2) \<and> (- 2 :: rat) < 2
   \<and> is_finite (fsub (Finite 2) (Finite (- 2)))
   \<and> (\<exists>x y. compute_scale_bar_position (new_axes\<lparr>ylim := (Finite (- 2), Finite 2)\<rparr>)
               (PyInt 10) True = Inr (x, Finite y) \<and> - 2 \<le> y \<and> y \<le> 2)"
proof -
  let ?ax = "new_axes\<lparr>ylim := (Finite (- 2), Finite 2)\<rparr>"
  have h: "as_float (PyInt 10) = Inr (Finite 10)" "ylim ?ax = (Finite (- 2), Finite 2)"
    "is_double (Finite (- 2))" "is_double (Finite 2)" "(- 2 :: rat) < 2"
    "is_finite (fsub (Finite 2) (Finite (- 2)))"
    by (simp_all add: round_double_neg fsub_def)
  note inst = current_origin_between [of "PyInt 10" "Finite 10" ?ax "- 2" 2,
      THEN conjunct2, THEN conjunct1, rule_format, OF h]
  then show ?thesis using h by simp
qed

text \<open>
  As the claim stands, with "strictly between", it fails: for the range
  \<open>[1, 1 + 2\<^sup>-\<^sup>5\<^sup>2]\<close>, whose bounds are neighbouring doubles, the offset
  \<open>0.3 * 2\<^sup>-\<^sup>5\<^sup>2\<close> is less than half the gap and the sum rounds back to \<open>1\<close>.
\<close>

theorem current_origin_can_equal_minimum:
  "is_double (Finite 1) \<and> is_double (Finite (1 + 1 / 2 ^ 52))
   \<and> flt (Finite 1) (Finite (1 + 1 / 2 ^ 52))
   \<and> compute_scale_bar_position
        (new_axes\<lparr>ylim := (Finite 1, Finite (1 + 1 / 2 ^ 52))\<rparr>) (PyInt 10) True
      = Inr (Finite (- 12), Finite 1)
   \<and> \<not> flt (Finite 1) (Finite 1)"
  using cex_y by (simp add: rd_next_1)

text \<open>
  Claim C4, as amended. For a left limit \<open>min\<close> that is a finite double and a positive
  time bar length, the origin's x is \<open>min - 1.2 * length\<close>, each operation rounded to a
  double, and it is not greater than \<open>min\<close>.
\<close>

theorem origin_x_not_right_of_minimum:
  "as_float time_bar_length = Inr t \<longrightarrow> flt (Finite 0) t \<longrightarrow> fst (xlim axis) = Finite a \<longrightarrow>
   is_double (Finite a) \<longrightarrow>
     (\<exists>y. compute_scale_bar_position axis time_bar_length is_current
             = Inr (fsub (Finite a) (fmul (float_lit (12 / 10)) t), y))
     \<and> fle (fsub (Finite a) (fmul (float_lit (12 / 10)) t)) (Finite a)"
proof (intro impI conjI)
  assume t: "as_float time_bar_length = Inr t" and p: "flt (Finite 0) t"
    and a: "fst (xlim axis) = Finite a" "is_double (Finite a)"
  show "\<exists>y. compute_scale_bar_position axis time_bar_length is_current
             = Inr (fsub (Finite a) (fmul (float_lit (12 / 10)) t), y)"
    using position_x [OF t, of axis is_current] a by simp
  show "fle (fsub (Finite a) (fmul (float_lit (12 / 10)) t)) (Finite a)"
    using p a(2) by (rule origin_x_le)
qed

theorem origin_x_not_right_of_minimum_witness:
  "as_float (PyInt 10) = Inr (Finite 10) \<and> flt (Finite 0) (Finite 10) \<and> is_double (Finite 0)
   \<and> (\<exists>y. compute_scale_bar_position new_axes (PyInt 10) False
             = Inr (fsub (Finite 0) (fmul (float_lit (12 / 10)) (Finite 10)), y))
   \<and> fle (fsub (Finite 0) (fmul (float_lit (12 / 10)) (Finite 10))) (Finite 0)"
proof -
  have h: "as_float (PyInt 10) = Inr (Finite 10)" "flt (Finite 0) (Finite 10)"
    "fst (xlim new_axes) = Finite 0" "is_double (Finite 0)"
    by (simp_all add: new_axes_def)
  note inst = origin_x_not_right_of_minimum [of "PyInt 10" "Finite 10" new_axes 0 False,
      rule_format, OF h]
  then show ?thesis using h by simp
qed

text \<open>
  As the claim stands, with "strictly less", it fails: at \<open>min = 2\<^sup>7\<^sup>0\<close> the doubles
  are \<open>2\<^sup>1\<^sup>8\<close> apart, and subtracting \<open>1.2\<close> rounds back to \<open>min\<close>.
\<close>

theorem origin_x_can_equal_minimum:
  "is_double (Finite (2 ^ 70)) \<and> flt (Finite (2 ^ 70)) (Finite (2 ^ 71))
   \<and> as_float (PyInt 1) = Inr (Finite 1) \<and> flt (Finite 0) (Finite 1)
   \<and> compute_scale_bar_position
        (new_axes\<lparr>xlim := (Finite (2 ^ 70), Finite (2 ^ 71))\<rparr>) (PyInt 1) False
      = Inr (Finite (2 ^ 70), Finite 0)
   \<and> \<not> flt (Finite (2 ^ 70)) (Finite (2 ^ 70))"
  using cex_x by (simp add: rd_2_70)

section \<open>Style resolution\<close>

text \<open>
  Claim C6. \<open>define_style\<close> maps the name "explore" to the explore preset and "paper"
  to the paper preset, returns a value that is not a string unchanged, and for every
  other string raises (the \<open>ValueError\<close> "Unknown style: ...", which is the spec's
  UnknownStyleError) instead of returning a style.
\<close>

theorem define_style_resolution:
  "define_style E P (StyleName ''explore'') = Inr E
   \<and> define_style E P (StyleName ''paper'') = Inr P
   \<and> define_style E P (StyleObject obj) = Inr obj
   \<and> (name \<noteq> ''explore'' \<longrightarrow> name \<noteq> ''paper'' \<longrightarrow>
        define_style E P (StyleName name) = Inl (ValueError (''Unknown style: '' @ name))
        \<and> (\<forall>s. define_style E P (StyleName name) \<noteq> Inr s))"
  by (simp add: define_style_def)

theorem define_style_resolution_witness:
  "''dark'' \<noteq> ''explore'' \<and> ''dark'' \<noteq> ''paper''
   \<and> define_style (1::nat) 2 (StyleName ''dark'') = Inl (ValueError ''Unknown style: dark'')
   \<and> define_style (1::nat) 2 (StyleName ''explore'') = Inr 1
   \<and> define_style (1::nat) 2 (StyleName ''paper'') = Inr 2
   \<and> define_style (1::nat) 2 (StyleObject 7) = Inr 7"
  using define_style_resolution [of "1::nat" 2 7 "''dark''"] by simp

section \<open>The labels of the bars\<close>

text \<open>
  Claim C5. Whatever the origin, the two lengths and the boxes the renderer measures,
  the block that moves the labels returns normally, the time label ends at
  \<open>(origin.x + 0.5 * timeLength, origin.y - 1.8 * h\<^sub>t)\<close>, where \<open>h\<^sub>t\<close> is the height
  measured for the time label, and the other label ends at
  \<open>(origin.x - 1.3 * w\<^sub>d, origin.y + 0.5 * depLength)\<close>, where \<open>w\<^sub>d\<close> is the width
  measured for it once the time label has been moved (every operation in double
  arithmetic). \<open>draw_scale_bars\<close> itself always reaches this block: with the lengths
  and the origin it computed, and with both labels just added at the origin.
\<close>

theorem labels_moved_clear_of_bars:
  "(as_float time_bar_length = Inr t \<longrightarrow> as_float IV_bar_length = Inr v \<longrightarrow>
    time_label < length (ax_texts ax) \<longrightarrow> iv_label < length (ax_texts ax) \<longrightarrow>
    time_label \<noteq> iv_label \<longrightarrow>
      (\<exists>ax1 ax2.
         ax1 = set_position time_label
                 (fadd (fst origin) (fmul (float_lit (5 / 10)) t),
                  fsub (snd origin) (fmul (float_lit (18 / 10))
                    (bbox_height (get_text_bbox ax (ax_texts ax ! time_label))))) ax
       \<and> move_labels get_text_bbox origin time_bar_length IV_bar_length time_label iv_label ax
           = (Inr (), ax2)
       \<and> text_position (ax_texts ax2 ! time_label)
           = (fadd (fst origin) (fmul (float_lit (5 / 10)) t),
              fsub (snd origin) (fmul (float_lit (18 / 10))
                (bbox_height (get_text_bbox ax (ax_texts ax ! time_label)))))
       \<and> text_position (ax_texts ax2 ! iv_label)
           = (fsub (fst origin) (fmul (float_lit (13 / 10))
                (bbox_width (get_text_bbox ax1 (ax_texts ax1 ! iv_label)))),
              fadd (snd origin) (fmul (float_lit (5 / 10)) v))))
   \<and> (\<exists>tbl ivl origin ax0 ax2.
         compute_scale_bar_length ax is_current (float_lit (15 / 100)) = Inr (tbl, ivl)
       \<and> compute_scale_bar_position ax tbl is_current = Inr origin
       \<and> length (ax_texts ax0) = length (ax_texts ax) + 2
       \<and> text_position (ax_texts ax0 ! length (ax_texts ax)) = origin
       \<and> text_position (ax_texts ax0 ! Suc (length (ax_texts ax))) = origin
       \<and> draw_scale_bars E P get_text_bbox is_current (StyleObject st) ax
           = move_labels get_text_bbox origin tbl ivl
               (length (ax_texts ax)) (Suc (length (ax_texts ax))) ax0
       \<and> draw_scale_bars E P get_text_bbox is_current (StyleObject st) ax = (Inr (), ax2))"
proof (intro conjI impI)
  assume a: "as_float time_bar_length = Inr t" "as_float IV_bar_length = Inr v"
    and i: "time_label < length (ax_texts ax)" "iv_label < length (ax_texts ax)"
      "time_label \<noteq> iv_label"
  let ?p1 = "(fadd (fst origin) (fmul (float_lit (5 / 10)) t),
              fsub (snd origin) (fmul (float_lit (18 / 10))
                (bbox_height (get_text_bbox ax (ax_texts ax ! time_label)))))"
  let ?ax1 = "set_position time_label ?p1 ax"
  let ?p2 = "(fsub (fst origin) (fmul (float_lit (13 / 10))
                (bbox_width (get_text_bbox ?ax1 (ax_texts ?ax1 ! iv_label)))),
              fadd (snd origin) (fmul (float_lit (5 / 10)) v))"
  let ?ax2 = "set_position iv_label ?p2 ?ax1"
  have run: "move_labels get_text_bbox origin time_bar_length IV_bar_length time_label iv_label ax
      = (Inr (), ?ax2)"
    by (rule move_labels_run [OF a])
  have "ax_texts ?ax2 ! time_label = ax_texts ?ax1 ! time_label"
    using i(3) by (intro set_position_other) simp
  then have 1: "text_position (ax_texts ?ax2 ! time_label) = ?p1"
    using i(1) by (simp add: set_position_same)
  have 2: "text_position (ax_texts ?ax2 ! iv_label) = ?p2"
    using i(2) by (intro set_position_same) simp
  show "\<exists>ax1 ax2.
         ax1 = set_position time_label ?p1 ax
       \<and> move_labels get_text_bbox origin time_bar_length IV_bar_length time_label iv_label ax
           = (Inr (), ax2)
       \<and> text_position (ax_texts ax2 ! time_label) = ?p1
       \<and> text_position (ax_texts ax2 ! iv_label)
           = (fsub (fst origin) (fmul (float_lit (13 / 10))
                (bbox_width (get_text_bbox ax1 (ax_texts ax1 ! iv_label)))),
              fadd (snd origin) (fmul (float_lit (5 / 10)) v))"
    using run 1 2 by blast
next
  obtain tbl ivl t v origin d1 d2 where l:
    "compute_scale_bar_length ax is_current (float_lit (15 / 100)) = Inr (tbl, ivl)"
    and a: "as_float tbl = Inr t" "as_float ivl = Inr v"
    and o: "compute_scale_bar_position ax tbl is_current = Inr origin"
    and r: "draw_scale_bars E P get_text_bbox is_current (StyleObject st) ax
      = move_labels get_text_bbox origin tbl ivl (length (ax_texts ax)) (Suc (length (ax_texts ax)))
          (ax\<lparr>ax_lines := ax_lines ax @
                 [scale_bar_line [fst origin, fadd (fst origin) t] [snd origin, snd origin],
                  scale_bar_line [fst origin, fst origin] [snd origin, fadd (snd origin) v]],
               ax_texts := ax_texts ax @
                 [\<lparr>text_position = origin, text_string = decimal_str d1 @ '' ms'',
                   horizontalalignment = ''center'', verticalalignment = ''bottom'',
                   text_fontsize = scale_bars_fontsize st\<rparr>,
                  \<lparr>text_position = origin,
                   text_string = decimal_str d2 @ (if is_current then '' nA'' else '' mV''),
                   horizontalalignment = ''left'', verticalalignment = ''center'',
                   text_fontsize = scale_bars_fontsize st\<rparr>]\<rparr>)"
    by (rule draw_scale_bars_run [of ax is_current E P get_text_bbox st])
  define ax0 where "ax0 = ax\<lparr>ax_lines := ax_lines ax @
                 [scale_bar_line [fst origin, fadd (fst origin) t] [snd origin, snd origin],
                  scale_bar_line [fst origin, fst origin] [snd origin, fadd (snd origin) v]],
               ax_texts := ax_texts ax @
                 [\<lparr>text_position = origin, text_string = decimal_str d1 @ '' ms'',
                   horizontalalignment = ''center'', verticalalignment = ''bottom'',
                   text_fontsize = scale_bars_fontsize st\<rparr>,
                  \<lparr>text_position = origin,
                   text_string = decimal_str d2 @ (if is_current then '' nA'' else '' mV''),
                   horizontalalignment = ''left'', verticalalignment = ''center'',
                   text_fontsize = scale_bars_fontsize st\<rparr>]\<rparr>"
  have r': "draw_scale_bars E P get_text_bbox is_current (StyleObject st) ax
      = move_labels get_text_bbox origin tbl ivl (length (ax_texts ax)) (Suc (length (ax_texts ax))) ax0"
    using r by (simp only: ax0_def)
  have t0: "length (ax_texts ax0) = length (ax_texts ax) + 2"
    "text_position (ax_texts ax0 ! length (ax_texts ax)) = origin"
    "text_position (ax_texts ax0 ! Suc (length (ax_texts ax))) = origin"
    by (simp_all add: ax0_def nth_append)
  obtain ax2 where "move_labels get_text_bbox origin tbl ivl (length (ax_texts ax))
      (Suc (length (ax_texts ax))) ax0 = (Inr (), ax2)"
    using move_labels_run [OF a] by blast
  then show "\<exists>tbl ivl origin ax0 ax2.
         compute_scale_bar_length ax is_current (float_lit (15 / 100)) = Inr (tbl, ivl)
       \<and> compute_scale_bar_position ax tbl is_current = Inr origin
       \<and> length (ax_texts ax0) = length (ax_texts ax) + 2
       \<and> text_position (ax_texts ax0 ! length (ax_texts ax)) = origin
       \<and> text_position (ax_texts ax0 ! Suc (length (ax_texts ax))) = origin
       \<and> draw_scale_bars E P get_text_bbox is_current (StyleObject st) ax
           = move_labels get_text_bbox origin tbl ivl
               (length (ax_texts ax)) (Suc (length (ax_texts ax))) ax0
       \<and> draw_scale_bars E P get_text_bbox is_current (StyleObject st) ax = (Inr (), ax2)"
    using l o t0 r' by metis
qed

theorem labels_moved_clear_of_bars_witness:
  "as_float (PyInt 10) = Inr (Finite 10) \<and> as_float (PyInt 20) = Inr (Finite 20)
   \<and> (\<exists>ax2. move_labels
         (\<lambda>a t. \<lparr>bbox_x0 = Finite 0, bbox_y0 = Finite 0, bbox_x1 = Finite 7, bbox_y1 = Finite 2\<rparr>)
         (Finite 3, Finite 4) (PyInt 10) (PyInt 20) 0 1
         (new_axes\<lparr>ax_texts :=
        [\<lparr>text_position = (Finite 3, Finite 4), text_string = ''10 ms'',
          horizontalalignment = ''center'', verticalalignment = ''bottom'',
          text_fontsize = PyInt 8\<rparr>,
         \<lparr>text_position = (Finite 3, Finite 4), text_string = ''10 ms'',
          horizontalalignment = ''center'', verticalalignment = ''bottom'',
          text_fontsize = PyInt 8\<rparr>]\<rparr>) = (Inr (), ax2)
        \<and> text_position (ax_texts ax2 ! 0)
            = (fadd (Finite 3) (fmul (float_lit (5 / 10)) (Finite 10)),
               fsub (Finite 4) (fmul (float_lit (18 / 10)) (bbox_height
                 \<lparr>bbox_x0 = Finite 0, bbox_y0 = Finite 0, bbox_x1 = Finite 7, bbox_y1 = Finite 2\<rparr>)))
        \<and> text_position (ax_texts ax2 ! 1)
            = (fsub (Finite 3) (fmul (float_lit (13 / 10)) (bbox_width
                 \<lparr>bbox_x0 = Finite 0, bbox_y0 = Finite 0, bbox_x1 = Finite 7, bbox_y1 = Finite 2\<rparr>)),
               fadd (Finite 4) (fmul (float_lit (5 / 10)) (Finite 20))))"
proof -
  let ?ax = "(new_axes\<lparr>ax_texts :=
        [\<lparr>text_position = (Finite 3, Finite 4), text_string = ''10 ms'',
          horizontalalignment = ''center'', verticalalignment = ''bottom'',
          text_fontsize = PyInt 8\<rparr>,
         \<lparr>text_position = (Finite 3, Finite 4), text_string = ''10 ms'',
          horizontalalignment = ''center'', verticalalignment = ''bottom'',
          text_fontsize = PyInt 8\<rparr>]\<rparr>)"
  have h: "as_float (PyInt 10) = Inr (Finite 10)" "as_float (PyInt 20) = Inr (Finite 20)"
    "0 < length (ax_texts ?ax)" "1 < length (ax_texts ?ax)" "(0::nat) \<noteq> 1"
    by simp_all
  note inst = labels_moved_clear_of_bars [where time_bar_length = "PyInt 10"
      and t = "Finite 10" and IV_bar_length = "PyInt 20" and v = "Finite 20"
      and time_label = 0 and iv_label = 1 and ax = ?ax and origin = "(Finite 3, Finite 4)"
      and get_text_bbox = "\<lambda>a t. \<lparr>bbox_x0 = Finite 0, bbox_y0 = Finite 0, bbox_x1 = Finite 7, bbox_y1 = Finite 2\<rparr>",
      THEN conjunct1, rule_format, OF h]
  then show ?thesis using h(1,2) by simp
qed

section \<open>The number format\<close>

text \<open>
  Claim C8. \<open>format_float\<close> gives a decimal without the zeros at the end: for the
  float \<open>1000.0\<close>, whose \<^verbatim>\<open>str\<close> is \<^verbatim>\<open>1000.0\<close>, the decimal is written \<^verbatim>\<open>1000\<close>; for
  \<open>0.1\<close> it is written \<^verbatim>\<open>0.1\<close>; for \<open>1.50\<close> it is written \<^verbatim>\<open>1.5\<close>.
\<close>

theorem format_float_strips_trailing_zeros:
  "py_str (PyFloat (float_lit 1000)) = ''1000.0''
   \<and> map_sum id decimal_str (format_float (PyFloat (float_lit 1000))) = Inr ''1000''
   \<and> map_sum id decimal_str (format_float (PyFloat (float_lit (1 / 10)))) = Inr ''0.1''
   \<and> map_sum id decimal_str (format_float (PyFloat (float_lit (150 / 100)))) = Inr ''1.5''"
  using str_examples(1) format_examples by simp

section \<open>Moving the labels twice\<close>

text \<open>
  Claim C9. When the height and the width that the renderer measures for a label do
  not depend on where the label stands nor on the rest of the axes, moving the labels
  again from the state the first move has reached changes nothing: the same origin,
  lengths and measurements give the same positions.
\<close>

theorem move_labels_idempotent:
  "as_float time_bar_length = Inr t \<longrightarrow> as_float IV_bar_length = Inr v \<longrightarrow>
   time_label < length (ax_texts ax) \<longrightarrow> iv_label < length (ax_texts ax) \<longrightarrow>
   time_label \<noteq> iv_label \<longrightarrow>
   (\<forall>a a' l p. bbox_height (get_text_bbox a' (l\<lparr>text_position := p\<rparr>))
                 = bbox_height (get_text_bbox a l)
              \<and> bbox_width (get_text_bbox a' (l\<lparr>text_position := p\<rparr>))
                 = bbox_width (get_text_bbox a l)) \<longrightarrow>
   (\<exists>ax2. move_labels get_text_bbox origin time_bar_length IV_bar_length time_label iv_label ax
            = (Inr (), ax2)
        \<and> move_labels get_text_bbox origin time_bar_length IV_bar_length time_label iv_label ax2
            = (Inr (), ax2))"
proof (intro impI)
  assume a: "as_float time_bar_length = Inr t" "as_float IV_bar_length = Inr v"
    and i: "time_label < length (ax_texts ax)" "iv_label < length (ax_texts ax)"
      "time_label \<noteq> iv_label"
    and m: "\<forall>a a' l p. bbox_height (get_text_bbox a' (l\<lparr>text_position := p\<rparr>))
                 = bbox_height (get_text_bbox a l)
              \<and> bbox_width (get_text_bbox a' (l\<lparr>text_position := p\<rparr>))
                 = bbox_width (get_text_bbox a l)"
  define p1 where "p1 = (fadd (fst origin) (fmul (float_lit (5 / 10)) t),
              fsub (snd origin) (fmul (float_lit (18 / 10))
                (bbox_height (get_text_bbox ax (ax_texts ax ! time_label)))))"
  define ax1 where "ax1 = set_position time_label p1 ax"
  define p2 where "p2 = (fsub (fst origin) (fmul (float_lit (13 / 10))
                (bbox_width (get_text_bbox ax1 (ax_texts ax1 ! iv_label)))),
              fadd (snd origin) (fmul (float_lit (5 / 10)) v))"
  define ax2 where "ax2 = set_position iv_label p2 ax1"
  have run1: "move_labels get_text_bbox origin time_bar_length IV_bar_length time_label iv_label ax
      = (Inr (), ax2)"
    unfolding ax2_def p2_def ax1_def p1_def by (rule move_labels_run [OF a])
  have ti: "ax_texts ax2 ! time_label = (ax_texts ax ! time_label)\<lparr>text_position := p1\<rparr>"
    using i by (simp add: ax2_def ax1_def set_position_def)
  have h: "bbox_height (get_text_bbox ax2 (ax_texts ax2 ! time_label))
      = bbox_height (get_text_bbox ax (ax_texts ax ! time_label))"
    unfolding ti using m by blast
  have len: "time_label < length (ax_texts ax2)" "iv_label < length (ax_texts ax2)"
    using i by (simp_all add: ax2_def ax1_def)
  have "text_position (ax_texts ax2 ! time_label) = p1" by (simp add: ti)
  then have s1: "set_position time_label p1 ax2 = ax2"
    using len(1) by (intro set_position_idem)
  have tj: "ax_texts ax2 ! iv_label = (ax_texts ax1 ! iv_label)\<lparr>text_position := p2\<rparr>"
    using i by (simp add: ax2_def ax1_def set_position_def)
  have w: "bbox_width (get_text_bbox ax2 (ax_texts ax2 ! iv_label))
      = bbox_width (get_text_bbox ax1 (ax_texts ax1 ! iv_label))"
    unfolding tj using m by blast
  have "text_position (ax_texts ax2 ! iv_label) = p2" by (simp add: tj)
  then have s2: "set_position iv_label p2 ax2 = ax2"
    using len(2) by (intro set_position_idem)
  note run2 = move_labels_run [OF a, of get_text_bbox origin time_label iv_label ax2]
  have "move_labels get_text_bbox origin time_bar_length IV_bar_length time_label iv_label ax2
      = (Inr (), ax2)"
    using run2 unfolding h p1_def [symmetric] s1 w p2_def [symmetric] s2 .
  then show "\<exists>ax2. move_labels get_text_bbox origin time_bar_length IV_bar_length
               time_label iv_label ax = (Inr (), ax2)
        \<and> move_labels get_text_bbox origin time_bar_length IV_bar_length time_label iv_label ax2
            = (Inr (), ax2)"
    using run1 by blast
qed

theorem move_labels_idempotent_witness:
  "as_float (PyInt 10) = Inr (Finite 10) \<and> as_float (PyInt 20) = Inr (Finite 20)
   \<and> (\<exists>ax2. move_labels
         (\<lambda>a t. \<lparr>bbox_x0 = Finite 0, bbox_y0 = Finite 0, bbox_x1 = Finite 7, bbox_y1 = Finite 2\<rparr>)
         (Finite 3, Finite 4) (PyInt 10) (PyInt 20) 0 1
         (new_axes\<lparr>ax_texts :=
        [\<lparr>text_position = (Finite 3, Finite 4), text_string = ''10 ms'',
          horizontalalignment = ''center'', verticalalignment = ''bottom'',
          text_fontsize = PyInt 8\<rparr>,
         \<lparr>text_position = (Finite 3, Finite 4), text_string = ''10 ms'',
          horizontalalignment = ''center'', verticalalignment = ''bottom'',
          text_fontsize = PyInt 8\<rparr>]\<rparr>) = (Inr (), ax2)
        \<and> move_labels
         (\<lambda>a t. \<lparr>bbox_x0 = Finite 0, bbox_y0 = Finite 0, bbox_x1 = Finite 7, bbox_y1 = Finite 2\<rparr>)
         (Finite 3, Finite 4) (PyInt 10) (PyInt 20) 0 1 ax2 = (Inr (), ax2))"
proof -
  let ?ax = "(new_axes\<lparr>ax_texts :=
        [\<lparr>text_position = (Finite 3, Finite 4), text_string = ''10 ms'',
          horizontalalignment = ''center'', verticalalignment = ''bottom'',
          text_fontsize = PyInt 8\<rparr>,
         \<lparr>text_position = (Finite 3, Finite 4), text_string = ''10 ms'',
          horizontalalignment = ''center'', verticalalignment = ''bottom'',
          text_fontsize = PyInt 8\<rparr>]\<rparr>)"
  have h: "as_float (PyInt 10) = Inr (Finite 10)" "as_float (PyInt 20) = Inr (Finite 20)"
    "0 < length (ax_texts ?ax)" "1 < length (ax_texts ?ax)" "(0::nat) \<noteq> 1"
    by simp_all
  note inst = move_labels_idempotent [where time_bar_length = "PyInt 10"
      and t = "Finite 10" and IV_bar_length = "PyInt 20" and v = "Finite 20"
      and time_label = 0 and iv_label = 1 and ax = ?ax and origin = "(Finite 3, Finite 4)"
      and get_text_bbox = "\<lambda>a t. \<lparr>bbox_x0 = Finite 0, bbox_y0 = Finite 0, bbox_x1 = Finite 7, bbox_y1 = Finite 2\<rparr>",
      rule_format, OF h]
  then show ?thesis using h(1,2) by simp
qed

section \<open>Plotting a trace\<close>

text \<open>
  Claim C7. \<open>plot_trace\<close> raises the mismatch error (the \<open>ValueError\<close> "The number of
  axis provided is not the same as the number of series to plot", the spec's
  ShapeMismatchError) exactly when the style resolves, an axis collection is supplied,
  it has a length, and that length differs from the number of plots computed from the
  style and the presence of a current; and then nothing has been drawn: the canvas is
  as it was.
\<close>

theorem shape_mismatch_iff_wrong_length:
  "(fst (plot_trace E P get_text_bbox is_color_like time_series voltage_series current_series
           title axis style c)
      = Inl shape_mismatch)
     = (\<exists>st ax k. define_style E P style = Inr st \<and> axis = Some ax \<and> py_len ax = Inr k
          \<and> k \<noteq> get_n_plots 1 (if current_series \<noteq> None then 1 else 0) (shared_axis st))
   \<and> (fst (plot_trace E P get_text_bbox is_color_like time_series voltage_series current_series
             title axis style c) = Inl shape_mismatch
        \<longrightarrow> snd (plot_trace E P get_text_bbox is_color_like time_series voltage_series
                   current_series title axis style c) = c)"
  using plot_trace_mismatch [of E P get_text_bbox is_color_like time_series voltage_series
      current_series title axis style c]
  by blast

theorem shape_mismatch_iff_wrong_length_witness:
  "py_len (AxesList [0, 1]) = Inr 2
   \<and> (2::int) \<noteq> get_n_plots 1 0 False
   \<and> plot_trace
        \<lparr>scale_bars = False, show_spines = True, shared_axis = False,
          title_fontsize = PyInt 14, label_fontsize = PyInt 12, scale_bars_fontsize = PyInt 10,
          linewidth = PyInt 1, voltage_color = ''black'', voltage_alpha = PyInt 1,
          current_color = ''gray'', current_alpha = PyInt 1\<rparr>
        \<lparr>scale_bars = False, show_spines = True, shared_axis = False,
          title_fontsize = PyInt 14, label_fontsize = PyInt 12, scale_bars_fontsize = PyInt 10,
          linewidth = PyInt 1, voltage_color = ''black'', voltage_alpha = PyInt 1,
          current_color = ''gray'', current_alpha = PyInt 1\<rparr>
        (\<lambda>a t. \<lparr>bbox_x0 = Finite 0, bbox_y0 = Finite 0, bbox_x1 = Finite 7, bbox_y1 = Finite 2\<rparr>)
        (\<lambda>s. s = ''black'' \<or> s = ''gray'')
        (NdArray [Finite 0, Finite 1]) (NdArray [Finite 5, Finite 6]) None None
        (Some (AxesList [0, 1])) (StyleName ''explore'') empty_canvas
      = (Inl shape_mismatch, empty_canvas)"
proof -
  let ?st = "\<lparr>scale_bars = False, show_spines = True, shared_axis = False,
          title_fontsize = PyInt 14, label_fontsize = PyInt 12, scale_bars_fontsize = PyInt 10,
          linewidth = PyInt 1, voltage_color = ''black'', voltage_alpha = PyInt 1,
          current_color = ''gray'', current_alpha = PyInt 1\<rparr>"
  let ?r = "plot_trace ?st ?st
        (\<lambda>a t. \<lparr>bbox_x0 = Finite 0, bbox_y0 = Finite 0, bbox_x1 = Finite 7, bbox_y1 = Finite 2\<rparr>)
        (\<lambda>s. s = ''black'' \<or> s = ''gray'')
        (NdArray [Finite 0, Finite 1]) (NdArray [Finite 5, Finite 6]) None None
        (Some (AxesList [0, 1])) (StyleName ''explore'') empty_canvas"
  note inst = shape_mismatch_iff_wrong_length [of ?st ?st
      "\<lambda>a t. \<lparr>bbox_x0 = Finite 0, bbox_y0 = Finite 0, bbox_x1 = Finite 7, bbox_y1 = Finite 2\<rparr>"
      "\<lambda>s. s = ''black'' \<or> s = ''gray''" "NdArray [Finite 0, Finite 1]" "NdArray [Finite 5, Finite 6]" None None
      "Some (AxesList [0, 1])" "StyleName ''explore''" empty_canvas]
  have d: "define_style ?st ?st (StyleName ''explore'') = Inr ?st"
    by (simp add: define_style_def)
  have n: "(2::int) \<noteq> get_n_plots 1 0 False" by (simp add: get_n_plots_def)
  have "\<exists>st ax k. define_style ?st ?st (StyleName ''explore'') = Inr st
          \<and> Some (AxesList [0, 1]) = Some ax \<and> py_len ax = Inr k
          \<and> k \<noteq> get_n_plots 1 (if (None :: series option) \<noteq> None then 1 else 0) (shared_axis st)"
    using d n by (intro exI [of _ ?st] exI [of _ "AxesList [0, 1]"] exI [of _ 2]) simp
  then have 1: "fst ?r = Inl shape_mismatch" using inst by blast
  then have 2: "snd ?r = empty_canvas" using inst by blast
  have "?r = (Inl shape_mismatch, empty_canvas)" using 1 2 by (cases ?r) simp
  then show ?thesis using n by simp
qed

text \<open>
  Claim C10. When the style has no scale bars and no current series is given,
  \<open>plot_trace\<close> never returns a figure: every call ends in an exception. The branch
  that labels the axes reaches for the current axis, which is \<^verbatim>\<open>None\<close>, and raises the
  \<open>AttributeError\<close> of \<^verbatim>\<open>None.set_xlabel\<close> whatever the voltage axes and the canvas are.
  So whenever the steps before the branch return (the figure and the axes are there
  and the trace is drawn), the call ends in this \<open>AttributeError\<close>, with the canvas
  as the drawing of the trace left it; when one of them raises, the branch is not
  reached and the call ends there.
\<close>

theorem plot_trace_fails_without_current_and_bars:
  "(define_style E P style = Inr st \<longrightarrow> \<not> scale_bars st \<longrightarrow>
      (\<exists>e. fst (plot_trace E P get_text_bbox is_color_like time_series voltage_series None title
                  axis style c) = Inl e))
   \<and> (\<not> scale_bars st \<longrightarrow>
        bars_or_labels E P get_text_bbox st axis_voltage None c2
          = (Inl (AttributeError ''NoneType'' ''set_xlabel''), c2))
   \<and> (define_style E P style = Inr st \<longrightarrow> \<not> scale_bars st \<longrightarrow>
        figure_and_axes 1 title st axis c = (Inr (fig, ax), c1) \<longrightarrow>
        draw_traces is_color_like st time_series voltage_series None ax None c1
          = (Inr axis_voltage, c2) \<longrightarrow>
        plot_trace E P get_text_bbox is_color_like time_series voltage_series None title axis
            style c
          = (Inl (AttributeError ''NoneType'' ''set_xlabel''), c2))"
  using plot_trace_fails [of E P style st get_text_bbox is_color_like time_series voltage_series
      title axis c]
    labels_without_current [of st E P get_text_bbox axis_voltage]
    plot_trace_fails_at_labels [of E P style st title axis c fig ax c1 is_color_like time_series
      voltage_series axis_voltage c2 get_text_bbox]
  by (simp add: raises_def)

theorem plot_trace_fails_without_current_and_bars_witness:
  "(\<exists>fig ax c1 v c2.
      figure_and_axes 1 None
        \<lparr>scale_bars = False, show_spines = False, shared_axis = False,
          title_fontsize = PyInt 14, label_fontsize = PyInt 12, scale_bars_fontsize = PyInt 10,
          linewidth = PyInt 1, voltage_color = ''black'', voltage_alpha = PyInt 1,
          current_color = ''gray'', current_alpha = PyInt 1\<rparr> None empty_canvas
        = (Inr (fig, ax), c1)
      \<and> draw_traces (\<lambda>s. s = ''black'' \<or> s = ''gray'')
        \<lparr>scale_bars = False, show_spines = False, shared_axis = False,
          title_fontsize = PyInt 14, label_fontsize = PyInt 12, scale_bars_fontsize = PyInt 10,
          linewidth = PyInt 1, voltage_color = ''black'', voltage_alpha = PyInt 1,
          current_color = ''gray'', current_alpha = PyInt 1\<rparr>
        (NdArray [Finite 0, Finite 1]) (NdArray [Finite 5, Finite 6]) None ax None c1
        = (Inr v, c2))
   \<and> fst (plot_trace
        \<lparr>scale_bars = False, show_spines = False, shared_axis = False,
          title_fontsize = PyInt 14, label_fontsize = PyInt 12, scale_bars_fontsize = PyInt 10,
          linewidth = PyInt 1, voltage_color = ''black'', voltage_alpha = PyInt 1,
          current_color = ''gray'', current_alpha = PyInt 1\<rparr>
        \<lparr>scale_bars = False, show_spines = False, shared_axis = False,
          title_fontsize = PyInt 14, label_fontsize = PyInt 12, scale_bars_fontsize = PyInt 10,
          linewidth = PyInt 1, voltage_color = ''black'', voltage_alpha = PyInt 1,
          current_color = ''gray'', current_alpha = PyInt 1\<rparr>
        (\<lambda>a t. \<lparr>bbox_x0 = Finite 0, bbox_y0 = Finite 0, bbox_x1 = Finite 7, bbox_y1 = Finite 2\<rparr>)
        (\<lambda>s. s = ''black'' \<or> s = ''gray'')
        (NdArray [Finite 0, Finite 1]) (NdArray [Finite 5, Finite 6]) None None None
        (StyleName ''paper'') empty_canvas)
      = Inl (AttributeError ''NoneType'' ''set_xlabel'')"
proof -
  let ?st = "\<lparr>scale_bars = False, show_spines = False, shared_axis = False,
          title_fontsize = PyInt 14, label_fontsize = PyInt 12, scale_bars_fontsize = PyInt 10,
          linewidth = PyInt 1, voltage_color = ''black'', voltage_alpha = PyInt 1,
          current_color = ''gray'', current_alpha = PyInt 1\<rparr>"
  let ?K = "\<lambda>s. s = ''black'' \<or> s = ''gray''"
  let ?g = "\<lambda>a t. \<lparr>bbox_x0 = Finite 0, bbox_y0 = Finite 0, bbox_x1 = Finite 7, bbox_y1 = Finite 2\<rparr>"
  let ?ts = "NdArray [Finite 0, Finite 1]"
  let ?vs = "NdArray [Finite 5, Finite 6]"
  let ?fs = "(Finite (3602879701896397 / 562949953421312),
              Finite (5404319552844595 / 1125899906842624))"
  have d: "define_style ?st ?st (StyleName ''paper'') = Inr ?st"
    by (simp add: define_style_def)
  have s: "\<not> scale_bars ?st" by simp
  have h: "round_double (5404319552844595 / 1125899906842624)
      = Finite (5404319552844595 / 1125899906842624)"
    using round_double_exact [of 5404319552844595 "- 50"] by (simp add: pow2_eval)
  have f: "compute_figsize 1 None ?st = Inr ?fs"
    by (simp add: compute_figsize_def mul_num_def bind_result_def float_lit_def lit_6_4 lit_4_8 h)
  define c1 where "c1 = snd (subplots 1 ?fs empty_canvas)"
  have sp: "subplots 1 ?fs empty_canvas = (Inr (0, AxesRef 0), c1)"
    by (simp add: c1_def subplots_def valid_figsize_def Let_def empty_canvas_def)
  have fa: "figure_and_axes 1 None ?st None empty_canvas = (Inr (0, AxesRef 0), c1)"
    by (simp add: figure_and_axes_def f sp)
  have sh: "shared_with c1 0 = []"
    by (simp add: c1_def subplots_def valid_figsize_def Let_def empty_canvas_def shared_with_def)
  obtain c2 where dt: "draw_traces ?K ?st ?ts ?vs None (AxesRef 0) None c1 = (Inr 0, c2)"
    using draw_traces_returns [where K = ?K and st = ?st and ts = ?ts and vs = ?vs and c = c1
        and v = 0 and w = "Finite 1" and ?t0.0 = "Finite 0" and ?t1.0 = "Finite 1"
        and lo = "Finite 5" and hi = "Finite 6"] sh
    by (auto simp: py_le_def series_index_def list_index_def np_reduce_def)
  have "plot_trace ?st ?st ?g ?K ?ts ?vs None None None (StyleName ''paper'') empty_canvas
      = (Inl (AttributeError ''NoneType'' ''set_xlabel''), c2)"
    using plot_trace_fails_without_current_and_bars [where E = ?st and P = ?st
        and style = "StyleName ''paper''" and st = ?st and title = None and axis = None
        and c = empty_canvas and fig = 0 and ax = "AxesRef 0" and ?c1.0 = c1
        and is_color_like = ?K and time_series = ?ts and voltage_series = ?vs
        and axis_voltage = 0 and ?c2.0 = c2 and get_text_bbox = ?g] d s fa dt
    by blast
  then show ?thesis using fa dt by auto
qed

end
